(* ===== verification/Prelude.thy ===== *)
theory Prelude
  imports Main "HOL-Library.Char_ord" "HOL-Library.List_Lexorder" "HOL-Library.Multiset"
begin

text \<open>
  Shared vocabulary of the development: the names of the types that stand for SQLite row
  ids and clock readings, the named collections of evaluation rules that the component
  theories fill, and the generic lemmas on lists that the table and handler proofs share.
  Strings are \<^typ>\<open>string\<close>; a character is one UTF-16 code unit of the JavaScript
  string, restricted to the Latin-1 range that \<^typ>\<open>char\<close> covers, so JavaScript's
  \<open>.length\<close> is \<^const>\<open>length\<close>. The order on strings is \<open>List_Lexorder\<close>'s
  lexicographic order over \<open>Char_ord\<close>, the order of SQLite's BINARY collation.
\<close>

type_synonym rowid = int
type_synonym unix_seconds = int

named_theorems act_simps "evaluation rules of the handler action combinators"
named_theorems table_simps "characteristic equations of the SQLite table operations"

subsection \<open>Lists\<close>

lemma sorted_wrt_less_snoc [simp]:
  "sorted_wrt (<) (xs @ [x]) \<longleftrightarrow> sorted_wrt (<) xs \<and> (\<forall>y\<in>set xs. y < (x::'a::order))"
  by (auto simp: sorted_wrt_append)

lemma find_map_key_None:
  "(\<forall>r\<in>set rs. f r \<noteq> k) \<Longrightarrow> find (\<lambda>r. f r = k) rs = None"
  by (simp add: find_None_iff)

lemma find_key_Some:
  "find (\<lambda>r. f r = k) rs = Some r \<Longrightarrow> r \<in> set rs \<and> f r = k"
  by (auto simp: find_Some_iff)

lemma find_key_unique:
  assumes "distinct (map f rs)" and "r \<in> set rs"
  shows "find (\<lambda>x. f x = f r) rs = Some r"
  using assms by (induction rs) auto

lemma find_append:
  "find P (xs @ ys) = (case find P xs of None \<Rightarrow> find P ys | Some x \<Rightarrow> Some x)"
  by (induction xs) auto

lemma map_filter_key_eq:
  "(\<forall>r\<in>set rs. f r \<noteq> k) \<Longrightarrow> filter (\<lambda>r. f r \<noteq> k) rs = rs"
  by (simp add: filter_id_conv)

lemma append_less_append_same_length:
  "length a = length b \<Longrightarrow> (a @ x < b @ y) \<longleftrightarrow> a < b \<or> a = b \<and> (x :: 'a::linorder list) < y"
proof (induction a arbitrary: b)
  case (Cons c a)
  then obtain e b' where "b = e # b'" and "length a = length b'" by (cases b) auto
  with Cons.IH show ?case by auto
qed simp

lemma mixed_radix_less:
  fixes a1 a2 b1 b2 B :: int
  assumes "0 \<le> b1" "b1 < B" "0 \<le> b2" "b2 < B"
  shows "a1 * B + b1 < a2 * B + b2 \<longleftrightarrow> a1 < a2 \<or> a1 = a2 \<and> b1 < b2"
proof -
  have step: "a * B + b < a' * B + b'" if "a < a'" "0 \<le> b'" "b < B" for a a' b b'
  proof -
    have "(a + 1) * B \<le> a' * B" using that assms by (intro mult_right_mono) simp_all
    then show ?thesis using that by (simp add: algebra_simps)
  qed
  show ?thesis
    using step [of a1 a2 b2 b1] step [of a2 a1 b1 b2] assms by (cases a1 a2 rule: linorder_cases) auto
qed

end
