(* ===== verification/JsRuntime.thy ===== *)
theory JsRuntime
  imports Prelude
begin

text \<open>
  The pieces of JavaScript and Node.js semantics that the handlers of
  \<open>src/server.js\<close> rely on: the exceptions a handler can throw, strict equality on the
  primitive values the handlers compare, \<open>String.prototype.trim\<close>, the username regular
  expression \<open>/^[a-zA-Z0-9]+$/\<close>, the body fields that \<open>express.urlencoded\<close> and
  \<open>express.json\<close> produce, and the decimal printing of integers used when a template
  literal embeds a row id.
\<close>

subsection \<open>Exceptions\<close>

text \<open>
  Every exception a handler of the program, or Express while it routes a request, can
  raise. An exception thrown inside an Express route handler is caught by Express and
  passed to its final handler.
\<close>

datatype exc =
    TypeError string
  | ReferenceError string
  | ErrHttpHeadersSent
  | SqliteConstraintUnique string
  | SqliteFull
  | JwtSignError string
  | RangeError string
  | URIError string

subsection \<open>Primitive values and strict equality\<close>

text \<open>
  The values that reach a \<open>===\<close> or \<open>!==\<close> in the program: the INTEGER column
  \<open>post.authorid\<close> read by better-sqlite3 is a number or \<open>null\<close>, and a property
  of \<open>req\<close> that no middleware assigns is \<open>undefined\<close>.
\<close>

datatype jsval = JUndefined | JNull | JNumber int | JString string

fun js_strict_eq :: "jsval \<Rightarrow> jsval \<Rightarrow> bool" where
  "js_strict_eq JUndefined JUndefined = True"
| "js_strict_eq JNull JNull = True"
| "js_strict_eq (JNumber a) (JNumber b) = (a = b)"
| "js_strict_eq (JString s) (JString t) = (s = t)"
| "js_strict_eq _ _ = False"

subsection \<open>Strings\<close>

text \<open>
  \<open>String.prototype.trim\<close> removes the ECMAScript WhiteSpace and LineTerminator code
  points from both ends. Within the code units a \<^typ>\<open>char\<close> covers these are TAB, LF,
  VT, FF, CR, SPACE and NO-BREAK SPACE (U+00A0); U+0085 is not among them.
\<close>

definition js_whitespace :: "char \<Rightarrow> bool" where
  "js_whitespace c \<longleftrightarrow> of_char c \<in> {9, 10, 11, 12, 13, 32, 160 :: nat}"

definition js_trim :: "string \<Rightarrow> string" where
  "js_trim s = rev (dropWhile js_whitespace (rev (dropWhile js_whitespace s)))"

text \<open>
  A body field: \<open>express.urlencoded({extended: false})\<close> gives a string, or an array
  for a repeated key; \<open>express.json()\<close> gives any JSON value. Only a string has a
  \<open>trim\<close> method; a missing field is \<open>undefined\<close>.
\<close>

datatype field = FStr string | FNonString

definition field_string :: "field option \<Rightarrow> exc + string" where
  "field_string f =
     (case f of
        Some (FStr s) \<Rightarrow> Inr s
      | Some FNonString \<Rightarrow> Inl (TypeError ''trim is not a function'')
      | None \<Rightarrow> Inl (TypeError ''Cannot read properties of undefined (reading trim)''))"

text \<open>\<open>/^[a-zA-Z0-9]+$/.test(s)\<close>: one or more ASCII letters or digits, nothing else.\<close>

definition ascii_alnum :: "char \<Rightarrow> bool" where
  "ascii_alnum c \<longleftrightarrow>
     (let n = of_char c :: nat in
        (48 \<le> n \<and> n \<le> 57) \<or> (65 \<le> n \<and> n \<le> 90) \<or> (97 \<le> n \<and> n \<le> 122))"

definition alnum_regex_test :: "string \<Rightarrow> bool" where
  "alnum_regex_test s \<longleftrightarrow> s \<noteq> [] \<and> list_all ascii_alnum s"

subsection \<open>Decimal printing of integers\<close>

text \<open>\<open>String(n)\<close> for an integral number \<open>n\<close> below \<open>10^21\<close>: its decimal digits.\<close>

definition digit_char :: "nat \<Rightarrow> char" where
  "digit_char d = char_of (48 + d)"

fun nat_to_decimal :: "nat \<Rightarrow> string" where
  "nat_to_decimal n =
     (if n < 10 then [digit_char n] else nat_to_decimal (n div 10) @ [digit_char (n mod 10)])"

declare nat_to_decimal.simps [simp del]

definition js_int_to_string :: "int \<Rightarrow> string" where
  "js_int_to_string i =
     (if i < 0 then CHR ''-'' # nat_to_decimal (nat (- i)) else nat_to_decimal (nat i))"

subsection \<open>Facts\<close>

lemma js_strict_eq_undefined [simp]:
  "js_strict_eq v JUndefined \<longleftrightarrow> v = JUndefined"
  by (cases v) simp_all

lemma of_char_digit_char: "d < 10 \<Longrightarrow> of_char (digit_char d) = 48 + d"
  by (simp add: digit_char_def)

lemma digit_char_less_iff: "i < 10 \<Longrightarrow> j < 10 \<Longrightarrow> digit_char i < digit_char j \<longleftrightarrow> i < j"
  by (simp add: less_char_def of_char_digit_char)

end
