(* ===== verification/Bcrypt.thy ===== *)
theory Bcrypt
  imports JsRuntime
begin

text \<open>
  The password hasher: \<open>bcrypt.genSaltSync(10)\<close>, \<open>bcrypt.hashSync(password, salt)\<close>
  and \<open>bcrypt.compareSync(password, hash)\<close> of the node \<open>bcrypt\<close> package, as
  \<open>src/server.js\<close> calls them in its register and login handlers. The library is not
  part of the repository; its contract (spec section 4.2) is modelled symbolically: a hash
  is the salt together with the key bytes bcrypt consumes, so two passwords hash alike
  under one salt exactly when those key bytes agree. bcrypt consumes at most 72 bytes of
  the UTF-8 encoding of the password; that truncation is part of the model.
\<close>

text \<open>UTF-8 encoding of code units below 256: one byte below 128, two bytes above.\<close>

fun utf8_encode :: "string \<Rightarrow> nat list" where
  "utf8_encode [] = []"
| "utf8_encode (c # cs) =
     (let n = of_char c :: nat in
        if n < 128 then n # utf8_encode cs
        else (192 + n div 64) # (128 + n mod 64) # utf8_encode cs)"

definition bcrypt_max_key_bytes :: nat where
  "bcrypt_max_key_bytes = 72"

definition bcrypt_key :: "string \<Rightarrow> nat list" where
  "bcrypt_key pw = take bcrypt_max_key_bytes (utf8_encode pw)"

text \<open>The salt string (\<open>$2b$10$\<close> and 22 characters) and the symbolic digest.\<close>

datatype bcrypt_hash = Bcrypt string "nat list"

definition bcrypt_hashSync :: "string \<Rightarrow> string \<Rightarrow> bcrypt_hash" where
  "bcrypt_hashSync pw salt = Bcrypt salt (bcrypt_key pw)"

text \<open>\<open>compareSync\<close> rehashes the candidate under the salt stored in the hash.\<close>

definition bcrypt_compareSync :: "string \<Rightarrow> bcrypt_hash \<Rightarrow> bool" where
  "bcrypt_compareSync pw h = (case h of Bcrypt salt _ \<Rightarrow> bcrypt_hashSync pw salt = h)"

lemma bcrypt_compare_hash_iff:
  "bcrypt_compareSync pw (bcrypt_hashSync pw' salt) \<longleftrightarrow> bcrypt_key pw = bcrypt_key pw'"
  by (simp add: bcrypt_compareSync_def bcrypt_hashSync_def)

lemma utf8_encode_append [simp]:
  "utf8_encode (xs @ ys) = utf8_encode xs @ utf8_encode ys"
  by (induction xs) (simp_all add: Let_def)

lemma length_utf8_encode_ge: "length cs \<le> length (utf8_encode cs)"
  by (induction cs) (simp_all add: Let_def)

lemma bcrypt_compare_key_cong:
  "bcrypt_key pw = bcrypt_key pw' \<Longrightarrow> bcrypt_compareSync pw h = bcrypt_compareSync pw' h"
  by (simp add: bcrypt_compareSync_def bcrypt_hashSync_def split: bcrypt_hash.splits)

end
