(* ===== verification/Sqlite.thy ===== *)
theory Sqlite
  imports Bcrypt
begin

text \<open>
  The relational store of \<open>src/server.js\<close> (better-sqlite3 over the file
  \<open>ourApp.db\<close>): the two tables that \<open>createTables\<close> declares, SQLite's
  AUTOINCREMENT row ids with their 64-bit bound, the type affinity of the declared
  column types, and one definition per SQL statement the handlers prepare. A table is
  its rows in row-id order (the order of SQLite's b-tree and of an unordered scan) and
  its \<open>sqlite_sequence\<close> entry.
\<close>

subsection \<open>Storage classes and type affinity\<close>

text \<open>
  The storage classes that values of this program take. A column declared \<open>STRING\<close>
  has NUMERIC affinity (its type name contains none of INT, CHAR, CLOB, TEXT, BLOB, REAL,
  FLOA, DOUB): text that \<open>sqlite3AtoF\<close> reads as a number is stored as an INTEGER or
  a REAL (\<open>applyNumericAffinity\<close>). The same conversion is applied to a text operand
  compared with a NUMERIC or INTEGER column. A REAL is kept as its exact decimal value
  \<open>m * 10 ^ e\<close>, normalised so that \<open>m\<close> has no trailing zero; equal values then have
  equal representations, as SQLite's comparison of numbers requires. A number too large
  for a double is the REAL \<open>+Inf\<close> or \<open>-Inf\<close> (\<open>SInf\<close> with its sign).
\<close>

datatype sqlval = SInt int | SReal int int | SInf bool | SText string

definition max_rowid :: int where
  "max_rowid = 9223372036854775807"

definition min_int64 :: int where
  "min_int64 = - 9223372036854775808"

definition sqlite_space :: "char \<Rightarrow> bool" where
  "sqlite_space c \<longleftrightarrow> of_char c \<in> {9, 10, 11, 12, 13, 32 :: nat}"

definition is_digit :: "char \<Rightarrow> bool" where
  "is_digit c \<longleftrightarrow> 48 \<le> (of_char c :: nat) \<and> (of_char c :: nat) \<le> 57"

definition digits_value :: "string \<Rightarrow> nat" where
  "digits_value ds = foldl (\<lambda>a c. 10 * a + (of_char c - 48)) 0 ds"

text \<open>The same reading of digits, accumulated as an integer.\<close>

definition digits_int :: "string \<Rightarrow> int" where
  "digits_int ds = foldl (\<lambda>a c. 10 * a + (of_char c - 48)) 0 ds"

text \<open>
  \<open>sqlite3AtoF\<close>: leading and trailing spaces are skipped; then an optional sign, the
  digits of the integer part, optionally a point and the digits of the fraction, and
  optionally \<open>e\<close> or \<open>E\<close> with an optional sign and at least one digit. At least one
  digit of the significand is required and nothing else may follow. The result is a pure
  integer (\<open>eType = 1\<close>) or a number with a point or an exponent, by its exact value.
\<close>

datatype atof = AtofInt int | AtofReal int int

definition sqlite_trim :: "string \<Rightarrow> string" where
  "sqlite_trim s = rev (dropWhile sqlite_space (rev (dropWhile sqlite_space s)))"

definition sign_split :: "string \<Rightarrow> int \<times> string" where
  "sign_split s = (case s of
       c # cs \<Rightarrow> if c = CHR ''-'' then (-1, cs) else if c = CHR ''+'' then (1, cs) else (1, s)
     | [] \<Rightarrow> (1, []))"

definition fraction_part :: "string \<Rightarrow> bool \<times> string \<times> string" where
  "fraction_part r = (case r of
       c # cs \<Rightarrow> if c = CHR ''.'' then (True, takeWhile is_digit cs, dropWhile is_digit cs)
                else (False, [], r)
     | [] \<Rightarrow> (False, [], []))"

definition exponent_part :: "string \<Rightarrow> int option" where
  "exponent_part r = (case sign_split r of (sg, ds) \<Rightarrow>
       if ds \<noteq> [] \<and> list_all is_digit ds then Some (sg * digits_int ds) else None)"

definition sqlite_atof :: "string \<Rightarrow> atof option" where
  "sqlite_atof s =
     (case sign_split (sqlite_trim s) of (sg, r) \<Rightarrow>
      case fraction_part (dropWhile is_digit r) of (dot, fp, rest) \<Rightarrow>
       (let ds = takeWhile is_digit r @ fp; m = sg * digits_int ds in
        if ds = [] then None
        else case rest of
          [] \<Rightarrow> Some (if dot then AtofReal m (- int (length fp)) else AtofInt m)
        | c # cs \<Rightarrow>
            if c = CHR ''e'' \<or> c = CHR ''E''
            then map_option (\<lambda>x. AtofReal m (x - int (length fp))) (exponent_part cs)
            else None))"

text \<open>The decimal \<open>m * 10 ^ e\<close> without trailing zeros in \<open>m\<close>; zero is \<open>(0, 0)\<close>.\<close>

function dec_normal :: "int \<Rightarrow> int \<Rightarrow> int \<times> int" where
  "dec_normal m e =
     (if m = 0 then (0, 0) else if m mod 10 = 0 then dec_normal (m div 10) (e + 1) else (m, e))"
  by pat_completeness auto
termination
  by (relation "measure (\<lambda>(m, e). nat \<bar>m\<bar>)") auto

text \<open>
  The rounding of a decimal to a double at the ends of its range: from
  \<open>2 ^ 1024 - 2 ^ 970\<close> (half an ulp above the largest double) a value rounds to
  infinity, and up to \<open>2 ^ -1075\<close> (half the least subnormal) it rounds to zero.
\<close>

definition double_overflow :: "int \<Rightarrow> int \<Rightarrow> bool" where
  "double_overflow m e =
     (if 0 \<le> e then 2 ^ 1024 - 2 ^ 970 \<le> \<bar>m\<bar> * 10 ^ nat e
      else (2 ^ 1024 - 2 ^ 970) * 10 ^ nat (- e) \<le> \<bar>m\<bar>)"

definition double_underflow :: "int \<Rightarrow> int \<Rightarrow> bool" where
  "double_underflow m e = (e < 0 \<and> \<bar>m\<bar> * 2 ^ 1075 \<le> 10 ^ nat (- e))"

text \<open>
  The REAL path of \<open>applyNumericAffinity\<close>: the number becomes a double (infinite or
  zero at the ends of the range), and a double whose value is an integer strictly between
  the 64-bit bounds becomes an INTEGER (\<open>sqlite3VdbeIntegerAffinity\<close>).
\<close>

definition real_affinity :: "int \<Rightarrow> int \<Rightarrow> sqlval" where
  "real_affinity m e =
     (case dec_normal m e of (m', e') \<Rightarrow>
        if double_overflow m' e' then SInf (0 < m')
        else if double_underflow m' e' then SInt 0
        else if 0 \<le> e' \<and> min_int64 < m' * 10 ^ nat e' \<and> m' * 10 ^ nat e' < max_rowid
        then SInt (m' * 10 ^ nat e') else SReal m' e')"

text \<open>
  \<open>applyNumericAffinity\<close>: a pure integer within 64 bits is an INTEGER
  (\<open>alsoAnInt\<close>, by \<open>sqlite3Atoi64\<close>); any other number goes through the REAL
  path; text that is not a number stays TEXT.
\<close>

definition numeric_affinity :: "string \<Rightarrow> sqlval" where
  "numeric_affinity s =
     (case sqlite_atof s of
        None \<Rightarrow> SText s
      | Some (AtofInt n) \<Rightarrow> if min_int64 \<le> n \<and> n \<le> max_rowid then SInt n else real_affinity n 0
      | Some (AtofReal m e) \<Rightarrow> real_affinity m e)"

text \<open>
  The values a NUMERIC-affinity column can hold after storing text: a 64-bit integer, a
  normalised finite REAL that is not an integer strictly within 64 bits, an infinite
  REAL, or text that is not a number.
\<close>

definition affinity_normal :: "sqlval \<Rightarrow> bool" where
  "affinity_normal v =
     (case v of
        SInt n \<Rightarrow> min_int64 \<le> n \<and> n \<le> max_rowid
      | SReal m e \<Rightarrow> m mod 10 \<noteq> 0 \<and> \<not> double_overflow m e \<and> \<not> double_underflow m e
          \<and> \<not> (0 \<le> e \<and> min_int64 < m * 10 ^ nat e \<and> m * 10 ^ nat e < max_rowid)
      | SInf pos \<Rightarrow> True
      | SText s \<Rightarrow> sqlite_atof s = None)"

subsection \<open>Tables with AUTOINCREMENT row ids\<close>

record 'r table =
  rows :: "'r list"
  seq :: int

definition empty_table :: "'r table" where
  "empty_table = \<lparr>rows = [], seq = 0\<rparr>"

text \<open>
  AUTOINCREMENT: one more than the largest row id the table ever held, that is the
  larger of the \<open>sqlite_sequence\<close> entry and the largest present id; SQLITE_FULL once
  that is the largest 64-bit integer.
\<close>

definition next_rowid :: "('r \<Rightarrow> rowid) \<Rightarrow> 'r table \<Rightarrow> exc + rowid" where
  "next_rowid rid t =
     (let m = fold max (map rid (rows t)) (seq t) in
      if max_rowid \<le> m then Inl SqliteFull else Inr (m + 1))"

definition tbl_append :: "rowid \<Rightarrow> 'r \<Rightarrow> 'r table \<Rightarrow> 'r table" where
  "tbl_append n r t = t\<lparr>rows := rows t @ [r], seq := n\<rparr>"

definition tbl_lookup :: "('r \<Rightarrow> rowid) \<Rightarrow> rowid \<Rightarrow> 'r table \<Rightarrow> 'r option" where
  "tbl_lookup rid n t = find (\<lambda>r. rid r = n) (rows t)"

definition tbl_delete :: "('r \<Rightarrow> rowid) \<Rightarrow> rowid \<Rightarrow> 'r table \<Rightarrow> 'r table" where
  "tbl_delete rid n t = t\<lparr>rows := filter (\<lambda>r. rid r \<noteq> n) (rows t)\<rparr>"

definition tbl_update :: "('r \<Rightarrow> rowid) \<Rightarrow> rowid \<Rightarrow> ('r \<Rightarrow> 'r) \<Rightarrow> 'r table \<Rightarrow> 'r table" where
  "tbl_update rid n f t = t\<lparr>rows := map (\<lambda>r. if rid r = n then f r else r) (rows t)\<rparr>"

text \<open>\<open>ORDER BY k DESC\<close>: descending in the key, rows of equal key in scan order.\<close>

definition order_by_desc :: "('r \<Rightarrow> 'k::linorder) \<Rightarrow> 'r list \<Rightarrow> 'r list" where
  "order_by_desc k xs = rev (sort_key k (rev xs))"

subsection \<open>Table invariant and the map a table implements\<close>

text \<open>
  A table is well formed when its row ids ascend strictly in scan order, are positive,
  never exceed the \<open>sqlite_sequence\<close> entry, and that entry lies in the 64-bit range.
  The abstraction of a table is the finite map from row id to row.
\<close>

definition table_wf :: "('r \<Rightarrow> rowid) \<Rightarrow> 'r table \<Rightarrow> bool" where
  "table_wf rid t \<longleftrightarrow>
     sorted_wrt (<) (map rid (rows t)) \<and> (\<forall>r\<in>set (rows t). 0 < rid r \<and> rid r \<le> seq t)
     \<and> 0 \<le> seq t \<and> seq t \<le> max_rowid"

definition tbl_map :: "('r \<Rightarrow> rowid) \<Rightarrow> 'r table \<Rightarrow> rowid \<rightharpoonup> 'r" where
  "tbl_map rid t = map_of (map (\<lambda>r. (rid r, r)) (rows t))"

lemma fold_max_bounded: "\<forall>x\<in>set xs. x \<le> a \<Longrightarrow> fold max xs a = (a::int)"
  by (induction xs arbitrary: a) (auto simp: max_def)

lemma next_rowid_wf [table_simps]:
  "table_wf rid t \<Longrightarrow>
   next_rowid rid t = (if max_rowid \<le> seq t then Inl SqliteFull else Inr (seq t + 1))"
  by (simp add: next_rowid_def table_wf_def fold_max_bounded)

lemma empty_table_sel [simp]: "rows empty_table = []" "seq empty_table = 0"
  by (simp_all add: empty_table_def)

lemma table_wf_empty [simp]: "table_wf rid empty_table"
  by (simp add: table_wf_def empty_table_def max_rowid_def)

lemma table_wf_append:
  assumes "table_wf rid t" and "next_rowid rid t = Inr n" and "rid r = n"
  shows "table_wf rid (tbl_append n r t)"
proof -
  from assms(1,2) have n: "n = seq t + 1" and lt: "seq t < max_rowid"
    by (auto simp: next_rowid_wf split: if_splits)
  with assms show ?thesis
    by (fastforce simp: table_wf_def tbl_append_def)
qed

lemma table_wf_delete: "table_wf rid t \<Longrightarrow> table_wf rid (tbl_delete rid n t)"
  by (auto simp: table_wf_def tbl_delete_def sorted_wrt_map intro: sorted_wrt_filter)

lemma table_wf_update:
  assumes "table_wf rid t" and keep: "\<And>r. rid (f r) = rid r"
  shows "table_wf rid (tbl_update rid n f t)"
proof -
  let ?g = "\<lambda>r. if rid r = n then f r else r"
  have ids: "map rid (map ?g (rows t)) = map rid (rows t)"
    by (induction "rows t") (simp_all add: keep)
  have b: "\<forall>r\<in>set (map ?g (rows t)). 0 < rid r \<and> rid r \<le> seq t"
    using assms(1) by (auto simp: table_wf_def keep)
  have r: "rows (tbl_update rid n f t) = map ?g (rows t)"
    and s: "seq (tbl_update rid n f t) = seq t"
    by (simp_all add: tbl_update_def)
  show ?thesis
    using assms(1) b unfolding table_wf_def r s ids by blast
qed

lemma table_wf_ids_distinct: "table_wf rid t \<Longrightarrow> distinct (map rid (rows t))"
  by (simp add: table_wf_def strict_sorted_iff)

lemma table_wf_rowid_bounds:
  "table_wf rid t \<Longrightarrow> r \<in> set (rows t) \<Longrightarrow> 0 < rid r \<and> rid r \<le> max_rowid"
  by (fastforce simp: table_wf_def)

lemma tbl_lookup_map [table_simps]: "tbl_lookup rid n t = tbl_map rid t n"
proof -
  have "find (\<lambda>r. rid r = n) rs = map_of (map (\<lambda>r. (rid r, r)) rs) n" for rs
    by (induction rs) auto
  then show ?thesis by (simp add: tbl_lookup_def tbl_map_def)
qed

lemma map_of_snoc_fresh:
  "k \<notin> set (map fst xs) \<Longrightarrow> map_of (xs @ [(k, v)]) = (map_of xs)(k \<mapsto> v)"
  by (induction xs) (auto simp: fun_eq_iff)

lemma tbl_map_append:
  assumes "\<forall>r'\<in>set (rows t). rid r' \<noteq> n" and "rid r = n"
  shows "tbl_map rid (tbl_append n r t) = (tbl_map rid t)(n \<mapsto> r)"
proof -
  from assms(1) have "n \<notin> set (map fst (map (\<lambda>r. (rid r, r)) (rows t)))"
    by auto
  then have "map_of (map (\<lambda>r. (rid r, r)) (rows t) @ [(n, r)])
             = (map_of (map (\<lambda>r. (rid r, r)) (rows t)))(n \<mapsto> r)"
    by (rule map_of_snoc_fresh)
  with assms(2) show ?thesis
    by (simp add: tbl_map_def tbl_append_def del: map_of_append)
qed

lemma tbl_map_delete [table_simps]:
  "tbl_map rid (tbl_delete rid n t) = (tbl_map rid t)(n := None)"
proof -
  have "map_of (map (\<lambda>r. (rid r, r)) (filter (\<lambda>r. rid r \<noteq> n) rs))
        = (map_of (map (\<lambda>r. (rid r, r)) rs))(n := None)" for rs
    by (induction rs) (auto simp: fun_eq_iff)
  then show ?thesis by (simp add: tbl_map_def tbl_delete_def)
qed

lemma tbl_map_update [table_simps]:
  "(\<And>r. rid (f r) = rid r) \<Longrightarrow>
   tbl_map rid (tbl_update rid n f t) = (tbl_map rid t)(n := map_option f (tbl_map rid t n))"
proof -
  assume keep: "\<And>r. rid (f r) = rid r"
  have "map_of (map (\<lambda>r. (rid r, r)) (map (\<lambda>r. if rid r = n then f r else r) rs))
        = (map_of (map (\<lambda>r. (rid r, r)) rs))(n := map_option f (map_of (map (\<lambda>r. (rid r, r)) rs) n))"
    for rs
    by (induction rs) (auto simp: fun_eq_iff keep)
  then show ?thesis by (simp add: tbl_map_def tbl_update_def)
qed

lemma dom_tbl_map: "dom (tbl_map rid t) = rid ` set (rows t)"
  by (force simp: tbl_map_def dom_map_of_conv_image_fst)

lemma dec_normal_normal:
  "dec_normal m e = (m', e') \<Longrightarrow> (m' = 0 \<longrightarrow> e' = 0) \<and> (m' \<noteq> 0 \<longrightarrow> m' mod 10 \<noteq> 0)"
proof (induction m e rule: dec_normal.induct)
  case (1 m e)
  consider "m = 0" | "m \<noteq> 0" "m mod 10 = 0" | "m \<noteq> 0" "m mod 10 \<noteq> 0" by blast
  then show ?case
  proof cases
    case 2
    then have "dec_normal (m div 10) (e + 1) = (m', e')"
      using "1.prems" by (subst (asm) dec_normal.simps) simp
    then show ?thesis using "1.IH" 2 by simp
  qed (use "1.prems" in \<open>subst (asm) dec_normal.simps, simp\<close>)+
qed

lemma affinity_normal_real_affinity: "affinity_normal (real_affinity m e)"
proof -
  obtain m' e' where d: "dec_normal m e = (m', e')" by fastforce
  then have "m' = 0 \<longrightarrow> e' = 0" and "m' \<noteq> 0 \<longrightarrow> m' mod 10 \<noteq> 0"
    using dec_normal_normal [OF d] by simp_all
  then show ?thesis
    using d by (auto simp: real_affinity_def affinity_normal_def min_int64_def max_rowid_def)
qed

lemma affinity_normal_numeric_affinity [simp]: "affinity_normal (numeric_affinity s)"
  by (auto simp: numeric_affinity_def affinity_normal_real_affinity split: option.split atof.split)
    (simp_all add: affinity_normal_def)

subsection \<open>Integer literals printed by JavaScript\<close>

text \<open>
  A row id printed by a template literal and read back through the NUMERIC affinity of
  a comparison is the same integer, over the whole 64-bit range.
\<close>

lemma is_digit_digit_char: "d < 10 \<Longrightarrow> is_digit (digit_char d)"
  by (simp add: is_digit_def of_char_digit_char)

lemma nat_to_decimal_digits: "list_all is_digit (nat_to_decimal n)"
proof (induction n rule: nat_to_decimal.induct)
  case (1 n)
  then show ?case
    by (subst nat_to_decimal.simps) (simp add: is_digit_digit_char)
qed

lemma nat_to_decimal_ne: "nat_to_decimal n \<noteq> []"
  by (subst nat_to_decimal.simps) simp

lemma digits_value_snoc: "digits_value (ds @ [c]) = 10 * digits_value ds + (of_char c - 48)"
  by (simp add: digits_value_def)

lemma digits_value_nat_to_decimal: "digits_value (nat_to_decimal n) = n"
proof (induction n rule: nat_to_decimal.induct)
  case (1 n)
  show ?case
  proof (cases "n < 10")
    case True
    then show ?thesis
      by (subst nat_to_decimal.simps) (simp add: digits_value_def of_char_digit_char)
  next
    case False
    then have "digits_value (nat_to_decimal n)
               = 10 * digits_value (nat_to_decimal (n div 10)) + n mod 10"
      by (subst nat_to_decimal.simps) (simp add: digits_value_snoc of_char_digit_char)
    with "1.IH" False show ?thesis by simp
  qed
qed

lemma digit_not_space: "is_digit c \<Longrightarrow> \<not> sqlite_space c"
  by (auto simp: is_digit_def sqlite_space_def)

lemma digit_not_sign: "is_digit c \<Longrightarrow> c \<noteq> CHR ''-'' \<and> c \<noteq> CHR ''+''"
  by (auto simp: is_digit_def)

lemma digits_no_space_ends:
  assumes "list_all is_digit ds" and "ds \<noteq> []"
  shows "dropWhile sqlite_space (ds @ q) = ds @ q"
    and "dropWhile sqlite_space (rev ds @ q) = rev ds @ q"
proof -
  obtain c cs where ds: "ds = c # cs" using assms(2) by (cases ds) auto
  obtain d es where rds: "ds = es @ [d]" using assms(2) by (cases ds rule: rev_cases) auto
  have "is_digit c" using assms(1) ds by simp
  with ds show "dropWhile sqlite_space (ds @ q) = ds @ q"
    by (simp add: digit_not_space)
  have "is_digit d" using assms(1) rds by simp
  with rds show "dropWhile sqlite_space (rev ds @ q) = rev ds @ q"
    by (simp add: digit_not_space)
qed

lemma digits_int_value:
  assumes "list_all is_digit ds"
  shows "digits_int ds = int (digits_value ds)"
proof -
  have "foldl (\<lambda>a c. 10 * a + (of_char c - 48)) (int n) ds
        = int (foldl (\<lambda>a c. 10 * a + (of_char c - 48)) n ds)" for n
    using assms
  proof (induction ds arbitrary: n)
    case (Cons c cs)
    have ci: "(of_char c :: int) = int (of_char c)" by (simp only: of_nat_of_char)
    have "48 \<le> (of_char c :: nat)" using Cons.prems by (simp add: is_digit_def)
    then have "10 * int n + (int (of_char c) - 48) = int (10 * n + (of_char c - 48))" by linarith
    then have eq: "10 * int n + ((of_char c :: int) - 48) = int (10 * n + (of_char c - 48))"
      by (simp only: ci)
    have "list_all is_digit cs" using Cons.prems by simp
    then show ?case by (simp only: foldl_Cons eq Cons.IH)
  qed simp
  from this [of 0] show ?thesis by (simp add: digits_int_def digits_value_def)
qed

lemma takeWhile_dropWhile_all:
  "list_all P ds \<Longrightarrow> takeWhile P ds = ds \<and> dropWhile P ds = []"
  by (induction ds) auto

lemma sqlite_atof_digits:
  assumes "list_all is_digit ds" and "ds \<noteq> []"
  shows "sqlite_atof ds = Some (AtofInt (int (digits_value ds)))"
    and "sqlite_atof (CHR ''-'' # ds) = Some (AtofInt (- int (digits_value ds)))"
proof -
  have t: "sqlite_trim ds = ds" and tn: "sqlite_trim (CHR ''-'' # ds) = CHR ''-'' # ds"
    using digits_no_space_ends [OF assms, of "[]"] digits_no_space_ends(2) [OF assms, of "[CHR ''-'']"]
    by (simp_all add: sqlite_trim_def sqlite_space_def)
  obtain c cs where "ds = c # cs" and "is_digit c"
    using assms by (cases ds) auto
  then have sg: "sign_split ds = (1, ds)"
    using digit_not_sign [of c] by (simp add: sign_split_def)
  have tw: "takeWhile is_digit ds = ds" and dw: "dropWhile is_digit ds = []"
    using takeWhile_dropWhile_all [OF assms(1)] by simp_all
  show "sqlite_atof ds = Some (AtofInt (int (digits_value ds)))"
    using sg t assms(2)
    by (simp add: sqlite_atof_def fraction_part_def tw dw digits_int_value [OF assms(1)]
        del: takeWhile_eq_all_conv dropWhile_eq_Nil_conv)
  show "sqlite_atof (CHR ''-'' # ds) = Some (AtofInt (- int (digits_value ds)))"
    using tn assms(2)
    by (simp add: sqlite_atof_def fraction_part_def sign_split_def tw dw digits_int_value [OF assms(1)]
        del: takeWhile_eq_all_conv dropWhile_eq_Nil_conv)
qed

lemma numeric_affinity_js_int_to_string:
  assumes "min_int64 \<le> i" and "i \<le> max_rowid"
  shows "numeric_affinity (js_int_to_string i) = SInt i"
proof (cases "i < 0")
  case True
  then show ?thesis
    using assms sqlite_atof_digits(2) [OF nat_to_decimal_digits nat_to_decimal_ne]
    by (simp add: numeric_affinity_def js_int_to_string_def digits_value_nat_to_decimal)
next
  case False
  then show ?thesis
    using assms sqlite_atof_digits(1) [OF nat_to_decimal_digits nat_to_decimal_ne]
    by (simp add: numeric_affinity_def js_int_to_string_def digits_value_nat_to_decimal)
qed

end
