(* ===== verification/Store.thy ===== *)
theory Store
  imports Sqlite
begin

text \<open>
  The Credential Store and the Post Store of \<open>src/server.js\<close>: the schema of
  \<open>createTables\<close> (lines 11-35) and one definition per SQL statement the route handlers
  prepare, each named after what it selects, inserts, updates or deletes. Columns keep
  the declared affinities: \<open>username\<close>, \<open>password\<close>, \<open>title\<close> and \<open>body\<close> are
  \<open>STRING\<close> (NUMERIC affinity), \<open>createdDate\<close> is \<open>TEXT\<close>, \<open>authorid\<close> is
  \<open>INTEGER\<close>. Foreign keys are not enforced (no \<open>PRAGMA foreign_keys\<close>).
\<close>

subsection \<open>Schema\<close>

text \<open>
  A stored bcrypt hash is text beginning with \<open>$2b$\<close>, which NUMERIC affinity leaves as
  text; the model stores its symbolic value.
\<close>

record user_row =
  user_id :: rowid
  user_username :: sqlval
  user_password :: bcrypt_hash

record post_row =
  post_id :: rowid
  createdDate :: string
  title :: sqlval
  body :: sqlval
  authorid :: rowid

record db =
  user_tbl :: "user_row table"
  post_tbl :: "post_row table"

definition createTables :: db where
  "createTables = \<lparr>user_tbl = empty_table, post_tbl = empty_table\<rparr>"

subsection \<open>Statements on \<open>user\<close>\<close>

text \<open>\<open>SELECT * FROM user WHERE username = ?\<close> with a text parameter.\<close>

definition select_user_by_username :: "string \<Rightarrow> db \<Rightarrow> user_row option" where
  "select_user_by_username name d =
     find (\<lambda>u. user_username u = numeric_affinity name) (rows (user_tbl d))"

text \<open>\<open>SELECT * FROM user WHERE id = ?\<close> with \<open>result.lastInsertRowid\<close>.\<close>

definition select_user_by_id :: "rowid \<Rightarrow> db \<Rightarrow> user_row option" where
  "select_user_by_id n d = tbl_lookup user_id n (user_tbl d)"

text \<open>
  \<open>INSERT INTO user (username, password) VALUES (?, ?)\<close>: a new row id first
  (SQLITE_FULL), then the UNIQUE constraint on \<open>username\<close>.
\<close>

definition insert_user :: "string \<Rightarrow> bcrypt_hash \<Rightarrow> db \<Rightarrow> exc + (rowid \<times> db)" where
  "insert_user name pw d =
     (case next_rowid user_id (user_tbl d) of
        Inl e \<Rightarrow> Inl e
      | Inr n \<Rightarrow>
          if list_ex (\<lambda>u. user_username u = numeric_affinity name) (rows (user_tbl d))
          then Inl (SqliteConstraintUnique ''user.username'')
          else Inr (n, d\<lparr>user_tbl := tbl_append n
                 \<lparr>user_id = n, user_username = numeric_affinity name, user_password = pw\<rparr>
                 (user_tbl d)\<rparr>))"

subsection \<open>Statements on \<open>post\<close>\<close>

text \<open>
  \<open>INSERT INTO post (createdDate, title, body, authorid) VALUES (?, ?, ?, ?)\<close>.
\<close>

definition insert_post :: "string \<Rightarrow> string \<Rightarrow> string \<Rightarrow> rowid \<Rightarrow> db \<Rightarrow> exc + (rowid \<times> db)" where
  "insert_post created t b a d =
     (case next_rowid post_id (post_tbl d) of
        Inl e \<Rightarrow> Inl e
      | Inr n \<Rightarrow>
          Inr (n, d\<lparr>post_tbl := tbl_append n
                 \<lparr>post_id = n, createdDate = created, title = numeric_affinity t,
                  body = numeric_affinity b, authorid = a\<rparr>
                 (post_tbl d)\<rparr>))"

text \<open>\<open>SELECT * FROM post WHERE id = ?\<close> with a row id.\<close>

definition select_post_by_id :: "rowid \<Rightarrow> db \<Rightarrow> post_row option" where
  "select_post_by_id n d = tbl_lookup post_id n (post_tbl d)"

text \<open>
  The route parameter \<open>req.params.id\<close> is text; compared with the row id it takes
  NUMERIC affinity, so \<open>1\<close>, \<open>01\<close>, \<open>1.0\<close> and \<open>1e0\<close> all select row 1, and text
  that does not read as a 64-bit integer matches no row.
\<close>

definition param_rowid :: "string \<Rightarrow> rowid option" where
  "param_rowid p = (case numeric_affinity p of SInt n \<Rightarrow> Some n | _ \<Rightarrow> None)"

definition select_post :: "string \<Rightarrow> db \<Rightarrow> post_row option" where
  "select_post p d = (case param_rowid p of Some n \<Rightarrow> select_post_by_id n d | None \<Rightarrow> None)"

text \<open>
  \<open>SELECT post.*, user.username FROM post LEFT JOIN user ON post.authorid = user.id
  WHERE post.id = ?\<close>: the post with its author's name, if the author exists.
\<close>

definition select_post_join_user :: "string \<Rightarrow> db \<Rightarrow> (post_row \<times> sqlval option) option" where
  "select_post_join_user p d =
     map_option (\<lambda>q. (q, map_option user_username (select_user_by_id (authorid q) d)))
       (select_post p d)"

text \<open>\<open>SELECT * FROM post WHERE authorid = ? ORDER BY createdDate DESC\<close>.\<close>

definition select_posts_by_author :: "rowid \<Rightarrow> db \<Rightarrow> post_row list" where
  "select_posts_by_author a d =
     order_by_desc createdDate (filter (\<lambda>q. authorid q = a) (rows (post_tbl d)))"

text \<open>\<open>UPDATE post SET title = ?, body = ? WHERE id = ?\<close>.\<close>

definition update_post :: "string \<Rightarrow> string \<Rightarrow> string \<Rightarrow> db \<Rightarrow> db" where
  "update_post t b p d =
     (case param_rowid p of
        Some n \<Rightarrow> d\<lparr>post_tbl := tbl_update post_id n
                     (\<lambda>q. q\<lparr>title := numeric_affinity t, body := numeric_affinity b\<rparr>) (post_tbl d)\<rparr>
      | None \<Rightarrow> d)"

text \<open>\<open>DELETE FROM post WHERE id = ?\<close>.\<close>

definition delete_post :: "string \<Rightarrow> db \<Rightarrow> db" where
  "delete_post p d =
     (case param_rowid p of
        Some n \<Rightarrow> d\<lparr>post_tbl := tbl_delete post_id n (post_tbl d)\<rparr>
      | None \<Rightarrow> d)"

subsection \<open>Store invariant\<close>

text \<open>
  Both tables are well formed and no two users share a stored username (the UNIQUE
  constraint).
\<close>

definition db_wf :: "db \<Rightarrow> bool" where
  "db_wf d \<longleftrightarrow>
     table_wf user_id (user_tbl d) \<and> table_wf post_id (post_tbl d)
     \<and> distinct (map user_username (rows (user_tbl d)))"

text \<open>
  Every value of a column declared \<open>STRING\<close> (username, title, body) is one that its
  NUMERIC affinity can produce from text.
\<close>

definition db_typed :: "db \<Rightarrow> bool" where
  "db_typed d \<longleftrightarrow>
     (\<forall>u\<in>set (rows (user_tbl d)). affinity_normal (user_username u))
     \<and> (\<forall>q\<in>set (rows (post_tbl d)). affinity_normal (title q) \<and> affinity_normal (body q))"

text \<open>
  A store for the examples: no users, and one post, id 3, left after ids 1, 2 and 4 were
  used and deleted (the AUTOINCREMENT counter is 4).
\<close>

abbreviation st_ex_post :: post_row where
  "st_ex_post \<equiv> \<lparr>post_id = 3, createdDate = ''2024-01-01T00:00:00.000Z'', title = SText ''Hi'',
                  body = SText ''World'', authorid = 1\<rparr>"

abbreviation st_ex_db :: db where
  "st_ex_db \<equiv> \<lparr>user_tbl = \<lparr>rows = [], seq = 0\<rparr>, post_tbl = \<lparr>rows = [st_ex_post], seq = 4\<rparr>\<rparr>"

subsection \<open>Behaviour of the statements\<close>

lemma db_wf_createTables: "db_wf createTables"
  by (simp add: db_wf_def createTables_def)

lemma insert_user_wf_eq:
  assumes "db_wf d"
  shows "insert_user name pw d =
    (if max_rowid \<le> seq (user_tbl d) then Inl SqliteFull
     else if \<exists>u\<in>set (rows (user_tbl d)). user_username u = numeric_affinity name
     then Inl (SqliteConstraintUnique ''user.username'')
     else Inr (seq (user_tbl d) + 1, d\<lparr>user_tbl := tbl_append (seq (user_tbl d) + 1)
                 \<lparr>user_id = seq (user_tbl d) + 1, user_username = numeric_affinity name,
                  user_password = pw\<rparr> (user_tbl d)\<rparr>))"
  using assms by (simp add: insert_user_def db_wf_def next_rowid_wf list_ex_iff)

lemma insert_user_wf:
  assumes "db_wf d" and "insert_user name pw d = Inr (n, d')"
  shows "db_wf d'"
proof -
  from assms have nx: "next_rowid user_id (user_tbl d) = Inr n"
    and fresh: "\<forall>u\<in>set (rows (user_tbl d)). user_username u \<noteq> numeric_affinity name"
    and d': "d' = d\<lparr>user_tbl := tbl_append n
                 \<lparr>user_id = n, user_username = numeric_affinity name, user_password = pw\<rparr>
                 (user_tbl d)\<rparr>"
    by (auto simp: insert_user_def list_ex_iff split: sum.splits if_splits)
  have "table_wf user_id (tbl_append n
                 \<lparr>user_id = n, user_username = numeric_affinity name, user_password = pw\<rparr>
                 (user_tbl d))"
    using assms(1) nx by (intro table_wf_append) (simp_all add: db_wf_def)
  with assms(1) fresh d' show ?thesis
    by (auto simp: db_wf_def tbl_append_def)
qed

lemma insert_user_Inr_row:
  assumes "db_wf d" and "insert_user name pw d = Inr (n, d')"
  shows "rows (user_tbl d') = rows (user_tbl d) @
           [\<lparr>user_id = n, user_username = numeric_affinity name, user_password = pw\<rparr>]
     \<and> post_tbl d' = post_tbl d
     \<and> n = seq (user_tbl d) + 1
     \<and> (\<forall>u\<in>set (rows (user_tbl d)). user_username u \<noteq> numeric_affinity name)"
  using assms by (auto simp: insert_user_wf_eq tbl_append_def split: if_splits)

lemma select_user_by_username_insert:
  assumes "db_wf d" and "insert_user name pw d = Inr (n, d')"
  shows "select_user_by_username name d' =
           Some \<lparr>user_id = n, user_username = numeric_affinity name, user_password = pw\<rparr>"
  using insert_user_Inr_row [OF assms]
  by (simp add: select_user_by_username_def find_append find_map_key_None)

lemma select_user_by_id_insert:
  assumes "db_wf d" and "insert_user name pw d = Inr (n, d')"
  shows "select_user_by_id n d' =
           Some \<lparr>user_id = n, user_username = numeric_affinity name, user_password = pw\<rparr>"
proof -
  from assms(1) have "\<forall>u\<in>set (rows (user_tbl d)). user_id u \<le> seq (user_tbl d)"
    by (simp add: db_wf_def table_wf_def)
  then have "\<forall>u\<in>set (rows (user_tbl d)). user_id u \<noteq> n"
    using insert_user_Inr_row [OF assms] by fastforce
  with insert_user_Inr_row [OF assms] show ?thesis
    by (simp add: select_user_by_id_def tbl_lookup_def find_append find_map_key_None)
qed

lemma select_user_by_username_Some:
  "select_user_by_username name d = Some u \<Longrightarrow>
   u \<in> set (rows (user_tbl d)) \<and> user_username u = numeric_affinity name"
  by (simp add: select_user_by_username_def find_Some_iff) (metis nth_mem)

lemma select_user_by_username_None:
  "select_user_by_username name d = None \<longleftrightarrow>
   (\<forall>u\<in>set (rows (user_tbl d)). user_username u \<noteq> numeric_affinity name)"
  by (auto simp: select_user_by_username_def find_None_iff)

lemma insert_user_fresh:
  assumes "db_wf d" and "seq (user_tbl d) < max_rowid" and "select_user_by_username name d = None"
  shows "insert_user name pw d =
    Inr (seq (user_tbl d) + 1, d\<lparr>user_tbl := tbl_append (seq (user_tbl d) + 1)
           \<lparr>user_id = seq (user_tbl d) + 1, user_username = numeric_affinity name,
            user_password = pw\<rparr> (user_tbl d)\<rparr>)"
  using assms by (simp add: insert_user_wf_eq select_user_by_username_None)

lemma insert_post_Inr_row:
  assumes "db_wf d" and "insert_post created t b a d = Inr (n, d')"
  shows "rows (post_tbl d') = rows (post_tbl d) @
           [\<lparr>post_id = n, createdDate = created, title = numeric_affinity t,
             body = numeric_affinity b, authorid = a\<rparr>]
     \<and> user_tbl d' = user_tbl d \<and> n = seq (post_tbl d) + 1 \<and> seq (post_tbl d) < max_rowid"
  using assms
  by (auto simp: insert_post_def db_wf_def next_rowid_wf tbl_append_def split: if_splits)

lemma insert_post_Inl:
  "db_wf d \<Longrightarrow> insert_post created t b a d = Inl e \<longleftrightarrow>
     max_rowid \<le> seq (post_tbl d) \<and> e = SqliteFull"
  by (auto simp: insert_post_def db_wf_def next_rowid_wf)

lemma insert_post_wf:
  assumes "db_wf d" and "insert_post created t b a d = Inr (n, d')"
  shows "db_wf d'"
proof -
  from assms have nx: "next_rowid post_id (post_tbl d) = Inr n"
    and d': "d' = d\<lparr>post_tbl := tbl_append n
                 \<lparr>post_id = n, createdDate = created, title = numeric_affinity t,
                  body = numeric_affinity b, authorid = a\<rparr> (post_tbl d)\<rparr>"
    by (auto simp: insert_post_def split: sum.splits)
  have "table_wf post_id (tbl_append n
                 \<lparr>post_id = n, createdDate = created, title = numeric_affinity t,
                  body = numeric_affinity b, authorid = a\<rparr> (post_tbl d))"
    using assms(1) nx by (intro table_wf_append) (simp_all add: db_wf_def)
  with assms(1) d' show ?thesis
    by (simp add: db_wf_def)
qed

lemma select_post_by_id_insert:
  assumes "db_wf d" and "insert_post created t b a d = Inr (n, d')"
  shows "select_post_by_id n d' =
           Some \<lparr>post_id = n, createdDate = created, title = numeric_affinity t,
                 body = numeric_affinity b, authorid = a\<rparr>"
proof -
  from assms(1) have "\<forall>q\<in>set (rows (post_tbl d)). post_id q \<le> seq (post_tbl d)"
    by (simp add: db_wf_def table_wf_def)
  then have "\<forall>q\<in>set (rows (post_tbl d)). post_id q \<noteq> n"
    using insert_post_Inr_row [OF assms] by fastforce
  with insert_post_Inr_row [OF assms] show ?thesis
    by (simp add: select_post_by_id_def tbl_lookup_def find_append find_map_key_None)
qed

lemma param_rowid_js_int_to_string:
  "min_int64 \<le> n \<Longrightarrow> n \<le> max_rowid \<Longrightarrow> param_rowid (js_int_to_string n) = Some n"
  by (simp add: param_rowid_def numeric_affinity_js_int_to_string)

text \<open>A post inserted into a well-formed store with room in the counter is read back from
  the decimal id that the app prints.\<close>

lemma insert_post_read_back:
  assumes "db_wf d" and "seq (post_tbl d) < max_rowid"
    and "n = seq (post_tbl d) + 1"
    and "q = \<lparr>post_id = n, createdDate = created, title = numeric_affinity t,
              body = numeric_affinity b, authorid = a\<rparr>"
  shows "insert_post created t b a d = Inr (n, d\<lparr>post_tbl := tbl_append n q (post_tbl d)\<rparr>)
    \<and> select_post_by_id n (d\<lparr>post_tbl := tbl_append n q (post_tbl d)\<rparr>) = Some q
    \<and> param_rowid (js_int_to_string n) = Some n"
proof -
  have ins: "insert_post created t b a d = Inr (n, d\<lparr>post_tbl := tbl_append n q (post_tbl d)\<rparr>)"
    using assms by (simp add: insert_post_def db_wf_def next_rowid_wf)
  have "0 \<le> seq (post_tbl d)" using assms(1) by (simp add: db_wf_def table_wf_def)
  then have "param_rowid (js_int_to_string n) = Some n"
    using assms(2,3) by (intro param_rowid_js_int_to_string) (simp_all add: min_int64_def)
  with ins select_post_by_id_insert [OF assms(1) ins] show ?thesis
    using assms(4) by simp
qed

lemma update_post_wf: "db_wf d \<Longrightarrow> db_wf (update_post t b p d)"
  by (auto simp: update_post_def db_wf_def intro: table_wf_update split: option.splits)

lemma delete_post_wf: "db_wf d \<Longrightarrow> db_wf (delete_post p d)"
  by (auto simp: delete_post_def db_wf_def intro: table_wf_delete split: option.splits)

lemma db_typed_insert_user:
  "db_typed d \<Longrightarrow> insert_user name pw d = Inr (n, d') \<Longrightarrow> db_typed d'"
  by (auto simp: db_typed_def insert_user_def tbl_append_def split: sum.splits if_splits)

lemma db_typed_insert_post:
  "db_typed d \<Longrightarrow> insert_post created t b a d = Inr (n, d') \<Longrightarrow> db_typed d'"
  by (auto simp: db_typed_def insert_post_def tbl_append_def split: sum.splits)

lemma db_typed_update_post: "db_typed d \<Longrightarrow> db_typed (update_post t b p d)"
  by (auto simp: db_typed_def update_post_def tbl_update_def split: option.splits)

lemma db_typed_delete_post: "db_typed d \<Longrightarrow> db_typed (delete_post p d)"
  by (auto simp: db_typed_def delete_post_def tbl_delete_def split: option.splits)

lemma select_post_Some:
  "select_post p d = Some q \<Longrightarrow>
   q \<in> set (rows (post_tbl d)) \<and> param_rowid p = Some (post_id q)"
  by (auto simp: select_post_def select_post_by_id_def tbl_lookup_def find_Some_iff
      split: option.splits dest: nth_mem)


subsection \<open>Properties of the post store\<close>


text \<open>C19: the dashboard query returns exactly the author's posts, each as often as stored, ordered by createdDate from newest to oldest.\<close>

theorem select_posts_by_author_newest_first:
  "sorted (rev (map createdDate (select_posts_by_author a d)))
   \<and> mset (select_posts_by_author a d) = mset (filter (\<lambda>q. authorid q = a) (rows (post_tbl d)))"
  by (simp add: select_posts_by_author_def order_by_desc_def rev_map [symmetric])


text \<open>C29: on a well-formed store, a successful INSERT INTO post adds the new row under a fresh id, larger than every id in the table, to the finite map from ids to rows, and leaves the user table unchanged.\<close>

theorem insert_post_refines_map:
  assumes "db_wf d" and "insert_post created t b a d = Inr (n, d')"
  shows "tbl_map post_id (post_tbl d') = (tbl_map post_id (post_tbl d))(n \<mapsto>
            \<lparr>post_id = n, createdDate = created, title = numeric_affinity t,
             body = numeric_affinity b, authorid = a\<rparr>)
     \<and> (\<forall>m\<in>dom (tbl_map post_id (post_tbl d)). m < n) \<and> user_tbl d' = user_tbl d"
proof -
  note row = insert_post_Inr_row [OF assms]
  have d': "post_tbl d' = tbl_append n \<lparr>post_id = n, createdDate = created, title = numeric_affinity t,
             body = numeric_affinity b, authorid = a\<rparr> (post_tbl d)"
    using assms(2) by (auto simp: insert_post_def split: sum.splits)
  have lt: "\<forall>r\<in>set (rows (post_tbl d)). post_id r < n"
    using assms(1) row by (fastforce simp: db_wf_def table_wf_def)
  then have "\<forall>r\<in>set (rows (post_tbl d)). post_id r \<noteq> n" by fastforce
  then show ?thesis
    using d' lt row by (simp add: tbl_map_append dom_tbl_map)
qed


subsection \<open>Witnesses\<close>

lemma st_ex_db_wf: "db_wf st_ex_db"
  by (simp add: db_wf_def table_wf_def max_rowid_def)


theorem insert_post_refines_map_witness:
  "db_wf st_ex_db
   \<and> insert_post ''2024-02-01T00:00:00.000Z'' ''A'' ''B'' 1 st_ex_db
       = Inr (5, st_ex_db\<lparr>post_tbl := \<lparr>rows = [st_ex_post, \<lparr>post_id = 5, createdDate = ''2024-02-01T00:00:00.000Z'',
                title = SText ''A'', body = SText ''B'', authorid = 1\<rparr>], seq = 5\<rparr>\<rparr>)
   \<and> tbl_map post_id \<lparr>rows = [st_ex_post, \<lparr>post_id = 5, createdDate = ''2024-02-01T00:00:00.000Z'',
                title = SText ''A'', body = SText ''B'', authorid = 1\<rparr>], seq = 5\<rparr>
       = [3 \<mapsto> st_ex_post, 5 \<mapsto> \<lparr>post_id = 5, createdDate = ''2024-02-01T00:00:00.000Z'',
                title = SText ''A'', body = SText ''B'', authorid = 1\<rparr>]"
proof -
  have ins: "insert_post ''2024-02-01T00:00:00.000Z'' ''A'' ''B'' 1 st_ex_db
       = Inr (5, st_ex_db\<lparr>post_tbl := \<lparr>rows = [st_ex_post, \<lparr>post_id = 5, createdDate = ''2024-02-01T00:00:00.000Z'',
                title = SText ''A'', body = SText ''B'', authorid = 1\<rparr>], seq = 5\<rparr>\<rparr>)"
    by code_simp
  have m: "tbl_map post_id (post_tbl st_ex_db) = [3 \<mapsto> st_ex_post]"
    by (simp add: tbl_map_def)
  have na: "numeric_affinity ''A'' = SText ''A''" "numeric_affinity ''B'' = SText ''B''"
    by code_simp+
  show ?thesis
    using st_ex_db_wf ins insert_post_refines_map [OF st_ex_db_wf ins] m na by simp
qed

end
