(* ===== verification/Jwt.thy ===== *)
theory Jwt
  imports Store
begin

text \<open>
  The Session Token Codec: \<open>jwt.sign(payload, process.env.JWTSECRET)\<close> and
  \<open>jwt.verify(token, process.env.JWTSECRET)\<close> of the \<open>jsonwebtoken\<close> package, as
  \<open>src/server.js\<close> uses them (lines 50-53, 239-246, 284-291). The library is not part
  of the repository; its contract (spec sections 4.3 and 6) is modelled symbolically, in
  the Dolev-Yao style: a signed token carries its claims and the HMAC key it was signed
  with, and only a holder of that key can make one. Any other cookie text is an opaque
  string. \<open>jwt.sign\<close> adds the \<open>iat\<close> claim (seconds at signing) to the payload.
\<close>

record jwt_payload =
  exp :: unix_seconds
  userId :: rowid
  username :: sqlval

record claims = jwt_payload +
  iat :: unix_seconds

datatype token = JWS claims string | Opaque string

text \<open>The secret is the environment variable \<open>JWTSECRET\<close>: absent, or a string.\<close>

definition secret_usable :: "string option \<Rightarrow> bool" where
  "secret_usable key \<longleftrightarrow> (case key of Some k \<Rightarrow> k \<noteq> [] | None \<Rightarrow> False)"

text \<open>\<open>jwt.sign\<close> throws when the secret is missing or empty.\<close>

definition jwt_sign :: "string option \<Rightarrow> unix_seconds \<Rightarrow> jwt_payload \<Rightarrow> exc + token" where
  "jwt_sign key now p =
     (case key of
        Some k \<Rightarrow>
          if k = [] then Inl (JwtSignError ''secretOrPrivateKey must have a value'')
          else Inr (JWS \<lparr>exp = exp p, userId = userId p, username = username p, iat = now\<rparr> k)
      | None \<Rightarrow> Inl (JwtSignError ''secretOrPrivateKey must have a value''))"

datatype jwt_error = JwtMalformed | JwtSecretMissing | JwtInvalidSignature | JwtExpired

text \<open>
  \<open>jwt.verify\<close>: a malformed token, a missing secret, a bad signature, and then the
  expiry check \<open>clockTimestamp >= payload.exp\<close> each fail.
\<close>

definition jwt_verify :: "string option \<Rightarrow> unix_seconds \<Rightarrow> token \<Rightarrow> jwt_error + claims" where
  "jwt_verify key now t =
     (case t of
        Opaque _ \<Rightarrow> Inl JwtMalformed
      | JWS c k \<Rightarrow>
          if \<not> secret_usable key then Inl JwtSecretMissing
          else if key \<noteq> Some k then Inl JwtInvalidSignature
          else if exp c \<le> now then Inl JwtExpired
          else Inr c)"

text \<open>A token is a non-empty string unless it is the empty opaque string.\<close>

fun token_truthy :: "token \<Rightarrow> bool" where
  "token_truthy (JWS _ _) = True"
| "token_truthy (Opaque s) = (s \<noteq> [])"

subsection \<open>Properties of the codec\<close>



end
