(* ===== verification/Auth.thy ===== *)
theory Auth
  imports Jwt
begin

text \<open>
  Express's request and response objects as the handlers of \<open>src/server.js\<close> use them,
  the authentication middleware (lines 46-64) and the \<open>mustBeLoggedIn\<close> gate (lines
  67-72). A handler runs as an action on a world of the store and the response: it
  returns a value or throws an exception, and the world it leaves is the one at the
  throw, since statements already run stay run and a response already sent stays sent.
\<close>

subsection \<open>Environment of a request\<close>

text \<open>
  Process configuration and the readings of the clock and of the salt generator:
  \<open>process.env.JWTSECRET\<close>, the clock in milliseconds (read by \<open>Date.now()\<close> and
  \<open>new Date()\<close>), \<open>bcrypt.genSaltSync(10)\<close>, and \<open>process.env.NODE_ENV === "production"\<close>.
\<close>

record env =
  jwt_secret :: "string option"
  now_ms :: int
  bcrypt_salt :: string
  production :: bool

definition now_seconds :: "env \<Rightarrow> unix_seconds" where
  "now_seconds e = now_ms e div 1000"

subsection \<open>Responses\<close>

datatype view =
    Homepage "string list"
  | Dashboard "post_row list"
  | CreatePostForm "string list"
  | SinglePost post_row "sqlval option" bool
  | EditPostForm "post_row option" "string list"
  | LoginForm "string list"

datatype reply = Redirect string | Render view

record cookie_opts =
  httpOnly :: bool
  secure :: bool
  sameSite :: string
  maxAge :: "int option"

datatype cookie_op = SetCookie string token cookie_opts | ClearCookie string cookie_opts

record world =
  wdb :: db
  sent :: "reply option"
  set_cookies :: "cookie_op list"

type_synonym 'a act = "world \<Rightarrow> (exc + 'a) \<times> world"

subsection \<open>Action combinators\<close>

definition returnA :: "'a \<Rightarrow> 'a act" where
  "returnA x w = (Inr x, w)"

definition throwA :: "exc \<Rightarrow> 'a act" where
  "throwA e w = (Inl e, w)"

definition bindA :: "'a act \<Rightarrow> ('a \<Rightarrow> 'b act) \<Rightarrow> 'b act" where
  "bindA m f w = (case m w of (Inl e, w') \<Rightarrow> (Inl e, w') | (Inr x, w') \<Rightarrow> f x w')"

definition liftE :: "exc + 'a \<Rightarrow> 'a act" where
  "liftE r w = (r, w)"

definition db_read :: "(db \<Rightarrow> 'a) \<Rightarrow> 'a act" where
  "db_read q w = (Inr (q (wdb w)), w)"

definition db_write :: "(db \<Rightarrow> exc + ('a \<times> db)) \<Rightarrow> 'a act" where
  "db_write s w = (case s (wdb w) of Inl e \<Rightarrow> (Inl e, w) | Inr (x, d) \<Rightarrow> (Inr x, w\<lparr>wdb := d\<rparr>))"

definition db_update :: "(db \<Rightarrow> db) \<Rightarrow> unit act" where
  "db_update s w = (Inr (), w\<lparr>wdb := s (wdb w)\<rparr>)"

text \<open>
  \<open>res.redirect\<close> and \<open>res.render\<close> end the response; once it is sent, setting a
  header again throws \<open>ERR_HTTP_HEADERS_SENT\<close>. \<open>res.cookie\<close> and
  \<open>res.clearCookie\<close> append a \<open>Set-Cookie\<close> header.
\<close>

definition res_redirect :: "string \<Rightarrow> unit act" where
  "res_redirect u w =
     (if sent w \<noteq> None then (Inl ErrHttpHeadersSent, w) else (Inr (), w\<lparr>sent := Some (Redirect u)\<rparr>))"

definition res_render :: "view \<Rightarrow> unit act" where
  "res_render v w =
     (if sent w \<noteq> None then (Inl ErrHttpHeadersSent, w) else (Inr (), w\<lparr>sent := Some (Render v)\<rparr>))"

definition res_cookie :: "string \<Rightarrow> token \<Rightarrow> cookie_opts \<Rightarrow> unit act" where
  "res_cookie n t opts w =
     (if sent w \<noteq> None then (Inl ErrHttpHeadersSent, w)
      else (Inr (), w\<lparr>set_cookies := set_cookies w @ [SetCookie n t opts]\<rparr>))"

definition res_clearCookie :: "string \<Rightarrow> cookie_opts \<Rightarrow> unit act" where
  "res_clearCookie n opts w =
     (if sent w \<noteq> None then (Inl ErrHttpHeadersSent, w)
      else (Inr (), w\<lparr>set_cookies := set_cookies w @ [ClearCookie n opts]\<rparr>))"

subsection \<open>The request and the authentication middleware\<close>

text \<open>
  The request as the handlers see it: the \<open>ourSimpleApp\<close> cookie parsed by
  \<open>cookieParser\<close>, the parsed body, the \<open>req.user\<close> the middleware attaches, and
  \<open>req.userid\<close>, a property that no middleware of the application assigns.
\<close>

record request =
  req_cookie :: "token option"
  req_body :: "string \<Rightarrow> field option"
  req_user :: "claims option"
  req_userid :: jsval

text \<open>
  The middleware verifies a non-empty cookie with the secret and the current time in
  seconds; a missing cookie, an empty one, and any verification error give no user.
\<close>

definition auth_middleware :: "string option \<Rightarrow> unix_seconds \<Rightarrow> token option \<Rightarrow> claims option" where
  "auth_middleware key now ck =
     (case ck of
        None \<Rightarrow> None
      | Some t \<Rightarrow>
          if token_truthy t then (case jwt_verify key now t of Inr c \<Rightarrow> Some c | Inl _ \<Rightarrow> None)
          else None)"

text \<open>The request the route handler receives for a cookie and a body.\<close>

definition incoming_request :: "env \<Rightarrow> token option \<Rightarrow> (string \<Rightarrow> field option) \<Rightarrow> request" where
  "incoming_request e ck b =
     \<lparr>req_cookie = ck, req_body = b, req_user = auth_middleware (jwt_secret e) (now_seconds e) ck,
      req_userid = JUndefined\<rparr>"

text \<open>\<open>mustBeLoggedIn\<close>: pass the user on to the handler, or redirect home.\<close>

definition mustBeLoggedIn :: "request \<Rightarrow> (claims \<Rightarrow> unit act) \<Rightarrow> unit act" where
  "mustBeLoggedIn r next = (case req_user r of Some c \<Rightarrow> next c | None \<Rightarrow> res_redirect ''/'')"

lemma incoming_request_userid [simp]: "req_userid (incoming_request e ck b) = JUndefined"
  by (simp add: incoming_request_def)

lemma mustBeLoggedIn_apply:
  "mustBeLoggedIn r k w = (case req_user r of Some c \<Rightarrow> k c w | None \<Rightarrow> res_redirect ''/'' w)"
  by (simp add: mustBeLoggedIn_def split: option.splits)


text \<open>
  An action keeps a relation between worlds when every run of it, returning or throwing,
  ends in a world related to the one it started from. A frame relation is a preorder
  that sending a reply and clearing a cookie preserve; actions built from the
  combinators then keep it as soon as their store writes do.
\<close>

definition keeps :: "(world \<Rightarrow> world \<Rightarrow> bool) \<Rightarrow> 'a act \<Rightarrow> bool" where
  "keeps R m \<longleftrightarrow> (\<forall>w. R w (snd (m w)))"

definition frame_rel :: "(world \<Rightarrow> world \<Rightarrow> bool) \<Rightarrow> bool" where
  "frame_rel R \<longleftrightarrow> reflp R \<and> transp R \<and> (\<forall>w r. R w (w\<lparr>sent := Some r\<rparr>))
     \<and> (\<forall>w n opts. R w (w\<lparr>set_cookies := set_cookies w @ [ClearCookie n opts]\<rparr>))"

subsection \<open>Evaluation rules\<close>

lemma bindA_returnA [act_simps]: "bindA (returnA x) f = f x"
  by (simp add: fun_eq_iff bindA_def returnA_def)

lemma bindA_throwA [act_simps]: "bindA (throwA e) f = throwA e"
  by (simp add: fun_eq_iff bindA_def throwA_def)

lemma bindA_apply [act_simps]:
  "bindA m f w = (case m w of (Inl e, w') \<Rightarrow> (Inl e, w') | (Inr x, w') \<Rightarrow> f x w')"
  by (simp add: bindA_def)

lemmas act_defs [act_simps] = returnA_def throwA_def liftE_def db_read_def db_write_def db_update_def
  res_redirect_def res_render_def res_cookie_def res_clearCookie_def

subsection \<open>Actions that keep a frame relation\<close>

lemma keeps_bindA:
  assumes fr: "frame_rel R" and m: "keeps R m" and f: "\<And>x. keeps R (f x)"
  shows "keeps R (bindA m f)"
  unfolding keeps_def
proof
  fix w
  obtain v w' where mw: "m w = (v, w')" by force
  from m mw have ww': "R w w'" unfolding keeps_def by (metis snd_conv)
  show "R w (snd (bindA m f w))"
  proof (cases v)
    case (Inl e)
    with mw ww' show ?thesis by (simp add: bindA_def)
  next
    case (Inr x)
    from f have "R w' (snd (f x w'))" unfolding keeps_def by blast
    with ww' fr have "R w (snd (f x w'))" unfolding frame_rel_def by (blast elim: transpE)
    with mw Inr show ?thesis by (simp add: bindA_def)
  qed
qed

lemma keeps_basic:
  "frame_rel R \<Longrightarrow> keeps R (returnA x)" "frame_rel R \<Longrightarrow> keeps R (throwA e)"
  "frame_rel R \<Longrightarrow> keeps R (liftE v)" "frame_rel R \<Longrightarrow> keeps R (db_read q)"
  "frame_rel R \<Longrightarrow> keeps R (res_redirect u)" "frame_rel R \<Longrightarrow> keeps R (res_render vw)"
  "frame_rel R \<Longrightarrow> keeps R (res_clearCookie n opts)"
  by (simp_all add: keeps_def frame_rel_def act_simps reflpD)

lemma keeps_db_write:
  "frame_rel R \<Longrightarrow> (\<And>w x d. s (wdb w) = Inr (x, d) \<Longrightarrow> R w (w\<lparr>wdb := d\<rparr>)) \<Longrightarrow> keeps R (db_write s)"
  by (auto simp: keeps_def frame_rel_def db_write_def reflpD split: sum.splits)

lemma keeps_res_cookie:
  "frame_rel R \<Longrightarrow> (\<And>w. R w (w\<lparr>set_cookies := set_cookies w @ [SetCookie n t opts]\<rparr>)) \<Longrightarrow>
   keeps R (res_cookie n t opts)"
  by (simp add: keeps_def frame_rel_def res_cookie_def reflpD)

lemma keeps_db_update:
  "(\<And>w. R w (w\<lparr>wdb := s (wdb w)\<rparr>)) \<Longrightarrow> keeps R (db_update s)"
  by (simp add: keeps_def db_update_def)

lemma keeps_if: "keeps R a \<Longrightarrow> keeps R b \<Longrightarrow> keeps R (if c then a else b)"
  by simp

lemma keeps_case_option:
  "keeps R a \<Longrightarrow> (\<And>x. keeps R (b x)) \<Longrightarrow> keeps R (case v of None \<Rightarrow> a | Some x \<Rightarrow> b x)"
  by (cases v) simp_all

lemma keeps_case_prod: "(\<And>x y. keeps R (b x y)) \<Longrightarrow> keeps R (case v of (x, y) \<Rightarrow> b x y)"
  by (cases v) simp

lemma keeps_Let: "(\<And>x. keeps R (b x)) \<Longrightarrow> keeps R (Let v b)"
  by simp

lemma keeps_mustBeLoggedIn:
  "frame_rel R \<Longrightarrow> (\<And>c. req_user r = Some c \<Longrightarrow> keeps R (k c)) \<Longrightarrow> keeps R (mustBeLoggedIn r k)"
  by (auto simp: mustBeLoggedIn_def keeps_basic split: option.splits)

lemmas keeps_intros = keeps_bindA keeps_basic keeps_if keeps_case_option keeps_case_prod keeps_Let
  keeps_mustBeLoggedIn

text \<open>The store invariant as a frame relation.\<close>

lemma frame_rel_store_pred: "frame_rel (\<lambda>w w'. P (wdb w) \<longrightarrow> P (wdb w'))"
  by (simp add: frame_rel_def reflp_def transp_def)

subsection \<open>Authentication\<close>

text \<open>C5: The middleware attaches a user exactly when the cookie is a token signed with
  the configured, non-empty secret whose expiry lies after the current second; the
  attached user is that token's claims. Missing, empty, malformed, forged and expired
  cookies all give an anonymous request.\<close>

theorem auth_middleware_iff:
  "auth_middleware key now ck = Some c \<longleftrightarrow>
   (\<exists>k. ck = Some (JWS c k) \<and> key = Some k \<and> k \<noteq> [] \<and> now < exp c)"
  by (auto simp: auth_middleware_def jwt_verify_def secret_usable_def
      split: option.splits token.splits sum.splits if_splits)

theorem auth_middleware_iff_witness:
  "auth_middleware (Some ''k'') 1000
     (Some (JWS \<lparr>exp = 87400, userId = 1, username = SText ''alice1'', iat = 1000\<rparr> ''k''))
     = Some \<lparr>exp = 87400, userId = 1, username = SText ''alice1'', iat = 1000\<rparr>"
  by (rule auth_middleware_iff [THEN iffD2]) simp

end
