(* ===== verification/Clock.thy ===== *)
theory Clock
  imports JsRuntime
begin

text \<open>
  \<open>new Date().toISOString()\<close> (line 110), the creation date of a post, by the
  date arithmetic of ECMA-262 (section 21.4.1): a time value is an integer number of
  milliseconds since 1970-01-01T00:00:00Z; its day is \<open>floor(t / msPerDay)\<close>, its year the
  largest \<open>y\<close> with \<open>DayFromYear(y) \<le> day\<close>, and month, date, hours, minutes, seconds and
  milliseconds follow. \<open>toISOString\<close> prints \<open>YYYY-MM-DDTHH:mm:ss.sssZ\<close>, with a signed
  six-digit year outside 0-9999, and throws a RangeError for a time value beyond
  \<open>8.64e15\<close>. The year is found by walking from 1970 one year at a time, which terminates
  (a measure), and agrees with the specification's \<open>YearFromTime\<close>.
\<close>

definition ms_per_day :: int where
  "ms_per_day = 86400000"

definition max_time_value :: int where
  "max_time_value = 8640000000000000"

definition leap_year :: "int \<Rightarrow> bool" where
  "leap_year y \<longleftrightarrow> y mod 4 = 0 \<and> (y mod 100 \<noteq> 0 \<or> y mod 400 = 0)"

definition days_in_year :: "int \<Rightarrow> int" where
  "days_in_year y = (if leap_year y then 366 else 365)"

text \<open>\<open>DayFromYear(y)\<close> of the specification: the day number of January 1 of \<open>y\<close>.\<close>

definition day_from_year :: "int \<Rightarrow> int" where
  "day_from_year y = 365 * (y - 1970) + (y - 1969) div 4 - (y - 1901) div 100 + (y - 1601) div 400"

text \<open>
  The year of a day number and the day within that year: from year \<open>y\<close> with \<open>d\<close> days
  left, step back a year while \<open>d\<close> is negative and forward while it is a whole year
  or more.
\<close>

function (domintros) year_walk :: "int \<Rightarrow> int \<Rightarrow> int \<times> int" where
  "year_walk y d =
     (if d < 0 then year_walk (y - 1) (d + days_in_year (y - 1))
      else if days_in_year y \<le> d then year_walk (y + 1) (d - days_in_year y)
      else (y, d))"
  by pat_completeness auto
termination
  by (relation "measure (\<lambda>(y, d). if d < 0 then nat (- d) + 1000 else nat d)")
     (auto simp: days_in_year_def split: if_splits)

declare year_walk.simps [simp del]

definition year_from_day :: "int \<Rightarrow> int" where
  "year_from_day d = fst (year_walk 1970 d)"

definition day_within_year :: "int \<Rightarrow> int" where
  "day_within_year d = snd (year_walk 1970 d)"

text \<open>Month lengths of a year, and the month (0-11) and date (0-based) of a day of it.\<close>

definition month_lengths :: "int \<Rightarrow> int list" where
  "month_lengths y = [31, if leap_year y then 29 else 28, 31, 30, 31, 30, 31, 31, 30, 31, 30, 31]"

fun month_walk :: "int list \<Rightarrow> int \<Rightarrow> int \<Rightarrow> int \<times> int" where
  "month_walk [] m d = (m, d)"
| "month_walk (l # ls) m d = (if d < l then (m, d) else month_walk ls (m + 1) (d - l))"

text \<open>
  The fields printed, as nested pairs in printing order: year, month (1-12), date
  (1-31); hours, minutes, seconds, milliseconds (\<open>HourFromTime\<close> and its kin).
\<close>

definition iso_fields :: "int \<Rightarrow> (int \<times> int \<times> int) \<times> int \<times> int \<times> int \<times> int" where
  "iso_fields t =
     (let (y, doy) = year_walk 1970 (t div ms_per_day);
          (mo, dt) = month_walk (month_lengths y) 0 doy
      in ((y, mo + 1, dt + 1),
          (t div 3600000 mod 24, t div 60000 mod 60, t div 1000 mod 60, t mod 1000)))"

text \<open>A field printed with exactly \<open>w\<close> decimal digits (zero-padded).\<close>

fun pad :: "nat \<Rightarrow> int \<Rightarrow> string" where
  "pad 0 n = []"
| "pad (Suc w) n = pad w (n div 10) @ [digit_char (nat (n mod 10))]"

definition iso_year :: "int \<Rightarrow> string" where
  "iso_year y =
     (if 0 \<le> y \<and> y \<le> 9999 then pad 4 y
      else if y < 0 then CHR ''-'' # pad 6 (- y) else CHR ''+'' # pad 6 y)"

definition iso_format :: "(int \<times> int \<times> int) \<times> int \<times> int \<times> int \<times> int \<Rightarrow> string" where
  "iso_format f =
     (case f of ((y, mo, dt), (h, mi, s, ms)) \<Rightarrow>
        iso_year y @ CHR ''-'' # pad 2 mo @ CHR ''-'' # pad 2 dt @ CHR ''T'' # pad 2 h
        @ CHR '':'' # pad 2 mi @ CHR '':'' # pad 2 s @ CHR ''.'' # pad 3 ms @ ''Z'')"

text \<open>The time values whose year has four digits: 0000-01-01 to 9999-12-31.\<close>

definition iso_min :: int where
  "iso_min = -62167219200000"

definition iso_max :: int where
  "iso_max = 253402300799999"

definition js_toISOString :: "int \<Rightarrow> exc + string" where
  "js_toISOString t =
     (if max_time_value < \<bar>t\<bar> then Inl (RangeError ''Invalid time value'')
      else Inr (iso_format (iso_fields t)))"

text \<open>The fields fit their printed widths.\<close>

definition iso_fields_ok :: "(int \<times> int \<times> int) \<times> int \<times> int \<times> int \<times> int \<Rightarrow> bool" where
  "iso_fields_ok f =
     (case f of ((y, mo, dt), (h, mi, s, ms)) \<Rightarrow>
        0 \<le> y \<and> y \<le> 9999 \<and> 0 \<le> mo \<and> mo < 100 \<and> 0 \<le> dt \<and> dt < 100 \<and> 0 \<le> h \<and> h < 100
        \<and> 0 \<le> mi \<and> mi < 100 \<and> 0 \<le> s \<and> s < 100 \<and> 0 \<le> ms \<and> ms < 1000)"

subsection \<open>Day numbers of years\<close>

lemma div_succ:
  assumes k: "0 < (k::int)"
  shows "(x + 1) div k = x div k + (if x mod k + 1 = k then 1 else 0)"
proof -
  have "x + 1 = (x mod k + 1) + x div k * k" by simp
  then have "(x + 1) div k = (x mod k + 1) div k + x div k"
    using k by (metis div_mult_self1 less_irrefl add.commute)
  moreover have "(x mod k + 1) div k = (if x mod k + 1 = k then 1 else 0)"
  proof (cases "x mod k + 1 = k")
    case False
    moreover have "0 \<le> x mod k" "x mod k < k" using k by simp_all
    ultimately show ?thesis by (simp add: div_pos_pos_trivial)
  qed (use k in simp)
  ultimately show ?thesis by simp
qed

lemma mod_succ_offset:
  assumes k: "0 < (k::int)" and xy: "x + 1 = y + c * k"
  shows "x mod k + 1 = k \<longleftrightarrow> y mod k = 0"
proof -
  have "y mod k = (x + 1) mod k" using xy by simp
  also have "\<dots> = (x mod k + 1) mod k" by (simp add: mod_add_left_eq)
  finally have m: "y mod k = (x mod k + 1) mod k" .
  have r: "0 \<le> x mod k" "x mod k < k" using k by simp_all
  show ?thesis
  proof
    assume "x mod k + 1 = k" then show "y mod k = 0" using m by simp
  next
    assume "y mod k = 0"
    with m have "(x mod k + 1) mod k = 0" by simp
    moreover have "x mod k + 1 < k \<Longrightarrow> (x mod k + 1) mod k = x mod k + 1"
      using r by (simp add: mod_pos_pos_trivial)
    ultimately show "x mod k + 1 = k" using r by fastforce
  qed
qed
lemma day_from_year_step: "day_from_year (y + 1) = day_from_year y + days_in_year y"
proof -
  have a: "(y - 1969) mod 4 + 1 = 4 \<longleftrightarrow> y mod 4 = 0"
    by (rule mod_succ_offset [where c = "-492"]) simp_all
  have b: "(y - 1901) mod 100 + 1 = 100 \<longleftrightarrow> y mod 100 = 0"
    by (rule mod_succ_offset [where c = "-19"]) simp_all
  have c: "(y - 1601) mod 400 + 1 = 400 \<longleftrightarrow> y mod 400 = 0"
    by (rule mod_succ_offset [where c = "-4"]) simp_all
  have d: "y mod 400 = 0 \<Longrightarrow> y mod 100 = 0" "y mod 100 = 0 \<Longrightarrow> y mod 4 = 0"
    by (auto simp: mod_eq_0_iff_dvd elim: dvd_trans [rotated])
  have e: "y + 1 - 1969 = (y - 1969) + 1" "y + 1 - 1901 = (y - 1901) + 1" "y + 1 - 1601 = (y - 1601) + 1"
    by simp_all
  have f4: "(y + 1 - 1969) div 4 = (y - 1969) div 4 + (if y mod 4 = 0 then 1 else 0)"
    using div_succ [of 4 "y - 1969"] a by (simp only: e)
  have f100: "(y + 1 - 1901) div 100 = (y - 1901) div 100 + (if y mod 100 = 0 then 1 else 0)"
    using div_succ [of 100 "y - 1901"] b by (simp only: e)
  have f400: "(y + 1 - 1601) div 400 = (y - 1601) div 400 + (if y mod 400 = 0 then 1 else 0)"
    using div_succ [of 400 "y - 1601"] c by (simp only: e)
  show ?thesis
    using d unfolding day_from_year_def days_in_year_def leap_year_def f4 f100 f400
    by (cases "y mod 4 = 0"; cases "y mod 100 = 0"; cases "y mod 400 = 0") simp_all
qed

lemma year_walk_dom_all: "year_walk_dom (y, d)"
  by (induction y d rule: year_walk.induct) (rule year_walk.domintros; simp)

lemma year_walk_steps: "\<bar>fst (year_walk y d) - y\<bar> \<le> \<bar>d\<bar> div 365 + 1"
proof (induction y d rule: year_walk.induct)
  case (1 y d)
  let ?L = "days_in_year (y - 1)" and ?K = "days_in_year y"
  have L: "365 \<le> ?L" "365 \<le> ?K" by (simp_all add: days_in_year_def)
  have sub: "(x - 365) div 365 = x div 365 - 1" for x :: int
    using div_add_self2 [of 365 "x - 365"] by simp
  show ?case
  proof (cases "d < 0")
    case True
    then have eq: "year_walk y d = year_walk (y - 1) (d + ?L)" by (simp add: year_walk.simps [of y d])
    show ?thesis
    proof (cases "d + ?L < 0")
      case True
      let ?F = "fst (year_walk (y - 1) (d + ?L))"
      have a: "\<bar>?F - (y - 1)\<bar> \<le> \<bar>d + ?L\<bar> div 365 + 1" using "1.IH"(1) [OF \<open>d < 0\<close>] .
      have "\<bar>d + ?L\<bar> div 365 \<le> (\<bar>d\<bar> - 365) div 365"
        using True L \<open>d < 0\<close> by (intro zdiv_mono1) simp_all
      then have b: "\<bar>d + ?L\<bar> div 365 \<le> \<bar>d\<bar> div 365 - 1" using sub [of "\<bar>d\<bar>"] by simp
      have c: "\<bar>?F - y\<bar> \<le> \<bar>?F - (y - 1)\<bar> + 1"
        using abs_triangle_ineq [of "?F - (y - 1)" "- 1"] by simp
      from a b c have "\<bar>?F - y\<bar> \<le> \<bar>d\<bar> div 365 + 1" by linarith
      with eq show ?thesis by simp
    next
      case False
      then have "year_walk (y - 1) (d + ?L) = (y - 1, d + ?L)"
        using \<open>d < 0\<close> by (simp add: year_walk.simps [of "y - 1" "d + ?L"])
      with eq show ?thesis by simp
    qed
  next
    case nn: False
    show ?thesis
    proof (cases "?K \<le> d")
      case True
      then have eq: "year_walk y d = year_walk (y + 1) (d - ?K)" using nn by (simp add: year_walk.simps [of y d])
      let ?F = "fst (year_walk (y + 1) (d - ?K))"
      have a: "\<bar>?F - (y + 1)\<bar> \<le> \<bar>d - ?K\<bar> div 365 + 1" using "1.IH"(2) [OF nn True] .
      have "\<bar>d - ?K\<bar> div 365 \<le> (\<bar>d\<bar> - 365) div 365"
        using True L nn by (intro zdiv_mono1) simp_all
      then have b: "\<bar>d - ?K\<bar> div 365 \<le> \<bar>d\<bar> div 365 - 1" using sub [of "\<bar>d\<bar>"] by simp
      have c: "\<bar>?F - y\<bar> \<le> \<bar>?F - (y + 1)\<bar> + 1"
        using abs_triangle_ineq [of "?F - (y + 1)" 1] by simp
      from a b c have "\<bar>?F - y\<bar> \<le> \<bar>d\<bar> div 365 + 1" by linarith
      with eq show ?thesis by simp
    next
      case False
      with nn show ?thesis by (simp add: year_walk.simps [of y d])
    qed
  qed
qed



lemma day_from_year_1970 [simp]: "day_from_year 1970 = 0"
  by (simp add: day_from_year_def)

lemma days_in_year_pos: "0 < days_in_year y"
  by (simp add: days_in_year_def)

lemma day_from_year_strict_mono: "y < y' \<Longrightarrow> day_from_year y < day_from_year y'"
proof (induction y' rule: int_gr_induct)
  case base
  then show ?case using day_from_year_step [of y] days_in_year_pos [of y] by simp
next
  case (step i)
  then show ?case using day_from_year_step [of i] days_in_year_pos [of i] by simp
qed

lemma year_walk_inv:
  "year_walk y d = (y', r) \<Longrightarrow>
   day_from_year y' + r = day_from_year y + d \<and> 0 \<le> r \<and> r < days_in_year y'"
proof (induction y d rule: year_walk.induct)
  case (1 y d)
  show ?case
  proof (cases "d < 0")
    case True
    with "1.prems" have "year_walk (y - 1) (d + days_in_year (y - 1)) = (y', r)"
      by (simp add: year_walk.simps [of y d])
    with "1.IH"(1) True show ?thesis using day_from_year_step [of "y - 1"] by simp
  next
    case neg: False
    show ?thesis
    proof (cases "days_in_year y \<le> d")
      case True
      with neg "1.prems" have "year_walk (y + 1) (d - days_in_year y) = (y', r)"
        by (simp add: year_walk.simps [of y d])
      with "1.IH"(2) neg True show ?thesis using day_from_year_step [of y] by simp
    next
      case False
      with neg "1.prems" show ?thesis by (simp add: year_walk.simps [of y d])
    qed
  qed
qed

lemma year_walk_1970:
  "day_from_year (year_from_day d) + day_within_year d = d
   \<and> 0 \<le> day_within_year d \<and> day_within_year d < days_in_year (year_from_day d)"
  using year_walk_inv [of 1970 d "year_from_day d" "day_within_year d"]
  by (simp add: year_from_day_def day_within_year_def)



subsection \<open>Order of time values and of their fields\<close>

lemma less_div_mod_iff:
  "0 < (B::int) \<Longrightarrow> x < y \<longleftrightarrow> x div B < y div B \<or> x div B = y div B \<and> x mod B < y mod B"
  using mixed_radix_less [of "x mod B" B "y mod B" "x div B" "y div B"]
  by (simp add: mult.commute [of _ B])

lemma eq_div_mod_iff:
  "x = y \<longleftrightarrow> x div (B::int) = y div B \<and> x mod B = y mod B"
  by (metis div_mult_mod_eq)

lemma time_value_less_iff:
  "t1 < t2 \<longleftrightarrow>
     t1 div ms_per_day < t2 div ms_per_day
   \<or> t1 div ms_per_day = t2 div ms_per_day
     \<and> (t1 div 3600000 mod 24 < t2 div 3600000 mod 24
        \<or> t1 div 3600000 mod 24 = t2 div 3600000 mod 24
          \<and> (t1 div 60000 mod 60 < t2 div 60000 mod 60
             \<or> t1 div 60000 mod 60 = t2 div 60000 mod 60
               \<and> (t1 div 1000 mod 60 < t2 div 1000 mod 60
                  \<or> t1 div 1000 mod 60 = t2 div 1000 mod 60 \<and> t1 mod 1000 < t2 mod 1000)))"
proof -
  have d: "t div 60000 = t div 1000 div 60" "t div 3600000 = t div 60000 div 60"
    "t div ms_per_day = t div 3600000 div 24" for t :: int
    by (simp_all add: ms_per_day_def zdiv_zmult2_eq [symmetric])
  have l: "a < b \<longleftrightarrow> a div B < b div B \<or> a div B = b div B \<and> a mod B < b mod B"
    if "0 < B" for a b B :: int
    using that by (rule less_div_mod_iff)
  note e = eq_div_mod_iff
  have s1: "t1 < t2 \<longleftrightarrow> t1 div 1000 < t2 div 1000 \<or> t1 div 1000 = t2 div 1000 \<and> t1 mod 1000 < t2 mod 1000"
    by (rule l) simp
  have s2: "t1 div 1000 < t2 div 1000 \<longleftrightarrow> t1 div 60000 < t2 div 60000
      \<or> t1 div 60000 = t2 div 60000 \<and> t1 div 1000 mod 60 < t2 div 1000 mod 60"
    unfolding d by (rule l) simp
  have e2: "t1 div 1000 = t2 div 1000 \<longleftrightarrow> t1 div 60000 = t2 div 60000
      \<and> t1 div 1000 mod 60 = t2 div 1000 mod 60"
    unfolding d by (rule e)
  have s3: "t1 div 60000 < t2 div 60000 \<longleftrightarrow> t1 div 3600000 < t2 div 3600000
      \<or> t1 div 3600000 = t2 div 3600000 \<and> t1 div 60000 mod 60 < t2 div 60000 mod 60"
    unfolding d by (rule l) simp
  have e3: "t1 div 60000 = t2 div 60000 \<longleftrightarrow> t1 div 3600000 = t2 div 3600000
      \<and> t1 div 60000 mod 60 = t2 div 60000 mod 60"
    unfolding d by (rule e)
  have s4: "t1 div 3600000 < t2 div 3600000 \<longleftrightarrow> t1 div ms_per_day < t2 div ms_per_day
      \<or> t1 div ms_per_day = t2 div ms_per_day \<and> t1 div 3600000 mod 24 < t2 div 3600000 mod 24"
    unfolding d by (rule l) simp
  have e4: "t1 div 3600000 = t2 div 3600000 \<longleftrightarrow> t1 div ms_per_day = t2 div ms_per_day
      \<and> t1 div 3600000 mod 24 = t2 div 3600000 mod 24"
    unfolding d by (rule e)
  show ?thesis
    unfolding s1 s2 e2 s3 e3 s4 e4 by blast
qed

lemma year_walk_less_iff:
  assumes "year_walk 1970 d1 = (y1, r1)" and "year_walk 1970 d2 = (y2, r2)"
  shows "d1 < d2 \<longleftrightarrow> y1 < y2 \<or> y1 = y2 \<and> r1 < r2"
proof -
  have i1: "day_from_year y1 + r1 = d1" "0 \<le> r1" "r1 < days_in_year y1"
    and i2: "day_from_year y2 + r2 = d2" "0 \<le> r2" "r2 < days_in_year y2"
    using year_walk_inv [OF assms(1)] year_walk_inv [OF assms(2)] by simp_all
  have below: "day_from_year y + r < day_from_year y'" if "y < y'" "r < days_in_year y" for y y' r
  proof -
    have "day_from_year (y + 1) \<le> day_from_year y'"
      using that day_from_year_strict_mono [of "y + 1" y'] by (cases "y + 1 = y'") auto
    with that show ?thesis using day_from_year_step [of y] by simp
  qed
  show ?thesis
    using below [of y1 y2 r1] below [of y2 y1 r2] i1 i2 by (cases y1 y2 rule: linorder_cases) auto
qed

lemma month_walk_ge: "m \<le> fst (month_walk ls m d)"
proof (induction ls arbitrary: m d)
  case (Cons l ls)
  show ?case using Cons.IH [of "m + 1" "d - l"] by simp
qed simp

lemma month_walk_bounds:
  assumes "month_walk ls m d = (m', r)" and "0 \<le> d" and "d < sum_list ls"
    and "\<forall>l\<in>set ls. l \<le> B"
  shows "m' < m + int (length ls) \<and> 0 \<le> r \<and> r < B"
  using assms
proof (induction ls arbitrary: m d)
  case (Cons l ls)
  show ?case
  proof (cases "d < l")
    case False
    with Cons.prems have "month_walk ls (m + 1) (d - l) = (m', r)" by simp
    with Cons.IH [of "m + 1" "d - l"] Cons.prems False show ?thesis by simp
  qed (use Cons.prems in auto)
qed simp

lemma month_walk_less_iff:
  assumes "month_walk ls m d1 = (m1, r1)" and "month_walk ls m d2 = (m2, r2)"
    and "0 \<le> d1" and "0 \<le> d2"
  shows "d1 < d2 \<longleftrightarrow> m1 < m2 \<or> m1 = m2 \<and> r1 < r2"
  using assms
proof (induction ls arbitrary: m d1 d2)
  case (Cons l ls)
  have g1: "m + 1 \<le> fst (month_walk ls (m + 1) (d1 - l))"
    and g2: "m + 1 \<le> fst (month_walk ls (m + 1) (d2 - l))" by (rule month_walk_ge)+
  show ?case
  proof (cases "d1 < l"; cases "d2 < l")
    assume "\<not> d1 < l" "\<not> d2 < l"
    with Cons.prems Cons.IH [of "m + 1" "d1 - l" "d2 - l"] show ?thesis by simp
  qed (use Cons.prems g1 g2 in auto)
qed simp


subsection \<open>Order of the printed strings\<close>

lemma length_pad [simp]: "length (pad w n) = w"
  by (induction w arbitrary: n) simp_all

lemma pad_less_eq_iff:
  assumes "0 \<le> n" "n < 10 ^ w" "0 \<le> m" "m < 10 ^ w"
  shows "(pad w n < pad w m \<longleftrightarrow> n < m) \<and> (pad w n = pad w m \<longleftrightarrow> n = m)"
  using assms
proof (induction w arbitrary: n m)
  case 0
  then show ?case by simp
next
  case (Suc w)
  have b: "0 \<le> n div 10" "n div 10 < 10 ^ w" "0 \<le> m div 10" "m div 10 < 10 ^ w"
    using Suc.prems by simp_all
  have c: "nat (n mod 10) < 10" "nat (m mod 10) < 10" by simp_all
  have dl: "digit_char (nat (n mod 10)) < digit_char (nat (m mod 10)) \<longleftrightarrow> n mod 10 < m mod 10"
    using digit_char_less_iff [OF c] pos_mod_sign [of 10 n] by (auto simp: nat_less_eq_zless)
  have de: "digit_char (nat (n mod 10)) = digit_char (nat (m mod 10)) \<longleftrightarrow> n mod 10 = m mod 10"
    using digit_char_less_iff [OF c] digit_char_less_iff [OF c(2,1)]
    by (metis eq_nat_nat_iff less_irrefl linorder_neqE pos_mod_sign zero_less_numeral)
  have "pad (Suc w) n < pad (Suc w) m \<longleftrightarrow> n < m"
    using Suc.IH [OF b] dl by (simp add: append_less_append_same_length less_div_mod_iff [of 10 n m])
  moreover have "pad (Suc w) n = pad (Suc w) m \<longleftrightarrow> n = m"
    using Suc.IH [OF b] de by (simp add: eq_div_mod_iff [of n m 10])
  ultimately show ?case ..
qed

lemmas pad_less_iff = pad_less_eq_iff [THEN conjunct1]
lemmas pad_eq_iff = pad_less_eq_iff [THEN conjunct2]


lemma iso_format_less_iff:
  assumes "iso_fields_ok ((y1, mo1, dt1), (h1, mi1, s1, ms1))"
    and "iso_fields_ok ((y2, mo2, dt2), (h2, mi2, s2, ms2))"
  shows "iso_format ((y1, mo1, dt1), (h1, mi1, s1, ms1)) < iso_format ((y2, mo2, dt2), (h2, mi2, s2, ms2))
    \<longleftrightarrow> y1 < y2 \<or> y1 = y2 \<and> (mo1 < mo2 \<or> mo1 = mo2 \<and> (dt1 < dt2 \<or> dt1 = dt2 \<and>
        (h1 < h2 \<or> h1 = h2 \<and> (mi1 < mi2 \<or> mi1 = mi2 \<and> (s1 < s2 \<or> s1 = s2 \<and> ms1 < ms2)))))"
proof -
  have p4: "pad 4 y1 < pad 4 y2 \<longleftrightarrow> y1 < y2" "pad 4 y1 = pad 4 y2 \<longleftrightarrow> y1 = y2"
    using assms pad_less_eq_iff [of y1 4 y2] by (simp_all add: iso_fields_ok_def)
  have p2: "pad 2 a1 < pad 2 a2 \<longleftrightarrow> a1 < a2" "pad 2 a1 = pad 2 a2 \<longleftrightarrow> a1 = a2"
    if "0 \<le> a1" "a1 < 100" "0 \<le> a2" "a2 < 100" for a1 a2
    using that pad_less_eq_iff [of a1 2 a2] by simp_all
  have p3: "pad 3 ms1 < pad 3 ms2 \<longleftrightarrow> ms1 < ms2" "pad 3 ms1 = pad 3 ms2 \<longleftrightarrow> ms1 = ms2"
    using assms pad_less_eq_iff [of ms1 3 ms2] by (simp_all add: iso_fields_ok_def)
  have bs: "0 \<le> mo1" "mo1 < 100" "0 \<le> mo2" "mo2 < 100" "0 \<le> dt1" "dt1 < 100" "0 \<le> dt2" "dt2 < 100"
    "0 \<le> h1" "h1 < 100" "0 \<le> h2" "h2 < 100" "0 \<le> mi1" "mi1 < 100" "0 \<le> mi2" "mi2 < 100"
    "0 \<le> s1" "s1 < 100" "0 \<le> s2" "s2 < 100" and y: "0 \<le> y1" "y1 \<le> 9999" "0 \<le> y2" "y2 \<le> 9999"
    using assms by (simp_all add: iso_fields_ok_def)
  show ?thesis
    using y
    by (simp add: iso_format_def iso_year_def append_less_append_same_length p4 p3
        p2 [OF bs(1-4)] p2 [OF bs(5-8)] p2 [OF bs(9-12)] p2 [OF bs(13-16)] p2 [OF bs(17-20)])
qed


subsection \<open>Printed dates compare as the times they print\<close>

lemma year_walk_range:
  assumes "iso_min \<le> t" and "t \<le> iso_max" and "year_walk 1970 (t div ms_per_day) = (y, r)"
  shows "0 \<le> y \<and> y \<le> 9999"
proof -
  let ?d = "t div ms_per_day"
  have i: "day_from_year y + r = ?d" "0 \<le> r" "r < days_in_year y"
    using year_walk_inv [OF assms(3)] by simp_all
  have lo: "-719528 \<le> ?d" and hi: "?d < 2932897"
    using assms(1,2) by (simp_all add: iso_min_def iso_max_def ms_per_day_def)
  have z: "day_from_year 0 = -719528" "day_from_year 10000 = 2932897"
    by (simp_all add: day_from_year_def)
  have "\<not> y < 0"
  proof
    assume "y < 0"
    then have "day_from_year (y + 1) \<le> day_from_year 0"
      using day_from_year_strict_mono [of "y + 1" 0] by (cases "y + 1 = 0") auto
    then show False using i lo day_from_year_step [of y] z by linarith
  qed
  moreover have "\<not> 9999 < y"
  proof
    assume "9999 < y"
    then have "day_from_year 10000 \<le> day_from_year y"
      using day_from_year_strict_mono [of 10000 y] by (cases "y = 10000") auto
    then show False using i hi z by linarith
  qed
  ultimately show ?thesis by simp
qed

lemma iso_fields_eq:
  assumes "year_walk 1970 (t div ms_per_day) = (y, doy)"
    and "month_walk (month_lengths y) 0 doy = (mo, dt)"
  shows "iso_fields t = ((y, mo + 1, dt + 1),
           (t div 3600000 mod 24, t div 60000 mod 60, t div 1000 mod 60, t mod 1000))"
  using assms by (simp add: iso_fields_def)

lemma iso_fields_in_range:
  assumes "iso_min \<le> t" and "t \<le> iso_max"
    and "year_walk 1970 (t div ms_per_day) = (y, doy)"
    and "month_walk (month_lengths y) 0 doy = (mo, dt)"
  shows "iso_fields_ok (iso_fields t)"
proof -
  have i: "0 \<le> doy" "doy < days_in_year y"
    using year_walk_inv [OF assms(3)] by simp_all
  have "sum_list (month_lengths y) = days_in_year y"
    by (simp add: month_lengths_def days_in_year_def)
  then have b: "mo < 12 \<and> 0 \<le> dt \<and> dt < 31"
    using month_walk_bounds [OF assms(4) i(1), of 31] i by (simp add: month_lengths_def)
  have "0 \<le> mo" using month_walk_ge [of 0 "month_lengths y" doy] assms(4) by simp
  with b have md: "0 \<le> mo + 1" "mo + 1 < 100" "0 \<le> dt + 1" "dt + 1 < 100" by simp_all
  have tms: "t div 3600000 mod 24 < 100" "t div 60000 mod 60 < 100" "t div 1000 mod 60 < 100"
    "0 \<le> t div 3600000 mod 24" "0 \<le> t div 60000 mod 60" "0 \<le> t div 1000 mod 60"
    "0 \<le> t mod 1000" "t mod 1000 < 1000"
    using pos_mod_bound [of 24 "t div 3600000"] pos_mod_bound [of 60 "t div 60000"]
      pos_mod_bound [of 60 "t div 1000"] by simp_all
  have y: "0 \<le> y" "y \<le> 9999" using year_walk_range [OF assms(1-3)] by simp_all
  show ?thesis
    unfolding iso_fields_eq [OF assms(3,4)] iso_fields_ok_def case_prod_conv
    using md tms y by blast
qed

lemma iso_fields_less_iff:
  assumes w1: "year_walk 1970 (t1 div ms_per_day) = (y1, doy1)"
    and m1: "month_walk (month_lengths y1) 0 doy1 = (mo1, dt1)"
    and w2: "year_walk 1970 (t2 div ms_per_day) = (y2, doy2)"
    and m2: "month_walk (month_lengths y2) 0 doy2 = (mo2, dt2)"
  shows "t1 < t2 \<longleftrightarrow> y1 < y2 \<or> y1 = y2 \<and> (mo1 < mo2 \<or> mo1 = mo2 \<and> (dt1 < dt2 \<or> dt1 = dt2 \<and>
     (t1 div 3600000 mod 24 < t2 div 3600000 mod 24
      \<or> t1 div 3600000 mod 24 = t2 div 3600000 mod 24
        \<and> (t1 div 60000 mod 60 < t2 div 60000 mod 60
           \<or> t1 div 60000 mod 60 = t2 div 60000 mod 60
             \<and> (t1 div 1000 mod 60 < t2 div 1000 mod 60
                \<or> t1 div 1000 mod 60 = t2 div 1000 mod 60 \<and> t1 mod 1000 < t2 mod 1000)))))"
proof -
  have nn: "0 \<le> doy1" "0 \<le> doy2" using year_walk_inv [OF w1] year_walk_inv [OF w2] by simp_all
  have dl: "t1 div ms_per_day < t2 div ms_per_day \<longleftrightarrow> y1 < y2 \<or> y1 = y2 \<and> doy1 < doy2"
    by (rule year_walk_less_iff [OF w1 w2])
  have dg: "t2 div ms_per_day < t1 div ms_per_day \<longleftrightarrow> y2 < y1 \<or> y2 = y1 \<and> doy2 < doy1"
    by (rule year_walk_less_iff [OF w2 w1])
  define T where "T \<longleftrightarrow> (t1 div 3600000 mod 24 < t2 div 3600000 mod 24
      \<or> t1 div 3600000 mod 24 = t2 div 3600000 mod 24
        \<and> (t1 div 60000 mod 60 < t2 div 60000 mod 60
           \<or> t1 div 60000 mod 60 = t2 div 60000 mod 60
             \<and> (t1 div 1000 mod 60 < t2 div 1000 mod 60
                \<or> t1 div 1000 mod 60 = t2 div 1000 mod 60 \<and> t1 mod 1000 < t2 mod 1000)))"
  define dd1 where "dd1 = t1 div ms_per_day"
  define dd2 where "dd2 = t2 div ms_per_day"
  have tv: "t1 < t2 \<longleftrightarrow> dd1 < dd2 \<or> dd1 = dd2 \<and> T"
    unfolding T_def dd1_def dd2_def by (rule time_value_less_iff)
  note dl = dl [folded dd1_def dd2_def] and dg = dg [folded dd1_def dd2_def]
  show ?thesis
    unfolding T_def [symmetric] tv
  proof (cases "y1 = y2")
    case True
    with m2 have m2': "month_walk (month_lengths y1) 0 doy2 = (mo2, dt2)" by simp
    have ml: "doy1 < doy2 \<longleftrightarrow> mo1 < mo2 \<or> mo1 = mo2 \<and> dt1 < dt2"
      by (rule month_walk_less_iff [OF m1 m2' nn])
    have mg: "doy2 < doy1 \<longleftrightarrow> mo2 < mo1 \<or> mo2 = mo1 \<and> dt2 < dt1"
      by (rule month_walk_less_iff [OF m2' m1 nn(2,1)])
    have "dd1 = dd2 \<longleftrightarrow> mo1 = mo2 \<and> dt1 = dt2"
      using dl dg ml mg True by (metis linorder_neqE less_irrefl)
    then show "dd1 < dd2 \<or> dd1 = dd2 \<and> T \<longleftrightarrow>
      y1 < y2 \<or> y1 = y2 \<and> (mo1 < mo2 \<or> mo1 = mo2 \<and> (dt1 < dt2 \<or> dt1 = dt2 \<and> T))"
      using dl ml True by blast
  next
    case False
    then have "dd1 \<noteq> dd2" using w1 w2 unfolding dd1_def dd2_def by auto
    then show "dd1 < dd2 \<or> dd1 = dd2 \<and> T \<longleftrightarrow>
      y1 < y2 \<or> y1 = y2 \<and> (mo1 < mo2 \<or> mo1 = mo2 \<and> (dt1 < dt2 \<or> dt1 = dt2 \<and> T))"
      using dl False by blast
  qed
qed




subsection \<open>Witnesses\<close>



end
