(* ===== verification/Routes.thy ===== *)
theory Routes
  imports Auth Clock
begin

text \<open>
  The route handlers of \<open>src/server.js\<close> (lines 75-301), one definition per
  \<open>app.get\<close>/\<open>app.post\<close> callback, composed from the statements of \<open>Store\<close>, the
  codecs of \<open>Bcrypt\<close> and \<open>Jwt\<close> and the response operations of \<open>Auth\<close> in the
  order the source runs them. A route parameter \<open>:id\<close> is the handler's last argument.
  The routing table, the middleware chain that runs before every route (\<open>cookieParser\<close>,
  then the authentication middleware) and the HTTP response a client receives close the
  theory: a request is one call of \<open>serve\<close>, from a store to a store and a response.
\<close>

definition session_cookie_opts :: "env \<Rightarrow> cookie_opts" where
  "session_cookie_opts e =
     \<lparr>httpOnly = True, secure = production e, sameSite = ''strict'', maxAge = Some 86400000\<rparr>"

definition clear_cookie_opts :: "env \<Rightarrow> cookie_opts" where
  "clear_cookie_opts e =
     \<lparr>httpOnly = True, secure = production e, sameSite = ''strict'', maxAge = None\<rparr>"

text \<open>The token minted after registration and login: 24 hours from now.\<close>

definition session_payload :: "env \<Rightarrow> user_row \<Rightarrow> jwt_payload" where
  "session_payload e u =
     \<lparr>exp = now_seconds e + 60 * 60 * 24, userId = user_id u, username = user_username u\<rparr>"

subsection \<open>Home and logout\<close>

definition get_home :: "env \<Rightarrow> request \<Rightarrow> unit act" where
  "get_home e r =
     (case req_user r of
        Some c \<Rightarrow> bindA (db_read (select_posts_by_author (userId c))) (\<lambda>posts. res_render (Dashboard posts))
      | None \<Rightarrow> res_render (Homepage []))"

definition get_logout :: "env \<Rightarrow> request \<Rightarrow> unit act" where
  "get_logout e r =
     bindA (res_clearCookie ''ourSimpleApp'' (clear_cookie_opts e)) (\<lambda>_. res_redirect ''/'')"

subsection \<open>Creating and viewing posts\<close>

definition get_create_post :: "env \<Rightarrow> request \<Rightarrow> unit act" where
  "get_create_post e r = mustBeLoggedIn r (\<lambda>c. res_render (CreatePostForm []))"

definition post_create_post :: "env \<Rightarrow> request \<Rightarrow> unit act" where
  "post_create_post e r = mustBeLoggedIn r (\<lambda>c.
     bindA (liftE (field_string (req_body r ''title''))) (\<lambda>t.
     bindA (liftE (field_string (req_body r ''body''))) (\<lambda>b.
     let errors = (if js_trim t = [] then [''Add a title''] else [])
                @ (if js_trim b = [] then [''Add a body''] else [])
     in if errors \<noteq> [] then res_render (CreatePostForm errors)
        else bindA (liftE (js_toISOString (now_ms e))) (\<lambda>created.
             bindA (db_write (insert_post created t b (userId c))) (\<lambda>n.
             bindA (db_read (select_post_by_id n)) (\<lambda>rp.
             case rp of
               None \<Rightarrow> throwA (TypeError ''Cannot read properties of undefined (reading id)'')
             | Some p \<Rightarrow> res_redirect (''/post/'' @ js_int_to_string (post_id p))))))))"

definition get_post :: "env \<Rightarrow> request \<Rightarrow> string \<Rightarrow> unit act" where
  "get_post e r p =
     bindA (db_read (select_post_join_user p)) (\<lambda>po.
     case po of
       None \<Rightarrow> res_redirect ''/''
     | Some (q, author) \<Rightarrow>
         res_render (SinglePost q author (js_strict_eq (JNumber (authorid q)) (req_userid r))))"

subsection \<open>Editing and deleting posts\<close>

text \<open>
  The prefix the three mutation routes share: fetch the post; \<open>if (post)\<close>, without a
  return, redirect home; read \<open>post.authorid\<close> (a TypeError on \<open>undefined\<close>); and
  \<open>return res.redirect("/")\<close> if it differs from \<open>req.userid\<close>. Only when the row
  exists and its \<open>authorid\<close> equals \<open>req.userid\<close> does the rest of the handler run.
\<close>

definition fetch_owned_post :: "request \<Rightarrow> string \<Rightarrow> (post_row \<Rightarrow> unit act) \<Rightarrow> unit act" where
  "fetch_owned_post r p k =
     bindA (db_read (select_post p)) (\<lambda>po.
     bindA (if po \<noteq> None then res_redirect ''/'' else returnA ()) (\<lambda>_.
     case po of
       None \<Rightarrow> throwA (TypeError ''Cannot read properties of undefined (reading authorid)'')
     | Some q \<Rightarrow>
         if \<not> js_strict_eq (JNumber (authorid q)) (req_userid r) then res_redirect ''/''
         else k q))"

definition get_edit_post :: "env \<Rightarrow> request \<Rightarrow> string \<Rightarrow> unit act" where
  "get_edit_post e r p = mustBeLoggedIn r (\<lambda>c.
     fetch_owned_post r p (\<lambda>q. res_render (EditPostForm (Some q) [])))"

text \<open>
  \<open>sharedPostValidation\<close> is not defined anywhere, and \<open>(req, params.id)\<close> reads the
  unbound name \<open>params\<close>: both throw a ReferenceError.
\<close>

definition sharedPostValidation :: "request \<Rightarrow> string list act" where
  "sharedPostValidation r = throwA (ReferenceError ''sharedPostValidation is not defined'')"

definition post_edit_post :: "env \<Rightarrow> request \<Rightarrow> string \<Rightarrow> unit act" where
  "post_edit_post e r p = mustBeLoggedIn r (\<lambda>c.
     fetch_owned_post r p (\<lambda>q.
     bindA (sharedPostValidation r) (\<lambda>errors.
     if errors \<noteq> [] then res_render (EditPostForm None errors)
     else bindA (liftE (field_string (req_body r ''title''))) (\<lambda>t.
          bindA (liftE (field_string (req_body r ''body''))) (\<lambda>b.
          bindA (db_update (update_post t b p)) (\<lambda>_.
          throwA (ReferenceError ''params is not defined'')))))))"

definition post_delete_post :: "env \<Rightarrow> request \<Rightarrow> string \<Rightarrow> unit act" where
  "post_delete_post e r p = mustBeLoggedIn r (\<lambda>c.
     fetch_owned_post r p (\<lambda>q.
     bindA (db_update (delete_post p)) (\<lambda>_. res_redirect ''/'')))"

subsection \<open>Registration and login\<close>

definition register_errors :: "string \<Rightarrow> string \<Rightarrow> user_row option \<Rightarrow> string list" where
  "register_errors u pw existing =
     (if existing \<noteq> None then [''User already exists''] else [])
     @ (if length u < 3 \<or> length u > 10 then [''Username should be 3-10 characters long''] else [])
     @ (if \<not> alnum_regex_test u then [''Username should only contain letters and numbers''] else [])
     @ (if length pw < 6 \<or> length pw > 70 then [''Password should be 6-70 characters long''] else [])"

definition post_register :: "env \<Rightarrow> request \<Rightarrow> unit act" where
  "post_register e r =
     bindA (liftE (field_string (req_body r ''username''))) (\<lambda>uname. let u = js_trim uname in
     bindA (liftE (field_string (req_body r ''password''))) (\<lambda>passwd. let pw = js_trim passwd in
     bindA (db_read (select_user_by_username u)) (\<lambda>existing.
     let errors = register_errors u pw existing in
     if errors \<noteq> [] then res_render (Homepage errors)
     else bindA (db_write (insert_user u (bcrypt_hashSync pw (bcrypt_salt e)))) (\<lambda>n.
          bindA (db_read (select_user_by_id n)) (\<lambda>ou.
          case ou of
            None \<Rightarrow> throwA (TypeError ''Cannot read properties of undefined (reading id)'')
          | Some usr \<Rightarrow>
              bindA (liftE (jwt_sign (jwt_secret e) (now_seconds e) (session_payload e usr))) (\<lambda>tok.
              bindA (res_cookie ''ourSimpleApp'' tok (session_cookie_opts e)) (\<lambda>_.
              res_redirect ''/'')))))))"

definition get_login :: "env \<Rightarrow> request \<Rightarrow> unit act" where
  "get_login e r = res_render (LoginForm [])"

definition login_errors :: "string \<Rightarrow> user_row option \<Rightarrow> string list" where
  "login_errors pw uo =
     (case uo of
        None \<Rightarrow> [''username or password not found'']
      | Some usr \<Rightarrow>
          if bcrypt_compareSync pw (user_password usr) then [] else [''username or password not found''])"

definition post_login :: "env \<Rightarrow> request \<Rightarrow> unit act" where
  "post_login e r =
     bindA (liftE (field_string (req_body r ''username''))) (\<lambda>uname. let u = js_trim uname in
     bindA (liftE (field_string (req_body r ''password''))) (\<lambda>passwd. let pw = js_trim passwd in
     bindA (db_read (select_user_by_username u)) (\<lambda>uo.
     let errors = login_errors pw uo in
     if errors \<noteq> [] then res_render (LoginForm errors)
     else case uo of
            None \<Rightarrow> throwA (TypeError ''Cannot read properties of undefined (reading id)'')
          | Some usr \<Rightarrow>
              bindA (liftE (jwt_sign (jwt_secret e) (now_seconds e) (session_payload e usr))) (\<lambda>tok.
              bindA (res_cookie ''ourSimpleApp'' tok (session_cookie_opts e)) (\<lambda>_.
              res_redirect ''/'')))))"

subsection \<open>Routing and serving one request\<close>

datatype endpoint =
    GET_home | GET_logout | GET_create_post | POST_create_post | GET_post string
  | GET_edit_post string | POST_edit_post string | POST_delete_post string
  | POST_register | GET_login | POST_login

record http_request =
  endpoint :: endpoint
  cookie :: "token option"
  form :: "string \<Rightarrow> field option"

fun handler_of :: "endpoint \<Rightarrow> env \<Rightarrow> request \<Rightarrow> unit act" where
  "handler_of GET_home = get_home"
| "handler_of GET_logout = get_logout"
| "handler_of GET_create_post = get_create_post"
| "handler_of POST_create_post = post_create_post"
| "handler_of (GET_post p) = (\<lambda>e r. get_post e r p)"
| "handler_of (GET_edit_post p) = (\<lambda>e r. get_edit_post e r p)"
| "handler_of (POST_edit_post p) = (\<lambda>e r. post_edit_post e r p)"
| "handler_of (POST_delete_post p) = (\<lambda>e r. post_delete_post e r p)"
| "handler_of POST_register = post_register"
| "handler_of GET_login = get_login"
| "handler_of POST_login = post_login"

text \<open>
  What the client receives: the reply the handler sent with its \<open>Set-Cookie\<close> headers
  (an exception after that is only logged, and the socket closed); Express's default
  error page when the handler threw before sending; nothing when it returned without
  sending. The router answers on its own with a 404 page when no route takes the
  request, a 400 page when a route parameter cannot be decoded, and the \<open>Allow\<close>
  list of an OPTIONS request.
\<close>

datatype http_response = Reply reply "cookie_op list" | InternalServerError | NoResponse
  | NotFound | BadRequest | OptionsAllow "string list"

definition response_of :: "exc + unit \<Rightarrow> world \<Rightarrow> http_response" where
  "response_of res w =
     (case sent w of
        Some rp \<Rightarrow> Reply rp (set_cookies w)
      | None \<Rightarrow> (case res of Inl _ \<Rightarrow> InternalServerError | Inr _ \<Rightarrow> NoResponse))"

definition start_world :: "db \<Rightarrow> world" where
  "start_world d = \<lparr>wdb = d, sent = None, set_cookies = []\<rparr>"

definition serve :: "env \<Rightarrow> http_request \<Rightarrow> db \<Rightarrow> db \<times> http_response" where
  "serve e hr d =
     (let r = incoming_request e (cookie hr) (form hr);
          (res, w) = handler_of (endpoint hr) e r (start_world d)
      in (wdb w, response_of res w))"

text \<open>An action keeps a property of the store.\<close>

abbreviation keeps_store :: "(db \<Rightarrow> bool) \<Rightarrow> 'a act \<Rightarrow> bool" where
  "keeps_store P \<equiv> keeps (\<lambda>w w'. P (wdb w) \<longrightarrow> P (wdb w'))"

subsection \<open>Example data\<close>

text \<open>
  A concrete configuration and store on which the witnesses below run requests: users
  \<open>alice1\<close> (id 1) and \<open>bob22\<close> (id 2), one post by \<open>alice1\<close>, and session tokens
  for both signed with the secret \<open>k\<close>, at 1000 seconds after the epoch.
\<close>

abbreviation ex_env :: env where
  "ex_env \<equiv> \<lparr>jwt_secret = Some ''k'', now_ms = 1000000,
              bcrypt_salt = ''$2b$10$abcdefghijklmnopqrstuv'', production = False\<rparr>"

abbreviation ex_alice :: user_row where
  "ex_alice \<equiv> \<lparr>user_id = 1, user_username = SText ''alice1'',
               user_password = bcrypt_hashSync ''secret1'' ''$2b$10$abcdefghijklmnopqrstuv''\<rparr>"

abbreviation ex_bob :: user_row where
  "ex_bob \<equiv> \<lparr>user_id = 2, user_username = SText ''bob22'',
             user_password = bcrypt_hashSync ''secret2'' ''$2b$10$abcdefghijklmnopqrstuv''\<rparr>"

abbreviation ex_post :: post_row where
  "ex_post \<equiv> \<lparr>post_id = 1, createdDate = ''2024-01-01T00:00:00.000Z'', title = SText ''Hi'',
              body = SText ''World'', authorid = 1\<rparr>"

abbreviation ex_db :: db where
  "ex_db \<equiv> \<lparr>user_tbl = \<lparr>rows = [ex_alice, ex_bob], seq = 2\<rparr>, post_tbl = \<lparr>rows = [ex_post], seq = 1\<rparr>\<rparr>"

abbreviation ex_bob_claims :: claims where
  "ex_bob_claims \<equiv> \<lparr>exp = 90000, userId = 2, username = SText ''bob22'', iat = 3600\<rparr>"

abbreviation ex_bob_cookie :: "token option" where
  "ex_bob_cookie \<equiv> Some (JWS ex_bob_claims ''k'')"

abbreviation ex_reg_form :: "string \<Rightarrow> field option" where
  "ex_reg_form \<equiv> [''username'' \<mapsto> FStr ''carol7'', ''password'' \<mapsto> FStr '' secret3 '']"

abbreviation ex_alice_cookie :: "token option" where
  "ex_alice_cookie \<equiv> Some (JWS \<lparr>exp = 90000, userId = 1, username = SText ''alice1'', iat = 3600\<rparr> ''k'')"

subsection \<open>Evaluating a request\<close>

lemma serve_eq:
  "serve e hr d =
     (let w = snd (handler_of (endpoint hr) e (incoming_request e (cookie hr) (form hr)) (start_world d))
      in (wdb w, response_of (fst (handler_of (endpoint hr) e (incoming_request e (cookie hr) (form hr))
                                   (start_world d))) w))"
  by (simp add: serve_def Let_def case_prod_beta)

lemmas run_simps = serve_eq start_world_def response_of_def incoming_request_def act_simps
  field_string_def Let_def

lemmas handler_defs = get_home_def get_logout_def get_create_post_def post_create_post_def
  get_post_def get_edit_post_def post_edit_post_def sharedPostValidation_def post_delete_post_def
  post_register_def get_login_def post_login_def


lemma fetch_owned_post_undefined:
  assumes "req_userid r = JUndefined"
  shows "fetch_owned_post r p k w =
    (case select_post p (wdb w) of
       None \<Rightarrow> (Inl (TypeError ''Cannot read properties of undefined (reading authorid)''), w)
     | Some q \<Rightarrow>
         (Inl ErrHttpHeadersSent,
          if sent w = None then w\<lparr>sent := Some (Redirect ''/'')\<rparr> else w))"
  using assms
  by (auto simp: fetch_owned_post_def act_simps split: option.splits)

subsection \<open>Every handler keeps the store invariant\<close>

lemma keeps_fetch_owned_post:
  "frame_rel R \<Longrightarrow> (\<And>q. keeps R (k q)) \<Longrightarrow> keeps R (fetch_owned_post r p k)"
  unfolding fetch_owned_post_def by (intro keeps_intros) simp_all

lemmas keeps_handler_intros = keeps_intros keeps_fetch_owned_post

text \<open>With \<open>req.userid\<close> unassigned, the continuation of the ownership check never runs.\<close>

lemma keeps_fetch_owned_post_undefined:
  "frame_rel R \<Longrightarrow> req_userid r = JUndefined \<Longrightarrow> keeps R (fetch_owned_post r p k)"
  by (auto simp: keeps_def fetch_owned_post_undefined frame_rel_def reflpD split: option.splits)

lemma keeps_store_handlers:
  assumes ins_p: "\<And>c t b a d n d'. P d \<Longrightarrow> insert_post c t b a d = Inr (n, d') \<Longrightarrow> P d'"
    and ins_u: "\<And>u h d n d'. P d \<Longrightarrow> insert_user u h d = Inr (n, d') \<Longrightarrow> P d'"
    and upd: "\<And>t b p d. P d \<Longrightarrow> P (update_post t b p d)"
    and del: "\<And>p d. P d \<Longrightarrow> P (delete_post p d)"
  shows "keeps_store P (handler_of ep e r)"
proof -
  note fr = frame_rel_store_pred [of P]
  have ip: "keeps_store P (db_write (insert_post c t b a))" for c t b a
    by (rule keeps_db_write [OF fr]) (auto intro: ins_p)
  have iu: "keeps_store P (db_write (insert_user u h))" for u h
    by (rule keeps_db_write [OF fr]) (auto intro: ins_u)
  have up: "keeps_store P (db_update (update_post t b p))" for t b p
    by (rule keeps_db_update) (simp add: upd)
  have de: "keeps_store P (db_update (delete_post p))" for p
    by (rule keeps_db_update) (simp add: del)
  have ck: "keeps_store P (res_cookie n t opts)" for n t opts
    by (rule keeps_res_cookie [OF fr]) simp
  show ?thesis
    by (cases ep)
      (simp_all add: handler_defs split del: if_split;
       intro keeps_handler_intros fr ip iu up de ck; simp)+
qed

lemma serve_keeps_store:
  "keeps_store P (handler_of (endpoint hr) e (incoming_request e (cookie hr) (form hr))) \<Longrightarrow>
   P d \<Longrightarrow> P (fst (serve e hr d))"
  by (simp add: serve_eq keeps_def start_world_def Let_def)

lemma keeps_wf_handlers: "keeps_store db_wf (handler_of ep e r)"
  by (rule keeps_store_handlers) (auto intro: insert_post_wf insert_user_wf update_post_wf delete_post_wf)

lemma keeps_typed_handlers: "keeps_store db_typed (handler_of ep e r)"
  by (rule keeps_store_handlers)
    (auto intro: db_typed_insert_post db_typed_insert_user db_typed_update_post db_typed_delete_post)

text \<open>C1: A request to edit or delete a post, made by a signed-in user who is not the post's author, is answered with a redirect home and leaves the store unchanged.\<close>

theorem non_owner_mutation_rejected:
  assumes "endpoint hr \<in> {POST_edit_post p, POST_delete_post p}"
    and "select_post p d = Some q"
    and "auth_middleware (jwt_secret e) (now_seconds e) (cookie hr) = Some c"
    and "userId c \<noteq> authorid q"
  shows "serve e hr d = (d, Reply (Redirect ''/'') [])"
  using assms
  by (auto simp: run_simps mustBeLoggedIn_apply post_delete_post_def post_edit_post_def
      fetch_owned_post_def)

text \<open>C2: Registering a username that the user table already holds re-renders the home page with the error "User already exists" first, sets no cookie and leaves the store unchanged.\<close>

theorem register_duplicate_rejected:
  assumes "endpoint hr = POST_register"
    and "form hr ''username'' = Some (FStr uname)" and "form hr ''password'' = Some (FStr passwd)"
    and "select_user_by_username (js_trim uname) d \<noteq> None"
  shows "\<exists>errs. serve e hr d = (d, Reply (Render (Homepage (''User already exists'' # errs))) [])"
  using assms by (simp add: run_simps post_register_def register_errors_def)


text \<open>C6: A login with an unknown username and a login with a wrong password receive the same response: the login form with the single error "username or password not found", no cookie, and an unchanged store.\<close>

theorem login_failure_generic:
  assumes "endpoint hr = POST_login"
    and "form hr ''username'' = Some (FStr uname)" and "form hr ''password'' = Some (FStr passwd)"
    and "select_user_by_username (js_trim uname) d = None
         \<or> (\<exists>usr. select_user_by_username (js_trim uname) d = Some usr
                  \<and> \<not> bcrypt_compareSync (js_trim passwd) (user_password usr))"
  shows "serve e hr d = (d, Reply (Render (LoginForm [''username or password not found''])) [])"
  using assms by (auto simp: run_simps post_login_def login_errors_def)



text \<open>C9: A post whose title or body is blank after trimming re-renders the form with one error per blank field and leaves the store unchanged.\<close>

theorem create_post_blank_rejected:
  assumes "endpoint hr = POST_create_post"
    and "auth_middleware (jwt_secret e) (now_seconds e) (cookie hr) = Some c"
    and "form hr ''title'' = Some (FStr t)" and "form hr ''body'' = Some (FStr b)"
    and "js_trim t = [] \<or> js_trim b = []"
  shows "serve e hr d =
    (d, Reply (Render (CreatePostForm ((if js_trim t = [] then [''Add a title''] else [])
                                      @ (if js_trim b = [] then [''Add a body''] else [])))) [])"
  using assms by (auto simp: run_simps mustBeLoggedIn_apply post_create_post_def)

text \<open>C10: A registration whose trimmed username is not 3-10 ASCII letters and digits, or whose trimmed password is not 6-70 characters, re-renders the home page with a non-empty error list and leaves the store unchanged.\<close>

theorem register_invalid_rejected:
  assumes "endpoint hr = POST_register"
    and "form hr ''username'' = Some (FStr uname)" and "form hr ''password'' = Some (FStr passwd)"
    and "length (js_trim uname) < 3 \<or> 10 < length (js_trim uname) \<or> \<not> alnum_regex_test (js_trim uname)
         \<or> length (js_trim passwd) < 6 \<or> 70 < length (js_trim passwd)"
  shows "serve e hr d = (d, Reply (Render (Homepage
            (register_errors (js_trim uname) (js_trim passwd) (select_user_by_username (js_trim uname) d)))) [])
         \<and> register_errors (js_trim uname) (js_trim passwd) (select_user_by_username (js_trim uname) d) \<noteq> []"
  using assms by (auto simp: run_simps post_register_def register_errors_def)

text \<open>C11: No request to the edit or delete routes changes the store, whoever sends it: the ownership check compares against req.userid, which nothing assigns, so even the author is refused.\<close>

theorem mutation_routes_never_change_store:
  "endpoint hr \<in> {POST_edit_post p, POST_delete_post p} \<Longrightarrow> fst (serve e hr d) = d"
  by (auto simp: run_simps mustBeLoggedIn_apply post_delete_post_def post_edit_post_def
      fetch_owned_post_undefined split: option.splits)

text \<open>C12: Viewing a post that exists always renders it with isAuthor false, since isAuthor compares post.authorid with the unassigned req.userid.\<close>

theorem get_post_never_author:
  assumes "endpoint hr = GET_post p" and "select_post_join_user p d = Some (q, a)"
  shows "serve e hr d = (d, Reply (Render (SinglePost q a False)) [])"
  using assms by (simp add: run_simps get_post_def)

text \<open>C14: For a signed-in user, the edit form, edit and delete routes on a post id that selects no row end in a TypeError and Express's 500 error page, not in a redirect home.\<close>

theorem mutation_of_missing_post_fails:
  assumes "endpoint hr \<in> {GET_edit_post p, POST_edit_post p, POST_delete_post p}"
    and "select_post p d = None"
    and "auth_middleware (jwt_secret e) (now_seconds e) (cookie hr) \<noteq> None"
  shows "serve e hr d = (d, InternalServerError)"
  using assms
  by (auto simp: run_simps mustBeLoggedIn_apply post_delete_post_def post_edit_post_def
      get_edit_post_def fetch_owned_post_def)

text \<open>C13: Every request, on every endpoint and whatever it throws, takes a well-formed
  store (ascending positive row ids within the AUTOINCREMENT counter, the counter within
  64 bits, unique usernames) to a well-formed store.\<close>

theorem serve_preserves_db_wf: "db_wf d \<Longrightarrow> db_wf (fst (serve e hr d))"
  by (rule serve_keeps_store [OF keeps_wf_handlers])

subsection \<open>Witnesses\<close>

theorem non_owner_mutation_rejected_witness:
  "select_post ''1'' ex_db = Some ex_post
   \<and> auth_middleware (jwt_secret ex_env) (now_seconds ex_env) ex_bob_cookie = Some ex_bob_claims
   \<and> userId ex_bob_claims \<noteq> authorid ex_post
   \<and> serve ex_env \<lparr>endpoint = POST_delete_post ''1'', cookie = ex_bob_cookie, form = Map.empty\<rparr> ex_db
       = (ex_db, Reply (Redirect ''/'') [])"
proof -
  have h1: "select_post ''1'' ex_db = Some ex_post" by code_simp
  have h2: "auth_middleware (jwt_secret ex_env) (now_seconds ex_env) ex_bob_cookie = Some ex_bob_claims"
    by code_simp
  have h3: "userId ex_bob_claims \<noteq> authorid ex_post" by simp
  have "serve ex_env \<lparr>endpoint = POST_delete_post ''1'', cookie = ex_bob_cookie, form = Map.empty\<rparr> ex_db
       = (ex_db, Reply (Redirect ''/'') [])"
    by (rule non_owner_mutation_rejected [OF _ h1 _ h3]) (use h2 in simp_all)
  with h1 h2 h3 show ?thesis by blast
qed

theorem register_duplicate_rejected_witness:
  "select_user_by_username (js_trim '' alice1 '') ex_db \<noteq> None
   \<and> (\<exists>errs. serve ex_env \<lparr>endpoint = POST_register, cookie = None,
        form = [''username'' \<mapsto> FStr '' alice1 '', ''password'' \<mapsto> FStr ''secret9'']\<rparr> ex_db
       = (ex_db, Reply (Render (Homepage (''User already exists'' # errs))) []))"
proof -
  have h: "select_user_by_username (js_trim '' alice1 '') ex_db \<noteq> None" by code_simp
  show ?thesis using h register_duplicate_rejected [OF _ _ _ h] by simp
qed


theorem login_failure_generic_witness:
  "select_user_by_username (js_trim ''alice1'') ex_db = Some ex_alice
   \<and> \<not> bcrypt_compareSync (js_trim ''wrong99'') (user_password ex_alice)
   \<and> serve ex_env \<lparr>endpoint = POST_login, cookie = None,
        form = [''username'' \<mapsto> FStr ''alice1'', ''password'' \<mapsto> FStr ''wrong99'']\<rparr> ex_db
     = (ex_db, Reply (Render (LoginForm [''username or password not found''])) [])"
proof -
  have h1: "select_user_by_username (js_trim ''alice1'') ex_db = Some ex_alice" by code_simp
  have h2: "\<not> bcrypt_compareSync (js_trim ''wrong99'') (user_password ex_alice)" by code_simp
  show ?thesis using h1 h2 login_failure_generic [where uname = "''alice1''" and passwd = "''wrong99''" and d = ex_db and e = ex_env] by simp
qed



theorem create_post_blank_rejected_witness:
  "auth_middleware (jwt_secret ex_env) (now_seconds ex_env) ex_bob_cookie = Some ex_bob_claims
   \<and> js_trim '' \<newline>'' = []
   \<and> serve ex_env \<lparr>endpoint = POST_create_post, cookie = ex_bob_cookie,
        form = [''title'' \<mapsto> FStr '' \<newline>'', ''body'' \<mapsto> FStr ''World'']\<rparr> ex_db
     = (ex_db, Reply (Render (CreatePostForm [''Add a title''])) [])"
proof -
  have h1: "auth_middleware (jwt_secret ex_env) (now_seconds ex_env) ex_bob_cookie = Some ex_bob_claims"
    by code_simp
  have h2: "js_trim '' \<newline>'' = []" "js_trim ''World'' \<noteq> []" by code_simp+
  show ?thesis
    using h1 h2 create_post_blank_rejected [where t = "'' \<newline>''" and b = "''World''" and d = ex_db
      and hr = "\<lparr>endpoint = POST_create_post, cookie = ex_bob_cookie,
        form = [''title'' \<mapsto> FStr '' \<newline>'', ''body'' \<mapsto> FStr ''World'']\<rparr>"
      and e = ex_env and c = ex_bob_claims]
    by simp
qed

theorem register_invalid_rejected_witness:
  "length (js_trim ''al'') < 3
   \<and> serve ex_env \<lparr>endpoint = POST_register, cookie = None,
        form = [''username'' \<mapsto> FStr ''al'', ''password'' \<mapsto> FStr ''pw'']\<rparr> ex_db
     = (ex_db, Reply (Render (Homepage [''Username should be 3-10 characters long'',
                                       ''Password should be 6-70 characters long''])) [])"
proof -
  have h: "length (js_trim ''al'') < 3" by code_simp
  have e: "register_errors (js_trim ''al'') (js_trim ''pw'') (select_user_by_username (js_trim ''al'') ex_db)
           = [''Username should be 3-10 characters long'', ''Password should be 6-70 characters long'']"
    by code_simp
  show ?thesis
    using h e register_invalid_rejected [where uname = "''al''" and passwd = "''pw''" and d = ex_db
      and e = ex_env and hr = "\<lparr>endpoint = POST_register, cookie = None,
        form = [''username'' \<mapsto> FStr ''al'', ''password'' \<mapsto> FStr ''pw'']\<rparr>"]
    by simp
qed

theorem mutation_routes_never_change_store_witness:
  "fst (serve ex_env \<lparr>endpoint = POST_delete_post ''1'', cookie = ex_alice_cookie, form = Map.empty\<rparr> ex_db)
     = ex_db"
  by (rule mutation_routes_never_change_store) simp

theorem get_post_never_author_witness:
  "select_post_join_user ''1'' ex_db = Some (ex_post, Some (SText ''alice1''))
   \<and> serve ex_env \<lparr>endpoint = GET_post ''1'', cookie = ex_alice_cookie, form = Map.empty\<rparr> ex_db
     = (ex_db, Reply (Render (SinglePost ex_post (Some (SText ''alice1'')) False)) [])"
proof -
  have h: "select_post_join_user ''1'' ex_db = Some (ex_post, Some (SText ''alice1''))" by code_simp
  show ?thesis using h get_post_never_author [OF _ h] by simp
qed

theorem mutation_of_missing_post_fails_witness:
  "select_post ''7'' ex_db = None
   \<and> auth_middleware (jwt_secret ex_env) (now_seconds ex_env) ex_alice_cookie \<noteq> None
   \<and> serve ex_env \<lparr>endpoint = POST_delete_post ''7'', cookie = ex_alice_cookie, form = Map.empty\<rparr> ex_db
     = (ex_db, InternalServerError)"
proof -
  have h1: "select_post ''7'' ex_db = None" by code_simp
  have h2: "auth_middleware (jwt_secret ex_env) (now_seconds ex_env) ex_alice_cookie \<noteq> None"
    by code_simp
  show ?thesis
    using h1 h2 mutation_of_missing_post_fails [where p = "''7''" and d = ex_db and e = ex_env
      and hr = "\<lparr>endpoint = POST_delete_post ''7'', cookie = ex_alice_cookie, form = Map.empty\<rparr>"]
    by simp
qed

theorem serve_preserves_db_wf_witness:
  "db_wf ex_db \<and> db_wf (fst (serve ex_env \<lparr>endpoint = POST_register, cookie = None,
     form = [''username'' \<mapsto> FStr ''carol7'', ''password'' \<mapsto> FStr ''secret3'']\<rparr> ex_db))"
proof -
  have h: "db_wf ex_db" by code_simp
  show ?thesis using h serve_preserves_db_wf [OF h] by simp
qed

end
