(* ===== verification/Server.thy ===== *)
theory Server
  imports Routes "HOL-Library.Sublist"
begin

text \<open>
  The server over time: the store that persists between requests, the session tokens
  the server has issued, the steps a request makes, and the states reachable from the
  first start on an empty database. The client is arbitrary: in a step it may present
  any cookie except a token signed with the server's secret that the server never
  issued (the secret is not known to it). The invariant \<open>sys_inv\<close> says that the store
  is well formed and its STRING columns hold affinity-normal values, that every post's author is a user, and that every issued token names
  a registered user; it holds in every reachable state. Along every run, from any state,
  the user and post tables are only appended to (\<open>appends\<close>), so a visible post never
  changes.
\<close>

subsection \<open>Issued tokens and the growth of the store\<close>

definition registered :: "db \<Rightarrow> rowid \<Rightarrow> sqlval \<Rightarrow> bool" where
  "registered d i n \<longleftrightarrow> (\<exists>u\<in>set (rows (user_tbl d)). user_id u = i \<and> user_username u = n)"

definition token_of_user :: "db \<Rightarrow> token \<Rightarrow> bool" where
  "token_of_user d t \<longleftrightarrow> (\<exists>c k. t = JWS c k \<and> registered d (userId c) (username c))"

fun cookie_token :: "cookie_op \<Rightarrow> token option" where
  "cookie_token (SetCookie n t opts) = Some t"
| "cookie_token (ClearCookie n opts) = None"

definition set_tokens :: "cookie_op list \<Rightarrow> token set" where
  "set_tokens cs = {t. Some t \<in> cookie_token ` set cs}"

definition users_grow :: "db \<Rightarrow> db \<Rightarrow> bool" where
  "users_grow d d' \<longleftrightarrow> set (rows (user_tbl d)) \<subseteq> set (rows (user_tbl d'))"

text \<open>The user and post tables of \<open>d'\<close> extend those of \<open>d\<close>: rows are only appended.\<close>

definition appends :: "db \<Rightarrow> db \<Rightarrow> bool" where
  "appends d d' \<longleftrightarrow> prefix (rows (user_tbl d)) (rows (user_tbl d'))
     \<and> prefix (rows (post_tbl d)) (rows (post_tbl d'))"

definition grows :: "rowid set \<Rightarrow> world \<Rightarrow> world \<Rightarrow> bool" where
  "grows A w w' \<longleftrightarrow> users_grow (wdb w) (wdb w')
     \<and> authorid ` set (rows (post_tbl (wdb w'))) \<subseteq> authorid ` set (rows (post_tbl (wdb w))) \<union> A
     \<and> (\<forall>t\<in>set_tokens (set_cookies w'). t \<in> set_tokens (set_cookies w) \<or> token_of_user (wdb w') t)"

definition minted :: "http_response \<Rightarrow> token set" where
  "minted resp = (case resp of Reply rp cs \<Rightarrow> set_tokens cs | _ \<Rightarrow> {})"

record sys =
  store :: db
  issued :: "token set"

definition init_sys :: sys where
  "init_sys = \<lparr>store = createTables, issued = {}\<rparr>"

definition forgeable :: "string option \<Rightarrow> token \<Rightarrow> bool" where
  "forgeable secret t \<longleftrightarrow> (case t of JWS c k \<Rightarrow> secret \<noteq> Some k | Opaque _ \<Rightarrow> True)"

definition cookie_allowed :: "string option \<Rightarrow> token set \<Rightarrow> token option \<Rightarrow> bool" where
  "cookie_allowed secret iss ck \<longleftrightarrow> (case ck of None \<Rightarrow> True | Some t \<Rightarrow> forgeable secret t \<or> t \<in> iss)"

inductive server_step :: "string option \<Rightarrow> sys \<Rightarrow> sys \<Rightarrow> bool" for secret where
  request: "jwt_secret e = secret \<Longrightarrow> cookie_allowed secret (issued s) (cookie hr) \<Longrightarrow>
            serve e hr (store s) = (d', resp) \<Longrightarrow>
            server_step secret s \<lparr>store = d', issued = issued s \<union> minted resp\<rparr>"

inductive reachable :: "string option \<Rightarrow> sys \<Rightarrow> bool" for secret where
  init: "reachable secret init_sys"
| step: "reachable secret s \<Longrightarrow> server_step secret s s' \<Longrightarrow> reachable secret s'"

definition sys_inv :: "sys \<Rightarrow> bool" where
  "sys_inv s \<longleftrightarrow> db_wf (store s) \<and> db_typed (store s)
     \<and> authorid ` set (rows (post_tbl (store s))) \<subseteq> user_id ` set (rows (user_tbl (store s)))
     \<and> (\<forall>t\<in>issued s. token_of_user (store s) t)"

subsection \<open>An example run\<close>

text \<open>
  Carol registers on a fresh server (the form \<open>ex_reg_form\<close> of the route examples) and
  then, with the session cookie she received, creates a post.
\<close>

abbreviation ex_carol_claims :: claims where
  "ex_carol_claims \<equiv> \<lparr>exp = 87400, userId = 1, username = SText ''carol7'', iat = 1000\<rparr>"

abbreviation ex_carol :: user_row where
  "ex_carol \<equiv> \<lparr>user_id = 1, user_username = SText ''carol7'',
     user_password = Bcrypt ''$2b$10$abcdefghijklmnopqrstuv'' (utf8_encode ''secret3'')\<rparr>"

abbreviation ex_store1 :: db where
  "ex_store1 \<equiv> \<lparr>user_tbl = \<lparr>rows = [ex_carol], seq = 1\<rparr>, post_tbl = \<lparr>rows = [], seq = 0\<rparr>\<rparr>"

abbreviation ex_carol_token :: token where
  "ex_carol_token \<equiv> JWS ex_carol_claims ''k''"

abbreviation ex_sys1 :: sys where
  "ex_sys1 \<equiv> \<lparr>store = ex_store1, issued = {ex_carol_token}\<rparr>"

abbreviation ex_store2 :: db where
  "ex_store2 \<equiv> ex_store1\<lparr>post_tbl := \<lparr>rows = [\<lparr>post_id = 1, createdDate = ''1970-01-01T00:16:40.000Z'',
     title = SText ''Hi'', body = SText ''Text'', authorid = 1\<rparr>], seq = 1\<rparr>\<rparr>"

abbreviation ex_post_form :: "string \<Rightarrow> field option" where
  "ex_post_form \<equiv> [''title'' \<mapsto> FStr ''Hi'', ''body'' \<mapsto> FStr ''Text'']"

abbreviation ex_sys2 :: sys where
  "ex_sys2 \<equiv> \<lparr>store = ex_store2, issued = {JWS ex_carol_claims ''k''}\<rparr>"

subsection \<open>The invariant\<close>

lemma registered_mono: "users_grow d d' \<Longrightarrow> registered d i n \<Longrightarrow> registered d' i n"
  by (auto simp: users_grow_def registered_def)

lemma token_of_user_mono: "users_grow d d' \<Longrightarrow> token_of_user d t \<Longrightarrow> token_of_user d' t"
  by (auto simp: token_of_user_def intro: registered_mono)

lemma transp_grows: "transp (grows A)"
proof (rule transpI)
  fix w1 w2 w3 assume g12: "grows A w1 w2" and g23: "grows A w2 w3"
  then have u13: "users_grow (wdb w1) (wdb w3)" by (auto simp: grows_def users_grow_def)
  have "t \<in> set_tokens (set_cookies w1) \<or> token_of_user (wdb w3) t"
    if t: "t \<in> set_tokens (set_cookies w3)" for t
  proof -
    from g23 t have "t \<in> set_tokens (set_cookies w2) \<or> token_of_user (wdb w3) t"
      by (simp add: grows_def)
    moreover from g12 have "t \<in> set_tokens (set_cookies w2) \<Longrightarrow>
        t \<in> set_tokens (set_cookies w1) \<or> token_of_user (wdb w2) t"
      by (simp add: grows_def)
    moreover from g23 have "users_grow (wdb w2) (wdb w3)" by (simp add: grows_def)
    ultimately show ?thesis by (blast intro: token_of_user_mono)
  qed
  moreover have "authorid ` set (rows (post_tbl (wdb w3)))
      \<subseteq> authorid ` set (rows (post_tbl (wdb w1))) \<union> A"
    using g12 g23 unfolding grows_def by blast
  ultimately show "grows A w1 w3" using u13 by (simp add: grows_def)
qed

lemma frame_rel_grows: "frame_rel (grows A)"
  unfolding frame_rel_def
  by (simp add: transp_grows reflp_def grows_def users_grow_def set_tokens_def)

lemma keeps_db_read_at:
  "frame_rel R \<Longrightarrow> (\<And>w. R w (snd (f (q (wdb w)) w))) \<Longrightarrow> keeps R (bindA (db_read q) f)"
  by (simp add: keeps_def bindA_def db_read_def)

lemma select_user_by_id_Some:
  "select_user_by_id n d = Some u \<Longrightarrow> u \<in> set (rows (user_tbl d)) \<and> user_id u = n"
  by (simp add: select_user_by_id_def tbl_lookup_def find_Some_iff) (metis nth_mem)

lemma grows_mint_session:
  assumes "usr \<in> set (rows (user_tbl (wdb w)))"
  shows "grows A w (snd (bindA (liftE (jwt_sign key now (session_payload e usr)))
                (\<lambda>tok. bindA (res_cookie n tok opts) (\<lambda>_. res_redirect u)) w))"
  using assms
  by (auto simp: grows_def act_simps jwt_sign_def session_payload_def set_tokens_def
      token_of_user_def registered_def users_grow_def split: option.splits)

lemma keeps_grows_handlers:
  "keeps (grows (userId ` set_option (req_user r))) (handler_of ep e r)"
proof -
  let ?A = "userId ` set_option (req_user r)"
  note fr = frame_rel_grows [of ?A]
  have ins_p: "req_user r = Some c \<Longrightarrow> keeps (grows ?A) (db_write (insert_post t0 t b (userId c)))"
    for c t0 t b
    by (rule keeps_db_write [OF fr])
       (auto simp: insert_post_def grows_def users_grow_def tbl_append_def split: sum.splits)
  have ins_u: "keeps (grows ?A) (db_write (insert_user u h))" for u h
    by (rule keeps_db_write [OF fr])
       (auto simp: insert_user_def grows_def users_grow_def tbl_append_def split: sum.splits if_splits)
  have upd: "keeps (grows ?A) (db_update (update_post t b p))" for t b p
    by (rule keeps_db_update)
       (force simp: grows_def users_grow_def update_post_def tbl_update_def split: option.splits)
  have del: "keeps (grows ?A) (db_update (delete_post p))" for p
    by (rule keeps_db_update)
       (force simp: grows_def users_grow_def delete_post_def tbl_delete_def split: option.splits)
  have reg_tail: "keeps (grows ?A) (bindA (db_read (select_user_by_id n))
      (\<lambda>ou. case ou of None \<Rightarrow> throwA ex
            | Some usr \<Rightarrow> bindA (liftE (jwt_sign key now (session_payload e usr)))
                (\<lambda>tok. bindA (res_cookie nm tok opts) (\<lambda>_. res_redirect u))))" for n ex key now nm opts u
    apply (rule keeps_db_read_at [OF fr])
    subgoal for w
      using fr by (cases "select_user_by_id n (wdb w)")
        (simp_all add: throwA_def frame_rel_def reflpD grows_mint_session select_user_by_id_Some)
    done
  have login_tail: "keeps (grows ?A) (bindA (db_read (select_user_by_username un))
      (\<lambda>uo. let errors = login_errors pw uo
            in if errors \<noteq> [] then res_render (LoginForm errors)
               else case uo of None \<Rightarrow> throwA ex
                 | Some usr \<Rightarrow> bindA (liftE (jwt_sign key now (session_payload e usr)))
                     (\<lambda>tok. bindA (res_cookie nm tok opts) (\<lambda>_. res_redirect u))))"
    for un pw ex key now nm opts u
    apply (rule keeps_db_read_at [OF fr])
    subgoal for w
      using fr by (cases "select_user_by_username un (wdb w)")
        (simp_all add: throwA_def res_render_def frame_rel_def reflpD grows_mint_session
          select_user_by_username_Some Let_def)
    done
  show ?thesis
    by (cases ep)
      (simp_all add: handler_defs split del: if_split;
       intro reg_tail login_tail keeps_handler_intros fr ins_p ins_u upd del; simp)+
qed

inductive_cases server_stepE: "server_step secret s s'"

lemma auth_middleware_SomeD:
  "auth_middleware key now ck = Some c \<Longrightarrow> \<exists>k. ck = Some (JWS c k) \<and> key = Some k"
  by (auto simp: auth_middleware_def jwt_verify_def split: option.splits token.splits sum.splits if_splits)

lemma sys_inv_init: "sys_inv init_sys"
  by (simp add: sys_inv_def init_sys_def createTables_def db_wf_def db_typed_def)

lemma minted_response_of: "minted (response_of res w) \<subseteq> set_tokens (set_cookies w)"
  by (auto simp: minted_def response_of_def split: option.splits sum.splits)

lemma sys_inv_authenticated:
  assumes inv: "sys_inv s" and ok: "cookie_allowed secret (issued s) ck"
    and c: "auth_middleware secret now ck = Some c"
  shows "registered (store s) (userId c) (username c)"
proof -
  from auth_middleware_SomeD [OF c] obtain k where ck: "ck = Some (JWS c k)"
    and key: "secret = Some k" by blast
  with ok have "JWS c k \<in> issued s"
    by (simp add: cookie_allowed_def forgeable_def)
  with inv show ?thesis by (auto simp: sys_inv_def token_of_user_def)
qed

lemma sys_inv_step:
  assumes step: "server_step secret s s'" and inv: "sys_inv s"
  shows "sys_inv s'"
  using step
proof (cases rule: server_step.cases)
  case (request e hr d' resp)
  let ?r = "incoming_request e (cookie hr) (form hr)"
  let ?w0 = "start_world (store s)"
  let ?w1 = "snd (handler_of (endpoint hr) e ?r ?w0)"
  let ?A = "userId ` set_option (req_user ?r)"
  have d': "d' = wdb ?w1" and resp: "resp = response_of (fst (handler_of (endpoint hr) e ?r ?w0)) ?w1"
    using request(4) by (simp_all add: serve_eq Let_def)
  have wf: "db_wf d'"
    using keeps_wf_handlers [of "endpoint hr" e ?r] inv d'
    by (simp add: keeps_def sys_inv_def start_world_def)
  have typed: "db_typed d'"
    using keeps_typed_handlers [of "endpoint hr" e ?r] inv d'
    by (simp add: keeps_def sys_inv_def start_world_def)
  have g: "grows ?A ?w0 ?w1"
    using keeps_grows_handlers [of ?r "endpoint hr" e] by (simp add: keeps_def)
  have A: "?A \<subseteq> user_id ` set (rows (user_tbl (store s)))"
  proof
    fix i assume "i \<in> ?A"
    then obtain c where c: "auth_middleware secret (now_seconds e) (cookie hr) = Some c"
      and i: "i = userId c"
      using request(2) by (auto simp: incoming_request_def)
    from sys_inv_authenticated [OF inv request(3) c] i
    show "i \<in> user_id ` set (rows (user_tbl (store s)))"
      by (auto simp: registered_def intro: image_eqI [OF sym])
  qed
  have ug: "users_grow (store s) d'" using g d' by (simp add: grows_def start_world_def)
  have g2: "authorid ` set (rows (post_tbl d')) \<subseteq> authorid ` set (rows (post_tbl (store s))) \<union> ?A"
    using g d' by (simp add: grows_def start_world_def)
  have u: "user_id ` set (rows (user_tbl (store s))) \<subseteq> user_id ` set (rows (user_tbl d'))"
    using ug by (auto simp: users_grow_def)
  from inv have p0: "authorid ` set (rows (post_tbl (store s))) \<subseteq> user_id ` set (rows (user_tbl (store s)))"
    by (simp add: sys_inv_def)
  have posts: "authorid ` set (rows (post_tbl d')) \<subseteq> user_id ` set (rows (user_tbl d'))"
    using g2 A p0 u by blast
  have toks: "\<forall>t\<in>issued s \<union> minted resp. token_of_user d' t"
  proof
    fix t assume "t \<in> issued s \<union> minted resp"
    then show "token_of_user d' t"
    proof
      assume "t \<in> issued s"
      with inv ug show ?thesis by (auto simp: sys_inv_def intro: token_of_user_mono)
    next
      assume "t \<in> minted resp"
      then have "t \<in> set_tokens (set_cookies ?w1)" using resp minted_response_of by blast
      with g d' show ?thesis by (simp add: grows_def start_world_def set_tokens_def)
    qed
  qed
  show ?thesis using request(1) wf typed posts toks by (simp add: sys_inv_def)
qed

lemma reachable_sys_inv: "reachable secret s \<Longrightarrow> sys_inv s"
  by (induction rule: reachable.induct) (auto intro: sys_inv_init sys_inv_step)

lemma ex_step1: "server_step (Some ''k'') init_sys ex_sys1"
proof -
  let ?opts = "session_cookie_opts ex_env"
  have r1: "serve ex_env \<lparr>endpoint = POST_register, cookie = None, form = ex_reg_form\<rparr> createTables
      = (ex_store1, Reply (Redirect ''/'') [SetCookie ''ourSimpleApp'' ex_carol_token ?opts])"
    by code_simp
  have m1: "minted (Reply (Redirect ''/'') [SetCookie ''ourSimpleApp'' ex_carol_token ?opts]) = {ex_carol_token}"
    by (simp add: minted_def set_tokens_def)
  show ?thesis
    using server_step.request [where secret = "Some ''k''" and e = ex_env and s = init_sys
      and hr = "\<lparr>endpoint = POST_register, cookie = None, form = ex_reg_form\<rparr>"] r1 m1
    by (simp add: init_sys_def cookie_allowed_def)
qed

lemma ex_step2: "server_step (Some ''k'') ex_sys1 ex_sys2"
proof -
  have r2: "serve ex_env \<lparr>endpoint = POST_create_post, cookie = Some ex_carol_token, form = ex_post_form\<rparr> ex_store1
      = (ex_store2, Reply (Redirect ''/post/1'') [])"
    by code_simp
  have m2: "minted (Reply (Redirect ''/post/1'') []) = {}"
    by (simp add: minted_def set_tokens_def)
  show ?thesis
    using server_step.request [where secret = "Some ''k''" and e = ex_env and s = ex_sys1
      and hr = "\<lparr>endpoint = POST_create_post, cookie = Some ex_carol_token, form = ex_post_form\<rparr>"] r2 m2
    by (simp add: cookie_allowed_def)
qed

text \<open>Carol then asks to delete her own post: the server answers with a redirect home and
  the post stays.\<close>

lemma ex_step3: "server_step (Some ''k'') ex_sys2 ex_sys2"
proof -
  have r3: "serve ex_env \<lparr>endpoint = POST_delete_post ''1'', cookie = Some ex_carol_token, form = Map.empty\<rparr>
      ex_store2 = (ex_store2, Reply (Redirect ''/'') [])"
    by code_simp
  have m3: "minted (Reply (Redirect ''/'') []) = {}"
    by (simp add: minted_def set_tokens_def)
  show ?thesis
    using server_step.request [where secret = "Some ''k''" and e = ex_env and s = ex_sys2
      and hr = "\<lparr>endpoint = POST_delete_post ''1'', cookie = Some ex_carol_token, form = Map.empty\<rparr>"] r3 m3
    by (simp add: cookie_allowed_def)
qed

lemma ex_run_reachable: "reachable (Some ''k'') ex_sys2"
  by (rule reachable.step [OF reachable.step [OF reachable.init ex_step1] ex_step2])

subsection \<open>Rows are only appended\<close>

lemma frame_rel_appends: "frame_rel (\<lambda>w w'. appends (wdb w) (wdb w'))"
  by (auto simp: frame_rel_def appends_def reflp_def transp_def intro: prefix_order.trans)

lemma keeps_appends_handlers:
  assumes "req_userid r = JUndefined"
  shows "keeps (\<lambda>w w'. appends (wdb w) (wdb w')) (handler_of ep e r)"
proof -
  note fr = frame_rel_appends
  have ip: "keeps (\<lambda>w w'. appends (wdb w) (wdb w')) (db_write (insert_post c t b a))" for c t b a
    by (rule keeps_db_write [OF fr])
       (auto simp: insert_post_def appends_def tbl_append_def split: sum.splits)
  have iu: "keeps (\<lambda>w w'. appends (wdb w) (wdb w')) (db_write (insert_user u h))" for u h
    by (rule keeps_db_write [OF fr])
       (auto simp: insert_user_def appends_def tbl_append_def split: sum.splits if_splits)
  have ck: "keeps (\<lambda>w w'. appends (wdb w) (wdb w')) (res_cookie n t opts)" for n t opts
    by (rule keeps_res_cookie [OF fr]) (simp add: appends_def)
  have fo: "keeps (\<lambda>w w'. appends (wdb w) (wdb w')) (fetch_owned_post r p k)" for p k
    by (rule keeps_fetch_owned_post_undefined [OF fr assms])
  show ?thesis
    by (cases ep)
      (simp_all add: handler_defs split del: if_split;
       intro keeps_intros fr ip iu ck fo; simp)+
qed

lemma appends_step: "server_step secret s s' \<Longrightarrow> appends (store s) (store s')"
proof (erule server_stepE)
  fix e hr d' resp
  assume s': "s' = \<lparr>store = d', issued = issued s \<union> minted resp\<rparr>"
    and sv: "serve e hr (store s) = (d', resp)"
  let ?r = "incoming_request e (cookie hr) (form hr)"
  have "keeps (\<lambda>w w'. appends (wdb w) (wdb w')) (handler_of (endpoint hr) e ?r)"
    by (rule keeps_appends_handlers) (simp add: incoming_request_def)
  then have "appends (wdb (start_world (store s)))
      (wdb (snd (handler_of (endpoint hr) e ?r (start_world (store s)))))"
    unfolding keeps_def by blast
  then show "appends (store s) (store s')"
    using s' sv by (simp add: serve_eq Let_def start_world_def)
qed

lemma appends_trans: "appends d1 d2 \<Longrightarrow> appends d2 d3 \<Longrightarrow> appends d1 d3"
  by (auto simp: appends_def intro: prefix_order.trans)

lemma tbl_lookup_prefix:
  "prefix (rows t) (rows t') \<Longrightarrow> tbl_lookup rid n t = Some x \<Longrightarrow> tbl_lookup rid n t' = Some x"
  by (auto simp: tbl_lookup_def prefix_def find_append)

lemma appends_select_post_join_user:
  "appends d d' \<Longrightarrow> select_post_join_user p d = Some (q, Some a) \<Longrightarrow>
   select_post_join_user p d' = Some (q, Some a)"
  by (auto simp: appends_def select_post_join_user_def select_post_def select_post_by_id_def
      select_user_by_id_def tbl_lookup_prefix split: option.splits)

subsection \<open>Properties of every reachable state\<close>



text \<open>
  C36: in every reachable state, every username, title and body in the store is a value
  that SQLite's NUMERIC affinity produces from text: a 64-bit integer, a REAL that is not
  an integer within 64 bits (possibly infinite), or text that \<open>sqlite3AtoF\<close> does not
  read as a number. A username or title such as \<open>007\<close> or \<open>7.0\<close> is therefore stored,
  and later shown, as the integer 7.
\<close>
theorem reachable_values_typed: "reachable secret s \<Longrightarrow> db_typed (store s)"
  using reachable_sys_inv [of secret s] by (simp add: sys_inv_def)

subsection \<open>Properties of every run\<close>

text \<open>
  C37: along every run of the server, from any state, the user and post tables only grow
  at the end: no request removes, reorders or rewrites a row. Registration and post
  creation append; the edit and delete routes never reach their UPDATE and DELETE, since
  the ownership check reads the unassigned \<open>req.userid\<close>.
\<close>
theorem posts_users_append_only:
  "(server_step secret)\<^sup>*\<^sup>* s s' \<Longrightarrow> appends (store s) (store s')"
  by (induction rule: rtranclp_induct) (simp add: appends_def, blast intro: appends_trans appends_step)

text \<open>
  C38: once GET /post/:id shows a post with a known author, every later state of the
  server shows the same post (title, body, date, author id) with the same author name:
  posts can be neither edited nor deleted.
\<close>
theorem post_view_persists:
  "(server_step secret)\<^sup>*\<^sup>* s s' \<Longrightarrow> select_post_join_user p (store s) = Some (q, Some a) \<Longrightarrow>
   select_post_join_user p (store s') = Some (q, Some a)"
  by (induction rule: rtranclp_induct) (auto dest: appends_step intro: appends_select_post_join_user)

subsection \<open>Witnesses\<close>



theorem reachable_values_typed_witness:
  "reachable (Some ''k'') ex_sys2 \<and> db_typed (store ex_sys2)"
  using ex_run_reachable reachable_values_typed [OF ex_run_reachable] by blast

theorem posts_users_append_only_witness:
  "(server_step (Some ''k''))\<^sup>*\<^sup>* init_sys ex_sys2 \<and> appends (store init_sys) (store ex_sys2)"
proof -
  have run: "(server_step (Some ''k''))\<^sup>*\<^sup>* init_sys ex_sys2"
    using ex_step1 ex_step2 by (meson rtranclp.rtrancl_into_rtrancl r_into_rtranclp)
  show ?thesis using run posts_users_append_only [OF run] by blast
qed

theorem post_view_persists_witness:
  "(server_step (Some ''k''))\<^sup>*\<^sup>* ex_sys2 ex_sys2
   \<and> select_post_join_user ''1'' (store ex_sys2) = Some (hd (rows (post_tbl ex_store2)), Some (SText ''carol7''))"
proof -
  have run: "(server_step (Some ''k''))\<^sup>*\<^sup>* ex_sys2 ex_sys2"
    using ex_step3 by (rule r_into_rtranclp)
  have v: "select_post_join_user ''1'' (store ex_sys2) = Some (hd (rows (post_tbl ex_store2)), Some (SText ''carol7''))"
    by code_simp
  show ?thesis using run v post_view_persists [OF run v] by blast
qed

end
