(* ===== verification/Router.thy ===== *)
theory Router
  imports Routes
begin

text \<open>
  Express's routing of a request to the route table of \<open>src/server.js\<close> (lines 75-301):
  the path of the request target, matched against each route's path in registration
  order (path-to-regexp: case-insensitive, an optional trailing slash, a parameter is a
  non-empty segment without a slash), the parameter decoded by \<open>decodeURIComponent\<close>
  (ECMA-262 \<open>Decode\<close>; a URIError becomes a 400 page), the request method (a GET
  route also answers HEAD), and the router's own answers: 404 when no route takes the
  request, the \<open>Allow\<close> list for OPTIONS. The middleware that runs first (the body
  parsers, \<open>express.static\<close> on a missing directory, \<open>cookieParser\<close> and the session
  middleware of lines 46-62) has no effect on the store or on the response.
\<close>

subsection \<open>decodeURIComponent\<close>

definition hex_digit :: "char \<Rightarrow> nat option" where
  "hex_digit c =
     (let n = of_char c :: nat in
      if 48 \<le> n \<and> n \<le> 57 then Some (n - 48)
      else if 65 \<le> n \<and> n \<le> 70 then Some (n - 55)
      else if 97 \<le> n \<and> n \<le> 102 then Some (n - 87) else None)"

definition hex_byte :: "char \<Rightarrow> char \<Rightarrow> nat option" where
  "hex_byte h l = (case (hex_digit h, hex_digit l) of (Some a, Some b) \<Rightarrow> Some (16 * a + b) | _ \<Rightarrow> None)"

text \<open>The number of leading one bits of a byte, where it matters (0 to 4, or more).\<close>

definition utf8_lead :: "nat \<Rightarrow> nat" where
  "utf8_lead b =
     (if b < 128 then 0 else if b < 192 then 1 else if b < 224 then 2
      else if b < 240 then 3 else if b < 248 then 4 else 5)"

text \<open>\<open>j\<close> further escapes \<open>%XX\<close>, each a continuation byte \<open>10xxxxxx\<close>.\<close>

fun cont_bytes :: "nat \<Rightarrow> string \<Rightarrow> nat list option" where
  "cont_bytes 0 s = Some []"
| "cont_bytes (Suc j) (c # h # l # s) =
     (if c = CHR ''%'' then
        (case hex_byte h l of
           Some b \<Rightarrow> if b div 64 = 2 then map_option (Cons b) (cont_bytes j s) else None
         | None \<Rightarrow> None)
      else None)"
| "cont_bytes (Suc j) _ = None"

text \<open>The code point of a UTF-8 sequence of two to four bytes, if it is the valid
  (shortest, non-surrogate, at most U+10FFFF) encoding of one.\<close>

definition scalar_from :: "nat \<Rightarrow> nat \<Rightarrow> nat option" where
  "scalar_from lo v = (if lo \<le> v \<and> v \<le> 1114111 \<and> \<not> (55296 \<le> v \<and> v \<le> 57343) then Some v else None)"

fun utf8_code_point :: "nat list \<Rightarrow> nat option" where
  "utf8_code_point [b0, b1] = scalar_from 128 (b0 mod 32 * 64 + b1 mod 64)"
| "utf8_code_point [b0, b1, b2] = scalar_from 2048 (b0 mod 16 * 4096 + b1 mod 64 * 64 + b2 mod 64)"
| "utf8_code_point [b0, b1, b2, b3] =
     scalar_from 65536 (b0 mod 8 * 262144 + b1 mod 64 * 4096 + b2 mod 64 * 64 + b3 mod 64)"
| "utf8_code_point _ = None"

definition uri_malformed :: exc where
  "uri_malformed = URIError ''URI malformed''"

text \<open>\<open>Decode(string, "")\<close>: the code units of the result, as code points.\<close>

function uri_decode :: "string \<Rightarrow> exc + nat list" where
  "uri_decode [] = Inr []"
| "uri_decode (c # cs) =
     (if c \<noteq> CHR ''%'' then map_sum id (Cons (of_char c)) (uri_decode cs)
      else case cs of
        h # l # rest \<Rightarrow>
          (case hex_byte h l of
             None \<Rightarrow> Inl uri_malformed
           | Some b \<Rightarrow>
               if utf8_lead b = 0 then map_sum id (Cons b) (uri_decode rest)
               else if utf8_lead b = 1 \<or> 4 < utf8_lead b then Inl uri_malformed
               else case cont_bytes (utf8_lead b - 1) rest of
                 None \<Rightarrow> Inl uri_malformed
               | Some bs \<Rightarrow>
                   (case utf8_code_point (b # bs) of
                      None \<Rightarrow> Inl uri_malformed
                    | Some v \<Rightarrow> map_sum id (Cons v) (uri_decode (drop (3 * (utf8_lead b - 1)) rest))))
      | _ \<Rightarrow> Inl uri_malformed)"
  by pat_completeness auto
termination
  by (relation "measure length") auto

text \<open>
  better-sqlite3 binds a JavaScript string as its UTF-8 bytes. The route parameter is
  only ever bound to \<open>WHERE id = ?\<close>, so the handlers receive it as that byte text
  (one character per byte); for an ASCII parameter it is the parameter itself.
\<close>

definition utf8_bytes :: "nat \<Rightarrow> nat list" where
  "utf8_bytes v =
     (if v < 128 then [v]
      else if v < 2048 then [192 + v div 64, 128 + v mod 64]
      else if v < 65536 then [224 + v div 4096, 128 + v div 64 mod 64, 128 + v mod 64]
      else [240 + v div 262144, 128 + v div 4096 mod 64, 128 + v div 64 mod 64, 128 + v mod 64])"

definition sqlite_text :: "nat list \<Rightarrow> string" where
  "sqlite_text cps = map char_of (concat (map utf8_bytes cps))"

definition decode_param :: "string \<Rightarrow> exc + string" where
  "decode_param seg = map_sum id sqlite_text (uri_decode seg)"

subsection \<open>Paths and the route table\<close>

text \<open>
  The path of the request target (\<open>parseurl(req).pathname\<close>): everything before the
  query string or a fragment.
\<close>

definition url_path :: "string \<Rightarrow> string" where
  "url_path t = takeWhile (\<lambda>c. c \<noteq> CHR ''?'' \<and> c \<noteq> CHR ''#'') t"

definition ascii_lower :: "char \<Rightarrow> char" where
  "ascii_lower c = (let n = of_char c :: nat in if 65 \<le> n \<and> n \<le> 90 then char_of (n + 32) else c)"

definition eq_ci :: "string \<Rightarrow> string \<Rightarrow> bool" where
  "eq_ci a b \<longleftrightarrow> map ascii_lower a = map ascii_lower b"

text \<open>A route's path: a fixed path, or a fixed prefix followed by the parameter \<open>:id\<close>.\<close>

datatype route_pat = Exact string | WithParam string

text \<open>
  path-to-regexp with \<open>end\<close>, not \<open>strict\<close>, not case sensitive: \<open>^\/logout\/?$\<close>
  (for \<open>/\<close> just \<open>^\/?$\<close>) and \<open>^\/post\/(?:([^\/]+?))\/?$\<close>. The result is the list of
  raw parameter values.
\<close>

definition strip_slash :: "string \<Rightarrow> string" where
  "strip_slash p = (if p \<noteq> [] \<and> last p = CHR ''/'' then butlast p else p)"

fun match_pat :: "route_pat \<Rightarrow> string \<Rightarrow> string list option" where
  "match_pat (Exact l) p =
     (if eq_ci (strip_slash p) (strip_slash l) \<and> (p \<noteq> [] \<or> l = ''/'') then Some [] else None)"
| "match_pat (WithParam l) p =
     (let q = strip_slash p; seg = drop (length l) q in
      if length l \<le> length q \<and> eq_ci (take (length l) q) l \<and> seg \<noteq> [] \<and> CHR ''/'' \<notin> set seg
      then Some [seg] else None)"

text \<open>The routes in the order \<open>src/server.js\<close> registers them.\<close>

definition route_table :: "(string \<times> route_pat \<times> (string list \<Rightarrow> endpoint)) list" where
  "route_table =
     [(''GET'', Exact ''/'', \<lambda>_. GET_home),
      (''GET'', Exact ''/logout'', \<lambda>_. GET_logout),
      (''GET'', Exact ''/create-post'', \<lambda>_. GET_create_post),
      (''POST'', Exact ''/create-post'', \<lambda>_. POST_create_post),
      (''GET'', WithParam ''/post/'', \<lambda>ps. GET_post (hd ps)),
      (''GET'', WithParam ''/edit-post/'', \<lambda>ps. GET_edit_post (hd ps)),
      (''POST'', WithParam ''/edit-post/'', \<lambda>ps. POST_edit_post (hd ps)),
      (''POST'', WithParam ''/delete-post/'', \<lambda>ps. POST_delete_post (hd ps)),
      (''POST'', Exact ''/register'', \<lambda>_. POST_register),
      (''GET'', Exact ''/login'', \<lambda>_. GET_login),
      (''POST'', Exact ''/login'', \<lambda>_. POST_login)]"

definition handles_method :: "string \<Rightarrow> string \<Rightarrow> bool" where
  "handles_method rm m \<longleftrightarrow> rm = m \<or> (rm = ''GET'' \<and> m = ''HEAD'')"

text \<open>\<open>route._options()\<close>: a GET route also allows HEAD.\<close>

definition route_options :: "string \<Rightarrow> string list" where
  "route_options rm = (if rm = ''GET'' then [''GET'', ''HEAD''] else [rm])"

fun decode_params :: "string list \<Rightarrow> exc + string list" where
  "decode_params [] = Inr []"
| "decode_params (v # vs) =
     (case decode_param v of
        Inl x \<Rightarrow> Inl x
      | Inr w \<Rightarrow> map_sum id (Cons w) (decode_params vs))"

datatype route_outcome = Handle endpoint | NoRoute | BadParam exc | AllowOptions "string list"

text \<open>
  The router's \<open>next()\<close> loop: a layer whose parameter fails to decode records the
  error and is skipped, and once an error is recorded no later route runs; a route whose
  path matches runs if it handles the method; for OPTIONS the methods of the matching
  routes are collected. At the end: the recorded error (400), the \<open>Allow\<close> list of
  an OPTIONS request, or 404.
\<close>

fun dispatch :: "string \<Rightarrow> string \<Rightarrow> exc option \<Rightarrow> string list
    \<Rightarrow> (string \<times> route_pat \<times> (string list \<Rightarrow> endpoint)) list \<Rightarrow> route_outcome" where
  "dispatch m p err opts [] =
     (case err of
        Some x \<Rightarrow> BadParam x
      | None \<Rightarrow> if m = ''OPTIONS'' \<and> opts \<noteq> [] then AllowOptions opts else NoRoute)"
| "dispatch m p err opts ((rm, pat, ep) # rs) =
     (case match_pat pat p of
        None \<Rightarrow> dispatch m p err opts rs
      | Some raw \<Rightarrow>
          (case decode_params raw of
             Inl x \<Rightarrow> dispatch m p (if err = None then Some x else err) opts rs
           | Inr vs \<Rightarrow>
               if err \<noteq> None then dispatch m p err opts rs
               else if handles_method rm m then Handle (ep vs)
               else if m = ''OPTIONS''
               then dispatch m p err (opts @ filter (\<lambda>x. x \<notin> set opts) (route_options rm)) rs
               else dispatch m p err opts rs))"

definition express_route :: "string \<Rightarrow> string \<Rightarrow> route_outcome" where
  "express_route m target = dispatch m (url_path target) None [] route_table"

subsection \<open>encodeURIComponent\<close>

text \<open>
  The client side of a URL (ECMA-262 \<open>Encode\<close> with the unreserved set of
  \<open>encodeURIComponent\<close>): letters, digits and \<open>-_.!~*'()\<close> stay, every other code
  unit is written as the \<open>%XX\<close> escapes of its UTF-8 bytes.
\<close>

definition uri_unreserved :: "char \<Rightarrow> bool" where
  "uri_unreserved c \<longleftrightarrow>
     (let n = of_char c :: nat in
      (48 \<le> n \<and> n \<le> 57) \<or> (65 \<le> n \<and> n \<le> 90) \<or> (97 \<le> n \<and> n \<le> 122)
      \<or> c \<in> set ''-_.!~*'()'')"

definition hex_char :: "nat \<Rightarrow> char" where
  "hex_char d = (if d < 10 then char_of (48 + d) else char_of (55 + d))"

definition percent_byte :: "nat \<Rightarrow> string" where
  "percent_byte b = [CHR ''%'', hex_char (b div 16), hex_char (b mod 16)]"

definition encode_uri_component :: "string \<Rightarrow> string" where
  "encode_uri_component s =
     concat (map (\<lambda>c. if uri_unreserved c then [c] else concat (map percent_byte (utf8_encode [c]))) s)"

subsection \<open>Serving an HTTP request\<close>

record http_message =
  msg_method :: string
  msg_target :: string
  msg_cookie :: "token option"
  msg_form :: "string \<Rightarrow> field option"

definition serve_http :: "env \<Rightarrow> http_message \<Rightarrow> db \<Rightarrow> db \<times> http_response" where
  "serve_http e m d =
     (case express_route (msg_method m) (msg_target m) of
        Handle ep \<Rightarrow> serve e \<lparr>endpoint = ep, cookie = msg_cookie m, form = msg_form m\<rparr> d
      | NoRoute \<Rightarrow> (d, NotFound)
      | BadParam x \<Rightarrow> (d, BadRequest)
      | AllowOptions ms \<Rightarrow> (d, OptionsAllow ms))"

subsection \<open>Decoding what the client encodes\<close>

lemma hex_digit_hex_char: "d < 16 \<Longrightarrow> hex_digit (hex_char d) = Some d"
  by (auto simp: hex_digit_def hex_char_def Let_def)

lemma hex_byte_hex_char: "b < 256 \<Longrightarrow> hex_byte (hex_char (b div 16)) (hex_char (b mod 16)) = Some b"
  by (simp add: hex_byte_def hex_digit_hex_char less_mult_imp_div_less)

lemma uri_decode_encoded_char:
  "uri_decode ((if uri_unreserved c then [c] else concat (map percent_byte (utf8_encode [c]))) @ rest)
   = map_sum id (Cons (of_char c)) (uri_decode rest)"
proof -
  define n where "n = (of_char c :: nat)"
  have n256: "n < 256" unfolding n_def by (rule nat_of_char_less_256)
  consider "uri_unreserved c" | "\<not> uri_unreserved c" "n < 128" | "\<not> uri_unreserved c" "128 \<le> n"
    by linarith
  then show ?thesis
  proof cases
    case 1
    then have "c \<noteq> CHR ''%''" by (auto simp: uri_unreserved_def)
    with 1 show ?thesis by simp
  next
    case 2
    then show ?thesis
      by (simp add: percent_byte_def hex_byte_hex_char utf8_lead_def n_def [symmetric])
  next
    case 3
    let ?b0 = "192 + n div 64" and ?b1 = "128 + n mod 64"
    have b0: "hex_byte (hex_char (?b0 div 16)) (hex_char (?b0 mod 16)) = Some ?b0"
      using n256 by (intro hex_byte_hex_char) simp
    have b1: "hex_byte (hex_char (?b1 div 16)) (hex_char (?b1 mod 16)) = Some ?b1"
      by (intro hex_byte_hex_char) simp
    have lead: "utf8_lead ?b0 = 2" using 3 n256 by (simp add: utf8_lead_def)
    have "n div 64 < 32" using n256 by simp
    moreover have "192 + n div 64 = n div 64 + 6 * 32" by simp
    ultimately have "?b0 mod 32 = n div 64" by (metis mod_mult_self1 mod_less)
    moreover have b1e: "?b1 = n mod 64 + 2 * 64" by simp
    then have "?b1 mod 64 = n mod 64" by (metis mod_mult_self1 mod_mod_trivial)
    ultimately have "?b0 mod 32 * 64 + ?b1 mod 64 = n" by simp
    then have cp: "utf8_code_point [?b0, ?b1] = Some n"
      using 3 n256 by (simp add: scalar_from_def)
    have cont: "?b1 div 64 = 2" using b1e by simp
    show ?thesis
      using 3 b0 b1 lead cp cont by (simp add: percent_byte_def n_def [symmetric])
  qed
qed

lemma uri_decode_encode: "uri_decode (encode_uri_component s) = Inr (map of_char s)"
proof (induction s)
  case (Cons c cs)
  then show ?case
    using uri_decode_encoded_char [of c "encode_uri_component cs"]
    by (simp add: encode_uri_component_def)
qed (simp add: encode_uri_component_def)

lemma utf8_bytes_of_char: "utf8_bytes (of_char c) = utf8_encode [c]"
proof -
  have "(of_char c :: nat) < 2048" "(of_char c :: nat) < 65536"
    using nat_of_char_less_256 [of c] by linarith+
  then show ?thesis by (simp add: utf8_bytes_def Let_def)
qed

lemma sqlite_text_utf8_encode: "sqlite_text (map of_char s) = map char_of (utf8_encode s)"
proof (induction s)
  case (Cons c cs)
  have "utf8_encode (c # cs) = utf8_encode [c] @ utf8_encode cs" by (simp add: Let_def)
  with Cons show ?case by (simp add: sqlite_text_def utf8_bytes_of_char)
qed (simp add: sqlite_text_def)

subsection \<open>Routing a parameter segment\<close>

lemma eq_ci_Cons: "eq_ci (a # x) (b # y) \<longleftrightarrow> ascii_lower a = ascii_lower b \<and> eq_ci x y"
  by (simp add: eq_ci_def)

lemma eq_ci_Nil: "eq_ci [] y \<longleftrightarrow> y = []" "eq_ci x [] \<longleftrightarrow> x = []"
  by (auto simp: eq_ci_def)

lemma strip_slash_seg:
  "seg \<noteq> [] \<Longrightarrow> CHR ''/'' \<notin> set seg \<Longrightarrow> strip_slash (l @ seg) = l @ seg"
  by (auto simp: strip_slash_def dest: last_in_set)

lemma url_path_seg:
  "CHR ''?'' \<notin> set seg \<Longrightarrow> CHR ''#'' \<notin> set seg \<Longrightarrow> url_path (l @ seg) = l @ seg
   \<longleftrightarrow> CHR ''?'' \<notin> set l \<and> CHR ''#'' \<notin> set l"
  by (auto simp: url_path_def takeWhile_eq_all_conv)

lemma match_WithParam_seg:
  "seg \<noteq> [] \<Longrightarrow> CHR ''/'' \<notin> set seg \<Longrightarrow> match_pat (WithParam l) (l @ seg) = Some [seg]"
  by (simp add: strip_slash_seg eq_ci_def)

lemma route_param_segment:
  assumes "seg \<noteq> []" and "CHR ''/'' \<notin> set seg" and "CHR ''?'' \<notin> set seg" and "CHR ''#'' \<notin> set seg"
  shows "express_route ''GET'' (''/post/'' @ seg)
           = (case decode_param seg of Inl x \<Rightarrow> BadParam x | Inr t \<Rightarrow> Handle (GET_post t))"
    and "express_route ''GET'' (''/edit-post/'' @ seg)
           = (case decode_param seg of Inl x \<Rightarrow> BadParam x | Inr t \<Rightarrow> Handle (GET_edit_post t))"
    and "express_route ''POST'' (''/edit-post/'' @ seg)
           = (case decode_param seg of Inl x \<Rightarrow> BadParam x | Inr t \<Rightarrow> Handle (POST_edit_post t))"
    and "express_route ''POST'' (''/delete-post/'' @ seg)
           = (case decode_param seg of Inl x \<Rightarrow> BadParam x | Inr t \<Rightarrow> Handle (POST_delete_post t))"
proof -
  have u: "url_path (l @ seg) = l @ seg" if "CHR ''?'' \<notin> set l" "CHR ''#'' \<notin> set l" for l
    using assms(3,4) that url_path_seg [of seg l] by simp
  have st: "strip_slash (l @ seg) = l @ seg" for l
    using assms(1,2) by (rule strip_slash_seg)
  note simps = express_route_def route_table_def match_WithParam_seg eq_ci_Cons eq_ci_Nil
    ascii_lower_def strip_slash_def handles_method_def
  show "express_route ''GET'' (''/post/'' @ seg)
           = (case decode_param seg of Inl x \<Rightarrow> BadParam x | Inr t \<Rightarrow> Handle (GET_post t))"
    using assms(1,2) u [of "''/post/''"] st [of "''/post/''"] by (simp add: simps split: sum.split)
  show "express_route ''GET'' (''/edit-post/'' @ seg)
           = (case decode_param seg of Inl x \<Rightarrow> BadParam x | Inr t \<Rightarrow> Handle (GET_edit_post t))"
    using assms(1,2) u [of "''/edit-post/''"] st [of "''/edit-post/''"] by (simp add: simps split: sum.split)
  show "express_route ''POST'' (''/edit-post/'' @ seg)
           = (case decode_param seg of Inl x \<Rightarrow> BadParam x | Inr t \<Rightarrow> Handle (POST_edit_post t))"
    using assms(1,2) u [of "''/edit-post/''"] st [of "''/edit-post/''"] by (simp add: simps split: sum.split)
  show "express_route ''POST'' (''/delete-post/'' @ seg)
           = (case decode_param seg of Inl x \<Rightarrow> BadParam x | Inr t \<Rightarrow> Handle (POST_delete_post t))"
    using assms(1,2) u [of "''/delete-post/''"] st [of "''/delete-post/''"] by (simp add: simps split: sum.split)
qed

lemma of_char_hex_char: "d < 16 \<Longrightarrow> (of_char (hex_char d) :: nat) = (if d < 10 then 48 + d else 55 + d)"
  by (simp add: hex_char_def)

lemma percent_byte_safe:
  assumes "b < 256" and "c \<in> set (percent_byte b)"
  shows "c \<notin> {CHR ''/'', CHR ''?'', CHR ''#''}"
proof -
  have "b div 16 < 16" "b mod 16 < 16" using assms(1) by simp_all
  then have "(of_char c :: nat) \<in> {37} \<union> {48..57} \<union> {65..70}"
    using assms(2) by (auto simp: percent_byte_def of_char_hex_char split: if_splits)
  then show ?thesis by auto
qed

lemma utf8_encode_bytes: "b \<in> set (utf8_encode s) \<Longrightarrow> b < 256"
proof (induction s)
  case (Cons c cs)
  have "(of_char c :: nat) div 64 < 4"
    by (rule less_mult_imp_div_less) (use nat_of_char_less_256 [of c] in simp)
  with Cons show ?case by (auto simp: Let_def split: if_splits)
qed simp

lemma encode_char_safe:
  assumes "x \<in> set (if uri_unreserved c then [c] else concat (map percent_byte (utf8_encode [c])))"
  shows "x \<notin> {CHR ''/'', CHR ''?'', CHR ''#''}"
proof (cases "uri_unreserved c")
  case True
  then show ?thesis using assms by (auto simp: uri_unreserved_def)
next
  case False
  then obtain b where "b \<in> set (utf8_encode [c])" "x \<in> set (percent_byte b)"
    using assms by (auto simp del: utf8_encode.simps)
  then show ?thesis by (blast dest: percent_byte_safe [OF utf8_encode_bytes])
qed

lemma encode_uri_component_safe:
  "x \<in> set (encode_uri_component p) \<Longrightarrow> x \<notin> {CHR ''/'', CHR ''?'', CHR ''#''}"
proof -
  assume "x \<in> set (encode_uri_component p)"
  then obtain c where "x \<in> set (if uri_unreserved c then [c] else concat (map percent_byte (utf8_encode [c])))"
    unfolding encode_uri_component_def set_concat set_map by blast
  then show ?thesis by (rule encode_char_safe)
qed

lemma encode_uri_component_Nil: "encode_uri_component p = [] \<longleftrightarrow> p = []"
  by (cases p) (auto simp: encode_uri_component_def percent_byte_def Let_def)

lemma decode_param_encode:
  "decode_param (encode_uri_component p) = Inr (map char_of (utf8_encode p))"
  by (simp add: decode_param_def uri_decode_encode sqlite_text_utf8_encode)

lemma uri_decode_plain:
  "CHR ''%'' \<notin> set s \<Longrightarrow> uri_decode s = Inr (map of_char s)"
  by (induction s) auto

lemma sqlite_text_ascii:
  "\<forall>c\<in>set s. (of_char c :: nat) < 128 \<Longrightarrow> sqlite_text (map of_char s) = s"
  by (induction s) (simp_all add: sqlite_text_def utf8_bytes_def)

text \<open>The decimal text of a row id, as the app prints it into \<open>/post/${id}\<close>, is routed to
  the post view with that text as the parameter.\<close>

lemma route_printed_id:
  "express_route ''GET'' (''/post/'' @ js_int_to_string i) = Handle (GET_post (js_int_to_string i))"
proof -
  have ds: "\<forall>c\<in>set (nat_to_decimal n). 48 \<le> (of_char c :: nat) \<and> (of_char c :: nat) \<le> 57" for n
    using nat_to_decimal_digits [of n] by (simp add: list_all_iff is_digit_def)
  have dig: "(of_char c :: nat) < 128 \<and> c \<notin> {CHR ''%'', CHR ''/'', CHR ''?'', CHR ''#''}"
    if "48 \<le> (of_char c :: nat)" "(of_char c :: nat) \<le> 57" for c
    using that by auto
  have ok: "\<forall>c\<in>set (js_int_to_string i). (of_char c :: nat) < 128 \<and> c \<notin> {CHR ''%'', CHR ''/'', CHR ''?'', CHR ''#''}"
  proof
    fix c assume "c \<in> set (js_int_to_string i)"
    then have "c = CHR ''-'' \<or> (48 \<le> (of_char c :: nat) \<and> (of_char c :: nat) \<le> 57)"
      using ds by (auto simp: js_int_to_string_def split: if_splits)
    then show "(of_char c :: nat) < 128 \<and> c \<notin> {CHR ''%'', CHR ''/'', CHR ''?'', CHR ''#''}"
      using dig [of c] by (cases "c = CHR ''-''") simp_all
  qed
  then have "CHR ''%'' \<notin> set (js_int_to_string i)" and "\<forall>c\<in>set (js_int_to_string i). (of_char c :: nat) < 128"
    by auto
  then have "decode_param (js_int_to_string i) = Inr (js_int_to_string i)"
    by (simp add: decode_param_def uri_decode_plain sqlite_text_ascii)
  moreover have "js_int_to_string i \<noteq> []"
    by (simp add: js_int_to_string_def nat_to_decimal_ne)
  ultimately show ?thesis
    using route_param_segment(1) [of "js_int_to_string i"] ok by auto
qed

subsection \<open>Properties of the router\<close>

text \<open>C22: a text that the client puts into a URL with \<open>encodeURIComponent\<close> reaches the
  handler of each \<open>:id\<close> route as the parameter, bound to SQLite as its UTF-8 bytes:
  \<open>decodeURIComponent\<close> undoes the encoding and the escaped segment matches the route.\<close>

theorem route_param_roundtrip:
  assumes "p \<noteq> []"
  shows "express_route ''GET'' (''/post/'' @ encode_uri_component p)
           = Handle (GET_post (map char_of (utf8_encode p)))
    \<and> express_route ''GET'' (''/edit-post/'' @ encode_uri_component p)
           = Handle (GET_edit_post (map char_of (utf8_encode p)))
    \<and> express_route ''POST'' (''/edit-post/'' @ encode_uri_component p)
           = Handle (POST_edit_post (map char_of (utf8_encode p)))
    \<and> express_route ''POST'' (''/delete-post/'' @ encode_uri_component p)
           = Handle (POST_delete_post (map char_of (utf8_encode p)))"
proof -
  have "encode_uri_component p \<noteq> []" using assms by (simp add: encode_uri_component_Nil)
  moreover have "CHR ''/'' \<notin> set (encode_uri_component p)" "CHR ''?'' \<notin> set (encode_uri_component p)"
      "CHR ''#'' \<notin> set (encode_uri_component p)"
    using encode_uri_component_safe by blast+
  ultimately show ?thesis
    using route_param_segment [of "encode_uri_component p"] by (simp add: decode_param_encode)
qed

text \<open>C31: a request to one of the \<open>:id\<close> routes whose parameter segment
  \<open>decodeURIComponent\<close> rejects (a malformed escape, or escapes that are not the shortest
  UTF-8 encoding of a code point) is answered with 400 Bad Request before any handler
  runs, whatever the cookie and the body: the store is unchanged and no cookie is set.\<close>

theorem undecodable_param_bad_request:
  assumes "seg \<noteq> []" and "CHR ''/'' \<notin> set seg" and "CHR ''?'' \<notin> set seg" and "CHR ''#'' \<notin> set seg"
    and "decode_param seg = Inl x"
    and "(m, l) \<in> set [(''GET'', ''/post/''), (''GET'', ''/edit-post/''), (''POST'', ''/edit-post/''),
                       (''POST'', ''/delete-post/'')]"
  shows "serve_http e \<lparr>msg_method = m, msg_target = l @ seg, msg_cookie = ck, msg_form = f\<rparr> d = (d, BadRequest)"
  using route_param_segment [OF assms(1-4)] assms(5,6) by (auto simp: serve_http_def)

subsection \<open>Witnesses\<close>

theorem route_param_roundtrip_witness:
  "''a/b'' \<noteq> [] \<and> encode_uri_component ''a/b'' = ''a%2Fb''
   \<and> express_route ''GET'' ''/post/a%2Fb'' = Handle (GET_post ''a/b'')"
proof -
  have e: "encode_uri_component ''a/b'' = ''a%2Fb''" by code_simp
  have u: "map char_of (utf8_encode ''a/b'') = ''a/b''" by code_simp
  show ?thesis using route_param_roundtrip [of "''a/b''"] e u by simp
qed

theorem undecodable_param_bad_request_witness:
  "decode_param ''%C0%AF'' = Inl uri_malformed
   \<and> serve_http ex_env \<lparr>msg_method = ''POST'', msg_target = ''/delete-post/%C0%AF'',
        msg_cookie = ex_bob_cookie, msg_form = Map.empty\<rparr> ex_db = (ex_db, BadRequest)"
proof -
  have dec: "decode_param ''%C0%AF'' = Inl uri_malformed" by code_simp
  have "serve_http ex_env \<lparr>msg_method = ''POST'', msg_target = ''/delete-post/'' @ ''%C0%AF'',
        msg_cookie = ex_bob_cookie, msg_form = Map.empty\<rparr> ex_db = (ex_db, BadRequest)"
    by (rule undecodable_param_bad_request [OF _ _ _ _ dec]) simp_all
  with dec show ?thesis by simp
qed

end
