(* ===== verification/Spec2Isabelle.thy ===== *)
theory Spec2Isabelle
  imports Server Flows Clock
begin

text \<open>
  \<^bold>\<open>A verification model of the simple blogging app (\<open>src/server.js\<close>).\<close>

  \<^bold>\<open>The program.\<close> One Express application of about 300 lines over a SQLite file
  (better-sqlite3). Its parts, leaf to root: the Credential Store (table \<open>user\<close>) and
  the Post Store (table \<open>post\<close>), both created by \<open>createTables\<close>; the Password
  Hasher (node bcrypt); the Session Token Codec (jsonwebtoken, secret
  \<open>JWTSECRET\<close>); the Authentication Middleware that turns the \<open>ourSimpleApp\<close> cookie
  into \<open>req.user\<close>; the Authorization Gate \<open>mustBeLoggedIn\<close>; the Ownership Check of
  the edit and delete routes; and the eleven route handlers. A request runs the
  middleware, then one handler, which reads and writes the store, may mint a token into
  a cookie, and ends in a redirect or a rendered view.

  \<^bold>\<open>The theories, in import order.\<close>
  \<^item> \<open>Prelude\<close>: type names (\<open>rowid\<close>, \<open>unix_seconds\<close>), the named collections
    \<open>act_simps\<close> and \<open>table_simps\<close>, generic lemmas on lists (\<open>find\<close>, sortedness).
  \<^item> \<open>JsRuntime\<close>: the JavaScript semantics the handlers rely on: the exceptions
    (\<open>exc\<close>), strict equality on primitive values (\<open>js_strict_eq\<close>),
    \<open>String.prototype.trim\<close> (\<open>js_trim\<close>), the body fields of the body parsers
    (\<open>field\<close>, \<open>field_string\<close>: \<open>.trim()\<close> on a non-string is a TypeError), the
    username regular expression (\<open>alnum_regex_test\<close>) and decimal printing of ids in the
    template literal \<open>/post/${id}\<close> (\<open>js_int_to_string\<close>).
  \<^item> \<open>Bcrypt\<close>: \<open>bcrypt.hashSync\<close>/\<open>compareSync\<close> (lines 230-231, 274) as a symbolic
    hash of the salt and the first 72 UTF-8 bytes of the password.
  \<^item> \<open>Sqlite\<close>: SQLite as the program meets it: the storage classes \<open>SInt\<close>,
    \<open>SReal\<close> (an exact normalised decimal), \<open>SInf\<close> and \<open>SText\<close>, the NUMERIC
    affinity that columns declared \<open>STRING\<close> get (\<open>numeric_affinity\<close>: the text is
    read by \<open>sqlite_atof\<close>, the grammar of \<open>sqlite3AtoF\<close>; a pure integer within 64
    bits is an INTEGER, any other number takes the REAL path \<open>real_affinity\<close>, where
    it overflows to infinity, underflows to zero, or becomes an INTEGER when its value is
    an integer strictly inside 64 bits), tables as row lists in row-id order
    with their \<open>sqlite_sequence\<close> entry, AUTOINCREMENT with SQLITE_FULL at
    \<open>2^63 - 1\<close> (\<open>next_rowid\<close>), and \<open>ORDER BY \<dots> DESC\<close>. Lemmas: the table invariant
    \<open>table_wf\<close> is kept by insert, delete and update, and each operation refines the
    corresponding operation on the finite map \<open>tbl_map\<close>; printing a row id and reading
    it back through the affinity gives the same id.
  \<^item> \<open>Store\<close>: the schema (\<open>user_row\<close>, \<open>post_row\<close>, \<open>db\<close>, \<open>createTables\<close>, lines
    11-35) and one definition per SQL statement of the handlers (\<open>select_user_by_username\<close>,
    \<open>insert_user\<close>, \<open>insert_post\<close>, \<open>select_post\<close>, \<open>select_post_join_user\<close>,
    \<open>select_posts_by_author\<close>, \<open>update_post\<close>, \<open>delete_post\<close>, ...). Lemmas: the
    store invariant \<open>db_wf\<close> (well-formed tables, unique usernames) is kept by every
    statement; an insert is found again by the lookups. Claims on the post store: the
    author query lists exactly the author's posts newest first (C19), every post is
    selected back from the id the app prints (C27), an update keeps ids, dates and authors
    (C28), and an insert is a finite-map update at a fresh id (C29).
  \<^item> \<open>Jwt\<close>: \<open>jwt.sign\<close>/\<open>jwt.verify\<close> in the Dolev-Yao style: a token \<open>JWS c k\<close>
    carries its claims and the key that signed it; any other cookie is \<open>Opaque\<close>.
    Verification fails on a malformed token, a missing secret, a foreign key, or
    \<open>now \<ge> exp\<close>.
  \<^item> \<open>Auth\<close>: the environment of a request (\<open>env\<close>: secret, clock, salt, production
    flag), the response (\<open>reply\<close>, \<open>view\<close>, cookie headers), the handler action type
    \<open>'a act\<close> (a state-and-exception monad over the store and the response, with
    \<open>bindA\<close>, \<open>throwA\<close>, \<open>db_read\<close>, \<open>db_write\<close>), Express's \<open>res.redirect\<close>,
    \<open>res.render\<close>, \<open>res.cookie\<close> (a second response throws ERR_HTTP_HEADERS_SENT), the
    request record with \<open>req.user\<close> and the never-assigned \<open>req.userid\<close>, the
    middleware (\<open>auth_middleware\<close>, lines 46-64) and \<open>mustBeLoggedIn\<close> (lines 67-72).
  \<^item> \<open>Routes\<close>: every handler of lines 75-301 (\<open>get_home\<close>, \<open>post_create_post\<close>,
    \<open>get_post\<close>, \<open>fetch_owned_post\<close>, \<open>post_edit_post\<close>, \<open>post_delete_post\<close>,
    \<open>post_register\<close>, \<open>post_login\<close>, ...), the route table \<open>handler_of\<close>, and
    \<open>serve\<close>, one request from a store to a store and an HTTP response (the reply sent,
    or Express's 500 page when the handler threw first).
  \<^item> \<open>Router\<close>: Express's routing of an HTTP request (\<open>http_message\<close>: method,
    request target, cookie, body) to the route table (\<open>route_table\<close>, the eleven
    registrations of lines 75-262 in order). The path is the target before \<open>?\<close> or \<open>#\<close>
    (\<open>url_path\<close>); route paths match case-insensitively with an optional trailing slash
    (\<open>match_pat\<close>, path-to-regexp); the \<open>:id\<close> segment is decoded by
    \<open>decodeURIComponent\<close> (\<open>uri_decode\<close>, ECMA-262 \<open>Decode\<close>, with its URIError
    for a bad escape or an invalid UTF-8 sequence) and handed to the handler as the
    UTF-8 bytes better-sqlite3 binds (\<open>decode_param\<close>); \<open>dispatch\<close> is the router's
    \<open>next()\<close> loop (a decoding error is recorded and ends in 400, GET routes answer
    HEAD, OPTIONS collects the allowed methods, nothing matching gives 404);
    \<open>serve_http\<close> composes it with \<open>serve\<close>. Lemmas: decoding undoes
    \<open>encodeURIComponent\<close>, the printed id of a post routes to its view, and
    \<open>route_param_segment\<close> routes any \<open>:id\<close> segment.
  \<^item> \<open>Clock\<close>: \<open>new Date().toISOString()\<close> (line 110) by the date arithmetic of
    ECMA-262: \<open>day_from_year\<close> (the specification's \<open>DayFromYear\<close>), the year walk
    \<open>year_walk\<close>, the month walk, the printed fields and \<open>js_toISOString\<close> with its
    RangeError beyond \<open>8.64e15\<close> ms. Lemmas: the year walk agrees with
    \<open>YearFromTime\<close>, printed dates order as times, and have fixed width.
  \<^item> \<open>Flows\<close>: request-level behaviours beyond the scenarios of \<open>Routes\<close>. Every
    request is answered (\<open>responds\<close>, proved per combinator and then for every handler).
    Also: the home page, the fail-closed middleware, the gate, logout, and what the
    libraries make of the inputs: NUMERIC affinity on usernames, bcrypt's 72-byte limit,
    \<open>jwt.sign\<close> without a secret, and SQLITE_FULL on the post table.
  \<^item> \<open>Server\<close>: the server over a sequence of requests (\<open>app.listen\<close>, line 302):
    the state \<open>sys\<close> is the store and the set of session tokens issued so far;
    \<open>server_step\<close> serves one request with \<open>serve\<close> from a client that may present any
    cookie except a token signed with the secret that the server never issued (the
    client does not know the secret); \<open>reachable\<close> starts from \<open>init_sys\<close>, the
    tables \<open>createTables\<close> makes on an empty file. The frame relation \<open>grows\<close> (users
    only added, new posts authored by the authenticated user, new tokens naming
    registered users) is kept by every handler; with it the invariant \<open>sys_inv\<close> (a
    well-formed store with affinity-normal values, every post authored by a user, every issued token naming a user) holds
    in every reachable state, by rule induction. A second frame relation, \<open>appends\<close>
    (both tables are prefixes of their successors), is kept by every handler once
    \<open>req.userid\<close> is unassigned, and carries over to every run
    (\<open>(server_step secret)\<^sup>*\<^sup>*\<close>) by induction on the closure.

  \<^bold>\<open>What is proved\<close> (the claims C1-C40 of the manifest, each after a text naming it):
  a non-owner's edit or delete is redirected and changes nothing (C1), and in fact no
  edit or delete ever changes the store, because the ownership check reads the
  unassigned \<open>req.userid\<close> (C11); viewing a post never shows it as the viewer's (C12);
  the edit and delete routes answer a missing post with a 500 page (C14); registration
  rejects existing usernames (C2) and invalid input (C10) without effect, and otherwise
  inserts the user and sets a 24-hour session token for it (C3); a token verifies to its
  payload until it expires (C4) and the middleware authenticates exactly the unexpired
  tokens signed with the secret (C5); login failures are indistinguishable (C6) and a
  correct login mints the token (C7); creating a post inserts it and redirects to a URL
  that selects it (C8), and blank posts are rejected (C9); every request keeps the store
  well formed (C13). Over any run of the server, every post's author is a registered user
  (C15) and every accepted session cookie names a registered user (C16). Every HTTP
  request is answered, by the router (404, 400, OPTIONS) or by its handler (C17); the home page shows the signed-in user's posts newest first (C18,
  C19); a cookie that fails verification is the same as none (C20); the gate redirects
  anonymous requests (C21); a text sent in a URL with \<open>encodeURIComponent\<close> reaches
  the handler of each \<open>:id\<close> route as its parameter (C22). Usernames that read as the
  same number (7, 007, 7.0, 7e0) are one account (C23), passwords equal on their first 72 bytes are
  interchangeable (C24), a registration without a secret leaves the user row behind a 500
  page (C25), and a full post table makes creation fail (C26). The edit form is never rendered (C30)
  and an \<open>:id\<close> segment that \<open>decodeURIComponent\<close> rejects gets 400 before any
  handler runs (C31). The creation dates printed by
  \<open>toISOString\<close> compare as the times they print, so the dashboard's \<open>ORDER BY createdDate
  DESC\<close> is newest first by creation time (C32); the year loop computes the
  specification's \<open>YearFromTime\<close> (C33) and terminates (C34); the printed date has 24
  characters for years 0000-9999 (C35). In every reachable state every stored username,
  title and body is a value NUMERIC affinity makes from text (C36). Along every run the
  user and post tables only grow at the end (C37), so a post, once visible, is shown
  unchanged in every later state (C38); and following the redirect of a post creation
  shows the new post under its author's name, the redirect URL going through the router
  (C39). After a registration, every name
  SQLite reads as the same number is taken (C40).

  \<^bold>\<open>Bounds.\<close> Row ids are \<^typ>\<open>int\<close> with the 64-bit bound written out
  (\<open>max_rowid\<close>); no handler loops, so no fuel is needed. The range of a double
  enters the affinity as two exact thresholds, \<open>2 ^ 1024 - 2 ^ 970\<close> for overflow and
  \<open>2 ^ -1075\<close> for underflow; the normalisation \<open>dec_normal\<close> terminates by the
  measure \<open>|m|\<close>. The clock is one reading
  per request, in milliseconds (\<open>now_ms\<close>); token times are its seconds
  (\<open>Math.floor(Date.now()/1000)\<close>) and a post's \<open>createdDate\<close> is
  \<open>js_toISOString\<close> of it. The only loop is the year walk of the date computation,
  a \<^theory_text>\<open>function\<close> whose termination measure is the distance of the day count from the
  current year's range; the order and length theorems are stated for years 0000-9999,
  where \<open>toISOString\<close> prints four-digit years.

  \<^bold>\<open>Not modelled.\<close> The EJS views (a rendered page is its view name and locals),
  \<open>express.static\<close> (the \<open>public\<close> directory is not in the repository, so it passes
  every request on), \<open>dotenv\<close>, \<open>app.listen\<close>, the WAL pragma, the body parsers
  (a request carries its parsed form; the 400, 413 and 415 answers of
  \<open>express.json\<close> and \<open>express.urlencoded\<close> to malformed, oversized or unsupported
  bodies are not modelled), request targets with a fragment or in absolute form (which
  \<open>parseurl\<close> hands to \<open>url.parse\<close>), SQLite's
  rounding of a REAL to the nearest double (a REAL is kept as the exact decimal it was
  read from, so two literals with more than 15 significant digits that round to one
  double are told apart, and \<open>sqlite3AtoF\<close>'s cut at 19 significant digits is not
  applied), and the cryptography itself (tokens and hashes are symbolic). Strings are Latin-1 code units, so JavaScript's \<open>.length\<close> is
  \<^const>\<open>length\<close>.
\<close>

end
